theory Spec2Isabelle
  imports Complex_Main "HOL-Library.Log_Nat"
begin

section \<open>Floating-point values\<close>

text \<open>
  A floating-point value is \<open>Fin r\<close>, the finite number \<open>r\<close>; or \<open>NaN\<close>; or
  \<open>NonFin\<close>, an infinity or a NaN, the model does not say which; or \<open>Undet\<close>, a value
  that the model does not determine at all. The two signed zeros are both \<open>Fin 0\<close>.

  The operations follow IEEE 754 without computing a rounding. An operation on finite
  operands whose exact result is a number of the format returns that number, which is what a
  correctly rounded operation does. When the exact result is not a number of the format the
  machine rounds it or overflows, and the model returns \<open>Undet\<close>. A NaN operand makes the
  result a NaN. With an operand that is \<open>NonFin\<close> the result is \<open>NonFin\<close> where the
  standard makes it an infinity or a NaN whatever the other operands are, and \<open>Undet\<close>
  otherwise (a finite number divided by an infinity is a zero). A value computed from
  \<open>Undet\<close> is \<open>Undet\<close>, except where the standard again fixes an infinity or a NaN.

  So a value that the model gives as \<open>Fin r\<close>, \<open>NaN\<close> or \<open>NonFin\<close> is the value of the
  machine computation, and the model says nothing about a value it gives as \<open>Undet\<close>.
\<close>

datatype fp = Fin real | NaN | NonFin | Undet

text \<open>
  The finite numbers of a binary format with \<open>p\<close> significant bits, least positive number
  \<open>2^-d\<close> and all magnitudes below \<open>2^E\<close>: the multiples \<open>n * 2^-d\<close> whose \<open>n\<close> has no
  more than \<open>p\<close> bits from its leading to its last non-zero bit.
\<close>

definition is_binary :: "nat \<Rightarrow> nat \<Rightarrow> nat \<Rightarrow> real \<Rightarrow> bool" where
  "is_binary p d E r =
     (let n = \<lfloor>\<bar>r\<bar> * 2 ^ d\<rfloor>
      in of_int n = \<bar>r\<bar> * 2 ^ d \<and> \<bar>r\<bar> < 2 ^ E \<and> n mod 2 ^ (nat (bitlen n) - p) = 0)"

text \<open>binary64 (\<open>double\<close>), binary32 (\<open>float\<close>) and binary16 (\<open>half\<close>).\<close>

definition is_double :: "real \<Rightarrow> bool" where
  "is_double = is_binary 53 1074 1024"

definition is_float :: "real \<Rightarrow> bool" where
  "is_float = is_binary 24 149 128"

definition is_half :: "real \<Rightarrow> bool" where
  "is_half = is_binary 11 24 16"

text \<open>The operations, for a format given by its predicate \<open>F\<close>.\<close>

fun fp_add :: "(real \<Rightarrow> bool) \<Rightarrow> fp \<Rightarrow> fp \<Rightarrow> fp" where
  "fp_add F (Fin a) (Fin b) = (if F (a + b) then Fin (a + b) else Undet)"
| "fp_add F NaN _ = NaN"
| "fp_add F _ NaN = NaN"
| "fp_add F NonFin _ = NonFin"
| "fp_add F _ NonFin = NonFin"
| "fp_add F _ _ = Undet"

fun fp_sub :: "(real \<Rightarrow> bool) \<Rightarrow> fp \<Rightarrow> fp \<Rightarrow> fp" where
  "fp_sub F (Fin a) (Fin b) = (if F (a - b) then Fin (a - b) else Undet)"
| "fp_sub F NaN _ = NaN"
| "fp_sub F _ NaN = NaN"
| "fp_sub F NonFin _ = NonFin"
| "fp_sub F _ NonFin = NonFin"
| "fp_sub F _ _ = Undet"

fun fp_mul :: "(real \<Rightarrow> bool) \<Rightarrow> fp \<Rightarrow> fp \<Rightarrow> fp" where
  "fp_mul F (Fin a) (Fin b) = (if F (a * b) then Fin (a * b) else Undet)"
| "fp_mul F NaN _ = NaN"
| "fp_mul F _ NaN = NaN"
| "fp_mul F NonFin _ = NonFin"
| "fp_mul F _ NonFin = NonFin"
| "fp_mul F _ _ = Undet"

text \<open>
  A division by zero gives an infinity or a NaN whatever the dividend is (a NaN when the
  dividend is a zero or a NaN); an infinite dividend gives an infinity or a NaN.
\<close>

fun fp_div :: "(real \<Rightarrow> bool) \<Rightarrow> fp \<Rightarrow> fp \<Rightarrow> fp" where
  "fp_div F (Fin a) (Fin b) =
     (if b = 0 then NonFin else if F (a / b) then Fin (a / b) else Undet)"
| "fp_div F NaN (Fin b) = (if b = 0 then NonFin else NaN)"
| "fp_div F Undet (Fin b) = (if b = 0 then NonFin else Undet)"
| "fp_div F NaN _ = NaN"
| "fp_div F _ NaN = NaN"
| "fp_div F NonFin _ = NonFin"
| "fp_div F _ _ = Undet"

text \<open>The square root of a negative number is a NaN.\<close>

fun fp_sqrt :: "(real \<Rightarrow> bool) \<Rightarrow> fp \<Rightarrow> fp" where
  "fp_sqrt F (Fin a) = (if a < 0 then NaN else if F (sqrt a) then Fin (sqrt a) else Undet)"
| "fp_sqrt F NaN = NaN"
| "fp_sqrt F NonFin = NonFin"
| "fp_sqrt F Undet = Undet"

text \<open>The fused multiply-add rounds once.\<close>

fun fp_fma :: "(real \<Rightarrow> bool) \<Rightarrow> fp \<Rightarrow> fp \<Rightarrow> fp \<Rightarrow> fp" where
  "fp_fma F (Fin a) (Fin b) (Fin c) = (if F (a * b + c) then Fin (a * b + c) else Undet)"
| "fp_fma F NaN _ _ = NaN"
| "fp_fma F _ NaN _ = NaN"
| "fp_fma F _ _ NaN = NaN"
| "fp_fma F NonFin _ _ = NonFin"
| "fp_fma F _ NonFin _ = NonFin"
| "fp_fma F _ _ NonFin = NonFin"
| "fp_fma F _ _ _ = Undet"

text \<open>Negation and absolute value are exact in every format.\<close>

fun dneg :: "fp \<Rightarrow> fp" where
  "dneg (Fin a) = Fin (- a)"
| "dneg NaN = NaN"
| "dneg NonFin = NonFin"
| "dneg Undet = Undet"

fun dfabs :: "fp \<Rightarrow> fp" where
  "dfabs (Fin a) = Fin \<bar>a\<bar>"
| "dfabs NaN = NaN"
| "dfabs NonFin = NonFin"
| "dfabs Undet = Undet"

text \<open>The conversion to a format \<open>F\<close> (a \<open>static_cast\<close>).\<close>

fun fp_cast :: "(real \<Rightarrow> bool) \<Rightarrow> fp \<Rightarrow> fp" where
  "fp_cast F (Fin a) = (if F a then Fin a else Undet)"
| "fp_cast F NaN = NaN"
| "fp_cast F NonFin = NonFin"
| "fp_cast F Undet = Undet"

text \<open>The operations on \<open>double\<close>, and those on \<open>float\<close> that the kernels use.\<close>

type_synonym double = fp

abbreviation dadd :: "double \<Rightarrow> double \<Rightarrow> double" where
  "dadd \<equiv> fp_add is_double"

abbreviation dsub :: "double \<Rightarrow> double \<Rightarrow> double" where
  "dsub \<equiv> fp_sub is_double"

abbreviation dmul :: "double \<Rightarrow> double \<Rightarrow> double" where
  "dmul \<equiv> fp_mul is_double"

abbreviation ddiv :: "double \<Rightarrow> double \<Rightarrow> double" where
  "ddiv \<equiv> fp_div is_double"

abbreviation dsqrt :: "double \<Rightarrow> double" where
  "dsqrt \<equiv> fp_sqrt is_double"




section \<open>Host batch normalisation (driver/miopen_BatchNormHost.hpp)\<close>

text \<open>
  The host reference engine works on flat buffers addressed through
  \<open>in_nstride = channels * height * width\<close> and \<open>in_cstride = height * width\<close>.
  A buffer is a function from offsets to values; a C assignment \<open>p[i] = v\<close> is the
  function update \<open>p(i := v)\<close>. The engine has no bounds checks, so none are modelled.

  The elements of the template type \<open>T\<close> (input, scale, bias, upstream gradient) and the
  scalars \<open>epsilon\<close> and \<open>expAvgFactor\<close> are finite numbers. \<open>T\<close> is \<open>float\<close> or
  \<open>double\<close>: in every operation of the engine on an element of \<open>T\<close> the other operand is
  a \<open>double\<close>, so the element is converted to \<open>double\<close>, which is exact, and the
  operation is the one on \<open>double\<close>. All output and statistics buffers hold \<open>double\<close>.

  Extents are natural numbers, and the \<open>int\<close> and \<open>unsigned int\<close> index arithmetic is
  taken without overflow or wrap-around: what is proved about the statistics and the outputs
  of a tensor assumes that it has fewer than \<open>2^31\<close> elements.

  Every entry point returns 0 on every path and has no other exit; a function of the model
  returns the buffers the call leaves behind. Input, output and statistics buffers are
  distinct objects.
\<close>

text \<open>The buffers a training forward call writes.\<close>

record train_bufs =
  out_ptr :: "nat \<Rightarrow> double"
  saveMean :: "nat \<Rightarrow> double"
  saveInvVariance :: "nat \<Rightarrow> double"
  runningMean :: "nat \<Rightarrow> double"
  runningVariance :: "nat \<Rightarrow> double"

text \<open>The buffers a backward call writes, with the function-local \<open>xhat\<close> vector.\<close>

record bwd_bufs =
  dx_ptr :: "nat \<Rightarrow> double"
  dscale_ptr :: "nat \<Rightarrow> double"
  dbias_ptr :: "nat \<Rightarrow> double"
  xhat :: "nat \<Rightarrow> double"

subsection \<open>Per-activation statistics loops\<close>

text \<open>
  Pass 1 over one per-activation group (lines 71-79; the same loop is at lines 374-382 and
  675-683): \<open>mean_accum = 0; for bidx: mean_accum += in_ptr[index]; mean_accum /= double(n_batchs)\<close>.
\<close>

definition pa_mean :: "nat \<Rightarrow> nat \<Rightarrow> (nat \<Rightarrow> real) \<Rightarrow> nat \<Rightarrow> double" where
  "pa_mean n_batchs in_nstride in_ptr adjIndex =
     (let mean_accum = fold (\<lambda>bidx mean_accum.
                          let index = in_nstride * bidx + adjIndex
                          in dadd mean_accum (Fin (in_ptr index)))
                        [0..<n_batchs] (Fin 0)
      in ddiv mean_accum (Fin (real n_batchs)))"

text \<open>
  Pass 2 (lines 87-98; also 384-394 and 685-695): the sum of the squared deviations from
  the mean of pass 1, divided by the batch size.
\<close>

definition pa_variance :: "nat \<Rightarrow> nat \<Rightarrow> (nat \<Rightarrow> real) \<Rightarrow> nat \<Rightarrow> double \<Rightarrow> double" where
  "pa_variance n_batchs in_nstride in_ptr adjIndex mean_accum =
     (let variance_accum = fold (\<lambda>bidx variance_accum.
                          let index = in_nstride * bidx + adjIndex;
                              elemStd = dsub (Fin (in_ptr index)) mean_accum
                          in dadd variance_accum (dmul elemStd elemStd))
                        [0..<n_batchs] (Fin 0)
      in ddiv variance_accum (Fin (real n_batchs)))"

text \<open>
  Step 4 and 5 (lines 113-121; also 353-361 and 401-409): normalise the group and apply
  scale and bias.
\<close>

definition pa_normalize ::
  "nat \<Rightarrow> nat \<Rightarrow> (nat \<Rightarrow> real) \<Rightarrow> (nat \<Rightarrow> real) \<Rightarrow> (nat \<Rightarrow> real) \<Rightarrow> nat \<Rightarrow> double \<Rightarrow> double
     \<Rightarrow> (nat \<Rightarrow> double) \<Rightarrow> (nat \<Rightarrow> double)" where
  "pa_normalize n_batchs in_nstride in_ptr scale_ptr bias_ptr adjIndex mean_accum elemInvVar out =
     fold (\<lambda>bidx out.
             let index = in_nstride * bidx + adjIndex;
                 elemStd = dsub (Fin (in_ptr index)) mean_accum;
                 inhat = dmul elemStd elemInvVar
             in out(index := dadd (dmul (Fin (scale_ptr adjIndex)) inhat) (Fin (bias_ptr adjIndex))))
          [0..<n_batchs] out"

subsection \<open>miopenBNFwdTrainPerActivationRunHost\<close>

text \<open>The body of the three group loops (lines 71-121), for one \<open>(cidx, row, column)\<close>.\<close>

definition fwd_train_pa_group ::
  "nat \<Rightarrow> nat \<Rightarrow> nat \<Rightarrow> nat \<Rightarrow> (nat \<Rightarrow> real) \<Rightarrow> (nat \<Rightarrow> real) \<Rightarrow> (nat \<Rightarrow> real) \<Rightarrow> real
     \<Rightarrow> bool \<Rightarrow> bool \<Rightarrow> real \<Rightarrow> nat \<Rightarrow> nat \<Rightarrow> nat \<Rightarrow> train_bufs \<Rightarrow> train_bufs" where
  "fwd_train_pa_group n_batchs channels height width in_ptr scale_ptr bias_ptr epsilon
       savemeanvar runningmeanvar expAvgFactor cidx row column s =
     (let in_nstride = channels * height * width;
          in_cstride = height * width;
          adjIndex = in_cstride * cidx + width * row + column;
          mean_accum = pa_mean n_batchs in_nstride in_ptr adjIndex;
          s = (if savemeanvar then s\<lparr>saveMean := (saveMean s)(adjIndex := mean_accum)\<rparr> else s);
          s = (if runningmeanvar
               then (let newRunMean = dmul (runningMean s adjIndex) (dsub (Fin 1) (Fin expAvgFactor))
                     in s\<lparr>runningMean := (runningMean s)
                            (adjIndex := dadd (dmul mean_accum (Fin expAvgFactor)) newRunMean)\<rparr>)
               else s);
          variance_accum = pa_variance n_batchs in_nstride in_ptr adjIndex mean_accum;
          s = (if runningmeanvar
               then (let adjust = (if n_batchs = 1 then variance_accum
                                   else dmul (ddiv (Fin (real n_batchs))
                                                   (Fin (real_of_int (int n_batchs - 1))))
                                             variance_accum)
                     in s\<lparr>runningVariance := (runningVariance s)
                            (adjIndex := dadd (dmul (Fin expAvgFactor) (runningVariance s adjIndex))
                                              (dmul (dsub (Fin 1) (Fin expAvgFactor)) adjust))\<rparr>)
               else s);
          elemInvVar = ddiv (Fin 1) (dsqrt (dadd variance_accum (Fin epsilon)));
          s = (if savemeanvar then s\<lparr>saveInvVariance := (saveInvVariance s)(adjIndex := elemInvVar)\<rparr>
               else s)
      in s\<lparr>out_ptr := pa_normalize n_batchs in_nstride in_ptr scale_ptr bias_ptr adjIndex
                          mean_accum elemInvVar (out_ptr s)\<rparr>)"

definition miopenBNFwdTrainPerActivationRunHost ::
  "nat \<Rightarrow> nat \<Rightarrow> nat \<Rightarrow> nat \<Rightarrow> (nat \<Rightarrow> real) \<Rightarrow> (nat \<Rightarrow> real) \<Rightarrow> (nat \<Rightarrow> real) \<Rightarrow> real
     \<Rightarrow> bool \<Rightarrow> bool \<Rightarrow> real \<Rightarrow> train_bufs \<Rightarrow> train_bufs" where
  "miopenBNFwdTrainPerActivationRunHost n_batchs channels height width in_ptr scale_ptr bias_ptr
       epsilon savemeanvar runningmeanvar expAvgFactor s =
     fold (\<lambda>cidx s.
       fold (\<lambda>row s.
         fold (\<lambda>column s.
                 fwd_train_pa_group n_batchs channels height width in_ptr scale_ptr bias_ptr epsilon
                   savemeanvar runningmeanvar expAvgFactor cidx row column s)
              [0..<width] s)
            [0..<height] s)
          [0..<channels] s"

subsection \<open>Spatial statistics loops\<close>

text \<open>
  Pass 1 of the spatial training forward for one channel (lines 183-196, the variant compiled
  with \<open>MIO_HEIRARCH_SEL == 0\<close>): the sum over rows, columns and the mini-batch, under the
  guard \<open>imgIndex < in_cstride\<close>.
\<close>

definition sp_sum_guarded ::
  "nat \<Rightarrow> nat \<Rightarrow> nat \<Rightarrow> nat \<Rightarrow> nat \<Rightarrow> (nat \<Rightarrow> real) \<Rightarrow> nat \<Rightarrow> double" where
  "sp_sum_guarded n_batchs height width in_nstride in_cstride in_ptr cidx =
     fold (\<lambda>row mean_accum.
       fold (\<lambda>column mean_accum.
               let imgIndex = width * row + column;
                   adjIndex = in_cstride * cidx + imgIndex
               in if imgIndex < in_cstride
                  then fold (\<lambda>bidx mean_accum.
                               let index = in_nstride * bidx + adjIndex
                               in dadd mean_accum (Fin (in_ptr index)))
                            [0..<n_batchs] mean_accum
                  else mean_accum)
            [0..<width] mean_accum)
          [0..<height] (Fin 0)"

text \<open>The same sum without the guard (lines 488-498 and 841-852).\<close>

definition sp_sum :: "nat \<Rightarrow> nat \<Rightarrow> nat \<Rightarrow> nat \<Rightarrow> nat \<Rightarrow> (nat \<Rightarrow> real) \<Rightarrow> nat \<Rightarrow> double" where
  "sp_sum n_batchs height width in_nstride in_cstride in_ptr cidx =
     fold (\<lambda>row mean_accum.
       fold (\<lambda>column mean_accum.
               let adjIndex = in_cstride * cidx + width * row + column
               in fold (\<lambda>bidx mean_accum.
                          let index = in_nstride * bidx + adjIndex
                          in dadd mean_accum (Fin (in_ptr index)))
                       [0..<n_batchs] mean_accum)
            [0..<width] mean_accum)
          [0..<height] (Fin 0)"

text \<open>
  Pass 2 of the spatial training forward (lines 229-244): every \<open>x - mean\<close> is stored in the
  output buffer, used as a scratchpad, while the squared deviations are summed. The result
  is the output buffer and the sum.
\<close>

definition sp_center_guarded ::
  "nat \<Rightarrow> nat \<Rightarrow> nat \<Rightarrow> nat \<Rightarrow> nat \<Rightarrow> (nat \<Rightarrow> real) \<Rightarrow> nat \<Rightarrow> double \<Rightarrow> (nat \<Rightarrow> double)
     \<Rightarrow> (nat \<Rightarrow> double) \<times> double" where
  "sp_center_guarded n_batchs height width in_nstride in_cstride in_ptr cidx mean_accum out =
     fold (\<lambda>row st.
       fold (\<lambda>column st.
               let imgIndex = width * row + column;
                   adjIndex = in_cstride * cidx + imgIndex
               in if imgIndex < in_cstride
                  then fold (\<lambda>bidx (out, variance_accum).
                               let index = in_nstride * bidx + adjIndex;
                                   elemStd = dsub (Fin (in_ptr index)) mean_accum
                               in (out(index := elemStd), dadd variance_accum (dmul elemStd elemStd)))
                            [0..<n_batchs] st
                  else st)
            [0..<width] st)
          [0..<height] (out, Fin 0)"

text \<open>The same pass without the guard, in the spatial inference (lines 525-537).\<close>

definition sp_center ::
  "nat \<Rightarrow> nat \<Rightarrow> nat \<Rightarrow> nat \<Rightarrow> nat \<Rightarrow> (nat \<Rightarrow> real) \<Rightarrow> nat \<Rightarrow> double \<Rightarrow> (nat \<Rightarrow> double)
     \<Rightarrow> (nat \<Rightarrow> double) \<times> double" where
  "sp_center n_batchs height width in_nstride in_cstride in_ptr cidx mean_accum out =
     fold (\<lambda>row st.
       fold (\<lambda>column st.
               let adjIndex = in_cstride * cidx + width * row + column
               in fold (\<lambda>bidx (out, variance_accum).
                          let index = in_nstride * bidx + adjIndex;
                              elemStd = dsub (Fin (in_ptr index)) mean_accum
                          in (out(index := elemStd), dadd variance_accum (dmul elemStd elemStd)))
                       [0..<n_batchs] st)
            [0..<width] st)
          [0..<height] (out, Fin 0)"

text \<open>Pass 2 of the spatial backward (lines 878-891): the sum only, no scratchpad.\<close>

definition sp_sqsum ::
  "nat \<Rightarrow> nat \<Rightarrow> nat \<Rightarrow> nat \<Rightarrow> nat \<Rightarrow> (nat \<Rightarrow> real) \<Rightarrow> nat \<Rightarrow> double \<Rightarrow> double" where
  "sp_sqsum n_batchs height width in_nstride in_cstride x_ptr cidx mean =
     fold (\<lambda>row variance.
       fold (\<lambda>column variance.
               let adjIndex = in_cstride * cidx + width * row + column
               in fold (\<lambda>bidx variance.
                          let index = in_nstride * bidx + adjIndex;
                              elemStd = dsub (Fin (x_ptr index)) mean
                          in dadd variance (dmul elemStd elemStd))
                       [0..<n_batchs] variance)
            [0..<width] variance)
          [0..<height] (Fin 0)"

text \<open>
  Step 4 and 5 of the spatial training forward (lines 284-300): the staged \<open>x - mean\<close> is
  read back from the output buffer and replaced by the normalised value.
\<close>

definition sp_scale_guarded ::
  "nat \<Rightarrow> nat \<Rightarrow> nat \<Rightarrow> nat \<Rightarrow> nat \<Rightarrow> (nat \<Rightarrow> real) \<Rightarrow> (nat \<Rightarrow> real) \<Rightarrow> nat \<Rightarrow> double
     \<Rightarrow> (nat \<Rightarrow> double) \<Rightarrow> (nat \<Rightarrow> double)" where
  "sp_scale_guarded n_batchs height width in_nstride in_cstride scale_ptr bias_ptr cidx invertVar out =
     fold (\<lambda>row out.
       fold (\<lambda>column out.
               let imgIndex = width * row + column;
                   adjIndex = in_cstride * cidx + imgIndex
               in if imgIndex < in_cstride
                  then fold (\<lambda>bidx out.
                               let index = in_nstride * bidx + adjIndex
                               in out(index := dadd (dmul (Fin (scale_ptr cidx))
                                                         (dmul invertVar (out index)))
                                                    (Fin (bias_ptr cidx))))
                            [0..<n_batchs] out
                  else out)
            [0..<width] out)
          [0..<height] out"

text \<open>The same step in the spatial inference (lines 564-578).\<close>

definition sp_scale ::
  "nat \<Rightarrow> nat \<Rightarrow> nat \<Rightarrow> nat \<Rightarrow> nat \<Rightarrow> (nat \<Rightarrow> real) \<Rightarrow> (nat \<Rightarrow> real) \<Rightarrow> nat \<Rightarrow> double
     \<Rightarrow> (nat \<Rightarrow> double) \<Rightarrow> (nat \<Rightarrow> double)" where
  "sp_scale n_batchs height width in_nstride in_cstride scale_ptr bias_ptr cidx invertVar out =
     fold (\<lambda>row out.
       fold (\<lambda>column out.
               let adjIndex = in_cstride * cidx + width * row + column
               in fold (\<lambda>bidx out.
                          let index = in_nstride * bidx + adjIndex;
                              elemStd = out index;
                              inhat = dmul elemStd invertVar
                          in out(index := dadd (dmul (Fin (scale_ptr cidx)) inhat)
                                               (Fin (bias_ptr cidx))))
                       [0..<n_batchs] out)
            [0..<width] out)
          [0..<height] out"

subsection \<open>miopenBNFwdTrainSpatialRunHost\<close>

text \<open>The body of the channel loop (lines 173-300), with \<open>MIO_HEIRARCH_SEL == 0\<close>.\<close>

definition fwd_train_sp_channel ::
  "nat \<Rightarrow> nat \<Rightarrow> nat \<Rightarrow> nat \<Rightarrow> (nat \<Rightarrow> real) \<Rightarrow> (nat \<Rightarrow> real) \<Rightarrow> (nat \<Rightarrow> real) \<Rightarrow> real
     \<Rightarrow> bool \<Rightarrow> bool \<Rightarrow> real \<Rightarrow> nat \<Rightarrow> train_bufs \<Rightarrow> train_bufs" where
  "fwd_train_sp_channel n_batchs channels height width in_ptr scale_ptr bias_ptr epsilon
       savemeanvar runningmeanvar expAvgFactor cidx s =
     (let in_nstride = channels * height * width;
          in_cstride = height * width;
          NHW = Fin (real (in_cstride * n_batchs));
          mean_accum = sp_sum_guarded n_batchs height width in_nstride in_cstride in_ptr cidx;
          mean_accum = ddiv mean_accum NHW;
          s = (if savemeanvar then s\<lparr>saveMean := (saveMean s)(cidx := mean_accum)\<rparr> else s);
          s = (if runningmeanvar
               then (let newRunMean = dmul (runningMean s cidx) (dsub (Fin 1) (Fin expAvgFactor))
                     in s\<lparr>runningMean := (runningMean s)
                            (cidx := dadd (dmul mean_accum (Fin expAvgFactor)) newRunMean)\<rparr>)
               else s);
          (out, variance_accum) =
             sp_center_guarded n_batchs height width in_nstride in_cstride in_ptr cidx mean_accum
               (out_ptr s);
          s = s\<lparr>out_ptr := out\<rparr>;
          variance_accum = ddiv variance_accum NHW;
          s = (if runningmeanvar
               then (let adjust = (if n_batchs * in_cstride = 1 then variance_accum
                                   else dmul (ddiv NHW (dsub NHW (Fin 1))) variance_accum)
                     in s\<lparr>runningVariance := (runningVariance s)
                            (cidx := dadd (dmul (Fin expAvgFactor) (runningVariance s cidx))
                                          (dmul (dsub (Fin 1) (Fin expAvgFactor)) adjust))\<rparr>)
               else s);
          invertVar = ddiv (Fin 1) (dsqrt (dadd variance_accum (Fin epsilon)));
          s = (if savemeanvar then s\<lparr>saveInvVariance := (saveInvVariance s)(cidx := invertVar)\<rparr>
               else s)
      in s\<lparr>out_ptr := sp_scale_guarded n_batchs height width in_nstride in_cstride scale_ptr bias_ptr
                          cidx invertVar (out_ptr s)\<rparr>)"

definition miopenBNFwdTrainSpatialRunHost ::
  "nat \<Rightarrow> nat \<Rightarrow> nat \<Rightarrow> nat \<Rightarrow> (nat \<Rightarrow> real) \<Rightarrow> (nat \<Rightarrow> real) \<Rightarrow> (nat \<Rightarrow> real) \<Rightarrow> real
     \<Rightarrow> bool \<Rightarrow> bool \<Rightarrow> real \<Rightarrow> train_bufs \<Rightarrow> train_bufs" where
  "miopenBNFwdTrainSpatialRunHost n_batchs channels height width in_ptr scale_ptr bias_ptr
       epsilon savemeanvar runningmeanvar expAvgFactor s =
     fold (\<lambda>cidx s.
             fwd_train_sp_channel n_batchs channels height width in_ptr scale_ptr bias_ptr epsilon
               savemeanvar runningmeanvar expAvgFactor cidx s)
          [0..<channels] s"

subsection \<open>miopenBNFwdInferPerActivationRunHost\<close>

text \<open>
  With \<open>estmeanvar\<close> (lines 345-364) the statistics are read from \<open>estimatedMean\<close> and
  \<open>estimatedVariance\<close>; without (lines 370-412) they are computed as in training. Only the
  output buffer is assigned to.
\<close>

definition fwd_infer_pa_group ::
  "nat \<Rightarrow> nat \<Rightarrow> nat \<Rightarrow> nat \<Rightarrow> (nat \<Rightarrow> real) \<Rightarrow> (nat \<Rightarrow> real) \<Rightarrow> (nat \<Rightarrow> real) \<Rightarrow> real
     \<Rightarrow> bool \<Rightarrow> (nat \<Rightarrow> double) \<Rightarrow> (nat \<Rightarrow> double) \<Rightarrow> nat \<Rightarrow> nat \<Rightarrow> nat
     \<Rightarrow> (nat \<Rightarrow> double) \<Rightarrow> (nat \<Rightarrow> double)" where
  "fwd_infer_pa_group n_batchs channels height width in_ptr scale_ptr bias_ptr epsilon
       estmeanvar estimatedMean estimatedVariance cidx row column out =
     (let in_nstride = channels * height * width;
          in_cstride = height * width;
          adjIndex = in_cstride * cidx + width * row + column
      in if estmeanvar
         then (let mean = estimatedMean adjIndex;
                   variance = estimatedVariance adjIndex;
                   elemInvVar = ddiv (Fin 1) (dsqrt (dadd variance (Fin epsilon)))
               in pa_normalize n_batchs in_nstride in_ptr scale_ptr bias_ptr adjIndex
                    mean elemInvVar out)
         else (let mean_accum = pa_mean n_batchs in_nstride in_ptr adjIndex;
                   variance_accum = pa_variance n_batchs in_nstride in_ptr adjIndex mean_accum;
                   elemInvVar = ddiv (Fin 1) (dsqrt (dadd variance_accum (Fin epsilon)))
               in pa_normalize n_batchs in_nstride in_ptr scale_ptr bias_ptr adjIndex
                    mean_accum elemInvVar out))"

definition miopenBNFwdInferPerActivationRunHost ::
  "nat \<Rightarrow> nat \<Rightarrow> nat \<Rightarrow> nat \<Rightarrow> (nat \<Rightarrow> real) \<Rightarrow> (nat \<Rightarrow> real) \<Rightarrow> (nat \<Rightarrow> real) \<Rightarrow> real
     \<Rightarrow> bool \<Rightarrow> (nat \<Rightarrow> double) \<Rightarrow> (nat \<Rightarrow> double) \<Rightarrow> (nat \<Rightarrow> double) \<Rightarrow> (nat \<Rightarrow> double)" where
  "miopenBNFwdInferPerActivationRunHost n_batchs channels height width in_ptr scale_ptr bias_ptr
       epsilon estmeanvar estimatedMean estimatedVariance out =
     fold (\<lambda>cidx out.
       fold (\<lambda>row out.
         fold (\<lambda>column out.
                 fwd_infer_pa_group n_batchs channels height width in_ptr scale_ptr bias_ptr epsilon
                   estmeanvar estimatedMean estimatedVariance cidx row column out)
              [0..<width] out)
            [0..<height] out)
          [0..<channels] out"

subsection \<open>miopenBNFwdInferSpatialRunHost\<close>

text \<open>The normalisation loops of the branch with supplied estimates (lines 456-466).\<close>

definition sp_normalize_est ::
  "nat \<Rightarrow> nat \<Rightarrow> nat \<Rightarrow> nat \<Rightarrow> nat \<Rightarrow> (nat \<Rightarrow> real) \<Rightarrow> (nat \<Rightarrow> real) \<Rightarrow> (nat \<Rightarrow> real) \<Rightarrow> nat
     \<Rightarrow> double \<Rightarrow> double \<Rightarrow> (nat \<Rightarrow> double) \<Rightarrow> (nat \<Rightarrow> double)" where
  "sp_normalize_est n_batchs height width in_nstride in_cstride in_ptr scale_ptr bias_ptr cidx
       mean invertVar out =
     fold (\<lambda>row out.
       fold (\<lambda>column out.
               let adjIndex = in_cstride * cidx + width * row + column
               in fold (\<lambda>bidx out.
                          let index = in_nstride * bidx + adjIndex;
                              elemStd = dsub (Fin (in_ptr index)) mean;
                              inhat = dmul elemStd invertVar
                          in out(index := dadd (dmul (Fin (scale_ptr cidx)) inhat)
                                               (Fin (bias_ptr cidx))))
                       [0..<n_batchs] out)
            [0..<width] out)
          [0..<height] out"

definition fwd_infer_sp_channel ::
  "nat \<Rightarrow> nat \<Rightarrow> nat \<Rightarrow> nat \<Rightarrow> (nat \<Rightarrow> real) \<Rightarrow> (nat \<Rightarrow> real) \<Rightarrow> (nat \<Rightarrow> real) \<Rightarrow> real
     \<Rightarrow> bool \<Rightarrow> (nat \<Rightarrow> double) \<Rightarrow> (nat \<Rightarrow> double) \<Rightarrow> nat \<Rightarrow> (nat \<Rightarrow> double) \<Rightarrow> (nat \<Rightarrow> double)" where
  "fwd_infer_sp_channel n_batchs channels height width in_ptr scale_ptr bias_ptr epsilon
       estmeanvar estimatedMean estimatedVariance cidx out =
     (let in_nstride = channels * height * width;
          in_cstride = height * width
      in if estmeanvar
         then (let mean = estimatedMean cidx;
                   variance = estimatedVariance cidx;
                   invertVar = ddiv (Fin 1) (dsqrt (dadd variance (Fin epsilon)))
               in sp_normalize_est n_batchs height width in_nstride in_cstride in_ptr scale_ptr
                    bias_ptr cidx mean invertVar out)
         else (let mean_accum = sp_sum n_batchs height width in_nstride in_cstride in_ptr cidx;
                   mean_accum = ddiv mean_accum (Fin (real (in_cstride * n_batchs)));
                   (out, variance_accum) =
                      sp_center n_batchs height width in_nstride in_cstride in_ptr cidx mean_accum out;
                   variance_accum = ddiv variance_accum (Fin (real (in_cstride * n_batchs)));
                   invertVar = ddiv (Fin 1) (dsqrt (dadd variance_accum (Fin epsilon)))
               in sp_scale n_batchs height width in_nstride in_cstride scale_ptr bias_ptr cidx
                    invertVar out))"

definition miopenBNFwdInferSpatialRunHost ::
  "nat \<Rightarrow> nat \<Rightarrow> nat \<Rightarrow> nat \<Rightarrow> (nat \<Rightarrow> real) \<Rightarrow> (nat \<Rightarrow> real) \<Rightarrow> (nat \<Rightarrow> real) \<Rightarrow> real
     \<Rightarrow> bool \<Rightarrow> (nat \<Rightarrow> double) \<Rightarrow> (nat \<Rightarrow> double) \<Rightarrow> (nat \<Rightarrow> double) \<Rightarrow> (nat \<Rightarrow> double)" where
  "miopenBNFwdInferSpatialRunHost n_batchs channels height width in_ptr scale_ptr bias_ptr
       epsilon estmeanvar estimatedMean estimatedVariance out =
     fold (\<lambda>cidx out.
             fwd_infer_sp_channel n_batchs channels height width in_ptr scale_ptr bias_ptr epsilon
               estmeanvar estimatedMean estimatedVariance cidx out)
          [0..<channels] out"

subsection \<open>miopenBNBwdPerActivationRunHost\<close>

text \<open>
  The first backward loop over one group (lines 639-653, and again 701-715): it caches
  \<open>xhat\<close>, adds into \<open>dbias_ptr[adjIndex]\<close> and \<open>dscale_ptr[adjIndex]\<close>, and sums
  \<open>dxhat\<close> and \<open>dxhathat\<close> in local variables.
\<close>

definition bwd_pa_accumulate ::
  "nat \<Rightarrow> nat \<Rightarrow> nat \<Rightarrow> nat \<Rightarrow> (nat \<Rightarrow> real) \<Rightarrow> (nat \<Rightarrow> real) \<Rightarrow> (nat \<Rightarrow> real) \<Rightarrow> nat \<Rightarrow> nat \<Rightarrow> nat
     \<Rightarrow> double \<Rightarrow> double \<Rightarrow> bwd_bufs \<Rightarrow> bwd_bufs \<times> double \<times> double" where
  "bwd_pa_accumulate n_batchs width in_nstride in_cstride x_ptr dy_ptr scale_ptr adjIndex row column
       mean elemInvVar s =
     fold (\<lambda>bidx (s, dxhat, dxhathat).
             let index = in_nstride * bidx + adjIndex;
                 xhat_index = in_cstride * bidx + (width * row + column);
                 elemStd = dsub (Fin (x_ptr index)) mean;
                 s = s\<lparr>xhat := (xhat s)(xhat_index := dmul elemStd elemInvVar)\<rparr>;
                 dyelem = Fin (dy_ptr index);
                 s = s\<lparr>dbias_ptr := (dbias_ptr s)(adjIndex := dadd (dbias_ptr s adjIndex) dyelem)\<rparr>;
                 s = s\<lparr>dscale_ptr := (dscale_ptr s)
                        (adjIndex := dadd (dscale_ptr s adjIndex) (dmul (xhat s xhat_index) dyelem))\<rparr>;
                 tmp1 = dmul (Fin (scale_ptr adjIndex)) dyelem;
                 dxhat = dadd dxhat tmp1;
                 dxhathat = dadd dxhathat (dmul tmp1 (xhat s xhat_index))
             in (s, dxhat, dxhathat))
          [0..<n_batchs] (s, Fin 0, Fin 0)"

text \<open>The second backward loop over one group (lines 656-663, and again 718-725).\<close>

definition bwd_pa_dx ::
  "nat \<Rightarrow> nat \<Rightarrow> nat \<Rightarrow> nat \<Rightarrow> nat \<Rightarrow> nat \<Rightarrow> nat \<Rightarrow> double \<Rightarrow> double \<Rightarrow> double \<Rightarrow> bwd_bufs \<Rightarrow> bwd_bufs" where
  "bwd_pa_dx n_batchs width in_nstride in_cstride adjIndex row column elemInvVar dxhat dxhathat s =
     fold (\<lambda>bidx s.
             let index = in_nstride * bidx + adjIndex;
                 xhat_index = in_cstride * bidx + (width * row + column);
                 tmp1 = dadd (dmul (xhat s xhat_index) dxhathat) dxhat;
                 tmp2 = dsub (dmul (Fin (real n_batchs)) dxhat) tmp1;
                 tmp3 = ddiv elemInvVar (Fin (real n_batchs))
             in s\<lparr>dx_ptr := (dx_ptr s)(index := dmul tmp3 tmp2)\<rparr>)
          [0..<n_batchs] s"

text \<open>
  The body of the group loops: with \<open>savedmeanvar\<close> (lines 634-663) the statistics are read
  from \<open>savedMean\<close> and \<open>savedInvVariance\<close>, without (lines 675-725) they are recomputed.
\<close>

definition bwd_pa_group ::
  "nat \<Rightarrow> nat \<Rightarrow> nat \<Rightarrow> nat \<Rightarrow> (nat \<Rightarrow> real) \<Rightarrow> (nat \<Rightarrow> real) \<Rightarrow> (nat \<Rightarrow> real) \<Rightarrow> real \<Rightarrow> bool
     \<Rightarrow> (nat \<Rightarrow> double) \<Rightarrow> (nat \<Rightarrow> double) \<Rightarrow> nat \<Rightarrow> nat \<Rightarrow> nat \<Rightarrow> bwd_bufs \<Rightarrow> bwd_bufs" where
  "bwd_pa_group n_batchs channels height width x_ptr dy_ptr scale_ptr epsilon savedmeanvar
       savedMean savedInvVariance cidx row column s =
     (let in_nstride = channels * height * width;
          in_cstride = height * width;
          adjIndex = in_cstride * cidx + width * row + column;
          mean = (if savedmeanvar then savedMean adjIndex
                  else pa_mean n_batchs in_nstride x_ptr adjIndex);
          elemInvVar = (if savedmeanvar then savedInvVariance adjIndex
                        else (let variance = pa_variance n_batchs in_nstride x_ptr adjIndex mean
                              in ddiv (Fin 1) (dsqrt (dadd variance (Fin epsilon)))));
          (s, dxhat, dxhathat) =
             bwd_pa_accumulate n_batchs width in_nstride in_cstride x_ptr dy_ptr scale_ptr adjIndex
               row column mean elemInvVar s;
          s = s\<lparr>dscale_ptr := (dscale_ptr s)
                 (adjIndex := ddiv (dscale_ptr s adjIndex) (Fin (real n_batchs)))\<rparr>
      in bwd_pa_dx n_batchs width in_nstride in_cstride adjIndex row column elemInvVar
           dxhat dxhathat s)"

text \<open>
  The \<open>xhat\<close> vector is created with \<open>n_batchs * in_cstride\<close> zeros (line 626); it is
  local to the call, and the caller sees the other three buffers of the result.
\<close>

definition miopenBNBwdPerActivationRunHost ::
  "nat \<Rightarrow> nat \<Rightarrow> nat \<Rightarrow> nat \<Rightarrow> (nat \<Rightarrow> real) \<Rightarrow> (nat \<Rightarrow> real) \<Rightarrow> (nat \<Rightarrow> real) \<Rightarrow> real \<Rightarrow> bool
     \<Rightarrow> (nat \<Rightarrow> double) \<Rightarrow> (nat \<Rightarrow> double) \<Rightarrow> bwd_bufs \<Rightarrow> bwd_bufs" where
  "miopenBNBwdPerActivationRunHost n_batchs channels height width x_ptr dy_ptr scale_ptr epsilon
       savedmeanvar savedMean savedInvVariance s =
     fold (\<lambda>cidx s.
       fold (\<lambda>row s.
         fold (\<lambda>column s.
                 bwd_pa_group n_batchs channels height width x_ptr dy_ptr scale_ptr epsilon
                   savedmeanvar savedMean savedInvVariance cidx row column s)
              [0..<width] s)
            [0..<height] s)
          [0..<channels] (s\<lparr>xhat := (\<lambda>i. Fin 0)\<rparr>)"

subsection \<open>miopenBNBwdSpatialRunHost\<close>

text \<open>
  The accumulation loops of the branch with saved statistics (lines 777-793). \<open>mean\<close> and
  \<open>invVar\<close> are assigned inside the loops, always to \<open>savedMean[cidx]\<close> and
  \<open>savedInvVariance[cidx]\<close>; the later loops, which run only when these have run, read
  the same values, so they are parameters here.
\<close>

definition bwd_sp_accumulate_saved ::
  "nat \<Rightarrow> nat \<Rightarrow> nat \<Rightarrow> nat \<Rightarrow> nat \<Rightarrow> (nat \<Rightarrow> real) \<Rightarrow> (nat \<Rightarrow> real) \<Rightarrow> nat \<Rightarrow> double \<Rightarrow> double
     \<Rightarrow> bwd_bufs \<Rightarrow> bwd_bufs" where
  "bwd_sp_accumulate_saved n_batchs height width in_nstride in_cstride x_ptr dy_ptr cidx mean invVar s =
     fold (\<lambda>row s.
       fold (\<lambda>column s.
               let adjIndex = in_cstride * cidx + width * row + column
               in fold (\<lambda>bidx s.
                          let index = in_nstride * bidx + adjIndex;
                              elemStd = dsub (Fin (x_ptr index)) mean;
                              dyelem = Fin (dy_ptr index);
                              s = s\<lparr>dbias_ptr := (dbias_ptr s)
                                     (cidx := dadd (dbias_ptr s cidx) dyelem)\<rparr>
                          in s\<lparr>dscale_ptr := (dscale_ptr s)
                                 (cidx := dadd (dscale_ptr s cidx)
                                               (dmul (dmul elemStd invVar) dyelem))\<rparr>)
                       [0..<n_batchs] s)
            [0..<width] s)
          [0..<height] s"

text \<open>The input-gradient loops of the branch with saved statistics (lines 796-810).\<close>

definition bwd_sp_dx_saved ::
  "nat \<Rightarrow> nat \<Rightarrow> nat \<Rightarrow> nat \<Rightarrow> nat \<Rightarrow> (nat \<Rightarrow> real) \<Rightarrow> (nat \<Rightarrow> real) \<Rightarrow> (nat \<Rightarrow> real) \<Rightarrow> nat
     \<Rightarrow> double \<Rightarrow> double \<Rightarrow> bwd_bufs \<Rightarrow> bwd_bufs" where
  "bwd_sp_dx_saved n_batchs height width in_nstride in_cstride x_ptr dy_ptr scale_ptr cidx mean invVar s =
     (let NHW = Fin (real (n_batchs * in_cstride))
      in fold (\<lambda>row s.
           fold (\<lambda>column s.
                   let adjIndex = in_cstride * cidx + width * row + column
                   in fold (\<lambda>bidx s.
                              let index = in_nstride * bidx + adjIndex;
                                  elemStd = dsub (Fin (x_ptr index)) mean;
                                  tmp1 = dsub (dmul NHW (Fin (dy_ptr index))) (dbias_ptr s cidx);
                                  tmp2 = dmul (dmul (dneg elemStd) invVar) (dscale_ptr s cidx);
                                  tmp3 = ddiv (dmul (Fin (scale_ptr cidx)) invVar) NHW
                              in s\<lparr>dx_ptr := (dx_ptr s)(index := dmul tmp3 (dadd tmp2 tmp1))\<rparr>)
                           [0..<n_batchs] s)
                [0..<width] s)
              [0..<height] s)"

text \<open>
  The accumulation loops of the branch that recomputes the statistics (lines 921-936, with
  \<open>MIO_HEIRARCH_SEL == 0\<close>), which cache \<open>xhat\<close>.
\<close>

definition bwd_sp_accumulate ::
  "nat \<Rightarrow> nat \<Rightarrow> nat \<Rightarrow> nat \<Rightarrow> nat \<Rightarrow> (nat \<Rightarrow> real) \<Rightarrow> (nat \<Rightarrow> real) \<Rightarrow> nat \<Rightarrow> double \<Rightarrow> double
     \<Rightarrow> bwd_bufs \<Rightarrow> bwd_bufs" where
  "bwd_sp_accumulate n_batchs height width in_nstride in_cstride x_ptr dy_ptr cidx mean invVar s =
     fold (\<lambda>row s.
       fold (\<lambda>column s.
               let adjIndex = in_cstride * cidx + width * row + column
               in fold (\<lambda>bidx s.
                          let index = in_nstride * bidx + adjIndex;
                              xhat_index = in_cstride * bidx + (width * row + column);
                              elemStd = dsub (Fin (x_ptr index)) mean;
                              s = s\<lparr>xhat := (xhat s)(xhat_index := dmul elemStd invVar)\<rparr>;
                              dyelem = Fin (dy_ptr index);
                              s = s\<lparr>dbias_ptr := (dbias_ptr s)
                                     (cidx := dadd (dbias_ptr s cidx) dyelem)\<rparr>
                          in s\<lparr>dscale_ptr := (dscale_ptr s)
                                 (cidx := dadd (dscale_ptr s cidx)
                                               (dmul (xhat s xhat_index) dyelem))\<rparr>)
                       [0..<n_batchs] s)
            [0..<width] s)
          [0..<height] s"

text \<open>The input-gradient loops of that branch (lines 962-975).\<close>

definition bwd_sp_dx ::
  "nat \<Rightarrow> nat \<Rightarrow> nat \<Rightarrow> nat \<Rightarrow> nat \<Rightarrow> (nat \<Rightarrow> real) \<Rightarrow> (nat \<Rightarrow> real) \<Rightarrow> nat \<Rightarrow> double
     \<Rightarrow> bwd_bufs \<Rightarrow> bwd_bufs" where
  "bwd_sp_dx n_batchs height width in_nstride in_cstride dy_ptr scale_ptr cidx invVar s =
     (let NHW = Fin (real (n_batchs * in_cstride))
      in fold (\<lambda>row s.
           fold (\<lambda>column s.
                   let adjIndex = in_cstride * cidx + width * row + column
                   in fold (\<lambda>bidx s.
                              let index = in_nstride * bidx + adjIndex;
                                  xhat_index = in_cstride * bidx + (width * row + column);
                                  tmp1 = dsub (dmul NHW (Fin (dy_ptr index))) (dbias_ptr s cidx);
                                  tmp2 = dmul (dneg (xhat s xhat_index)) (dscale_ptr s cidx);
                                  tmp3 = ddiv (dmul (Fin (scale_ptr cidx)) invVar) NHW
                              in s\<lparr>dx_ptr := (dx_ptr s)(index := dmul tmp3 (dadd tmp2 tmp1))\<rparr>)
                           [0..<n_batchs] s)
                [0..<width] s)
              [0..<height] s)"

text \<open>The body of the channel loop, for either branch (lines 775-811 and 827-995).\<close>

definition bwd_sp_channel ::
  "nat \<Rightarrow> nat \<Rightarrow> nat \<Rightarrow> nat \<Rightarrow> (nat \<Rightarrow> real) \<Rightarrow> (nat \<Rightarrow> real) \<Rightarrow> (nat \<Rightarrow> real) \<Rightarrow> real \<Rightarrow> bool
     \<Rightarrow> (nat \<Rightarrow> double) \<Rightarrow> (nat \<Rightarrow> double) \<Rightarrow> nat \<Rightarrow> bwd_bufs \<Rightarrow> bwd_bufs" where
  "bwd_sp_channel n_batchs channels height width x_ptr dy_ptr scale_ptr epsilon savedmeanvar
       savedMean savedInvVariance cidx s =
     (let in_nstride = channels * height * width;
          in_cstride = height * width;
          NHW = Fin (real (n_batchs * in_cstride))
      in if savedmeanvar
         then (let mean = savedMean cidx;
                   invVar = savedInvVariance cidx;
                   s = bwd_sp_accumulate_saved n_batchs height width in_nstride in_cstride x_ptr dy_ptr
                         cidx mean invVar s;
                   s = s\<lparr>dscale_ptr := (dscale_ptr s)(cidx := ddiv (dscale_ptr s cidx) NHW)\<rparr>
               in bwd_sp_dx_saved n_batchs height width in_nstride in_cstride x_ptr dy_ptr scale_ptr
                    cidx mean invVar s)
         else (let mean = sp_sum n_batchs height width in_nstride in_cstride x_ptr cidx;
                   mean = ddiv mean NHW;
                   variance = sp_sqsum n_batchs height width in_nstride in_cstride x_ptr cidx mean;
                   variance = ddiv variance NHW;
                   invVar = ddiv (Fin 1) (dsqrt (dadd variance (Fin epsilon)));
                   s = s\<lparr>dscale_ptr := (dscale_ptr s)(cidx := Fin 0)\<rparr>;
                   s = s\<lparr>dbias_ptr := (dbias_ptr s)(cidx := Fin 0)\<rparr>;
                   s = bwd_sp_accumulate n_batchs height width in_nstride in_cstride x_ptr dy_ptr
                         cidx mean invVar s;
                   s = s\<lparr>dscale_ptr := (dscale_ptr s)(cidx := ddiv (dscale_ptr s cidx) NHW)\<rparr>
               in bwd_sp_dx n_batchs height width in_nstride in_cstride dy_ptr scale_ptr
                    cidx invVar s))"

text \<open>
  In the branch with saved statistics no \<open>xhat\<close> vector exists; in the other it is created
  with \<open>n_batchs * in_cstride\<close> zeros (line 821).
\<close>

definition miopenBNBwdSpatialRunHost ::
  "nat \<Rightarrow> nat \<Rightarrow> nat \<Rightarrow> nat \<Rightarrow> (nat \<Rightarrow> real) \<Rightarrow> (nat \<Rightarrow> real) \<Rightarrow> (nat \<Rightarrow> real) \<Rightarrow> real \<Rightarrow> bool
     \<Rightarrow> (nat \<Rightarrow> double) \<Rightarrow> (nat \<Rightarrow> double) \<Rightarrow> bwd_bufs \<Rightarrow> bwd_bufs" where
  "miopenBNBwdSpatialRunHost n_batchs channels height width x_ptr dy_ptr scale_ptr epsilon
       savedmeanvar savedMean savedInvVariance s =
     fold (\<lambda>cidx s.
             bwd_sp_channel n_batchs channels height width x_ptr dy_ptr scale_ptr epsilon
               savedmeanvar savedMean savedInvVariance cidx s)
          [0..<channels] (s\<lparr>xhat := (\<lambda>i. Fin 0)\<rparr>)"

section \<open>The HIP inference kernels (src/kernels)\<close>

text \<open>
  The kernels are instantiated with \<open>TPREC = float\<close> and \<open>TIO = float\<close> or \<open>half\<close>; the
  format of \<open>TIO\<close> is the parameter \<open>is_TIO\<close>. The statistics, \<open>scale\<close> and \<open>bias\<close> are
  arrays of \<open>float\<close>, \<open>epsilon\<close> is a \<open>double\<close>: \<open>variance + epsilon\<close>, \<open>fabs\<close> and
  \<open>rsqrt\<close> work on \<open>double\<close> and the result is converted to \<open>float\<close>; the difference,
  the product and the \<open>fma\<close> work on \<open>float\<close>, and the result is converted to \<open>TIO\<close>.
  An input element of \<open>TIO\<close> is finite and converts to \<open>float\<close> exactly.

  \<open>rsqrt\<close> is a function of the device library, which the sources do not contain and whose
  rounding the standard does not fix; it is the parameter \<open>rsqrt\<close> of the model.
\<close>



section \<open>The contract's quantities\<close>

text \<open>
  The linear offset of element \<open>(n, c, h, w)\<close> and the two kinds of reduction group, as
  lists of offsets: a per-activation group holds the \<open>n_batchs\<close> elements of one
  \<open>(c, h, w)\<close>, a spatial group the \<open>n_batchs * height * width\<close> elements of one
  channel.
\<close>

definition adj_index :: "nat \<Rightarrow> nat \<Rightarrow> nat \<Rightarrow> nat \<Rightarrow> nat \<Rightarrow> nat" where
  "adj_index height width cidx row column = height * width * cidx + width * row + column"

definition lin_index :: "nat \<Rightarrow> nat \<Rightarrow> nat \<Rightarrow> nat \<Rightarrow> nat \<Rightarrow> nat \<Rightarrow> nat \<Rightarrow> nat" where
  "lin_index channels height width bidx cidx row column =
     channels * height * width * bidx + adj_index height width cidx row column"

definition pa_group :: "nat \<Rightarrow> nat \<Rightarrow> nat \<Rightarrow> nat \<Rightarrow> nat \<Rightarrow> nat list" where
  "pa_group n_batchs channels height width adjIndex =
     map (\<lambda>bidx. channels * height * width * bidx + adjIndex) [0..<n_batchs]"

definition sp_group :: "nat \<Rightarrow> nat \<Rightarrow> nat \<Rightarrow> nat \<Rightarrow> nat \<Rightarrow> nat list" where
  "sp_group n_batchs channels height width cidx =
     map (\<lambda>(row, column, bidx). lin_index channels height width bidx cidx row column)
       (List.product [0..<height] (List.product [0..<width] [0..<n_batchs]))"

text \<open>
  Mean and biased variance of the values \<open>x\<close> holds at the offsets of a group, the
  inverse standard deviation, and the normalised value of an element.
\<close>

definition spec_mean :: "(nat \<Rightarrow> real) \<Rightarrow> nat list \<Rightarrow> real" where
  "spec_mean x g = (\<Sum>i\<leftarrow>g. x i) / real (length g)"

definition spec_variance :: "(nat \<Rightarrow> real) \<Rightarrow> nat list \<Rightarrow> real" where
  "spec_variance x g = (\<Sum>i\<leftarrow>g. (x i - spec_mean x g)\<^sup>2) / real (length g)"

definition spec_invstd :: "real \<Rightarrow> real \<Rightarrow> real" where
  "spec_invstd variance epsilon = 1 / sqrt (variance + epsilon)"

definition spec_normalize :: "real \<Rightarrow> real \<Rightarrow> real \<Rightarrow> real \<Rightarrow> real \<Rightarrow> real" where
  "spec_normalize scale bias mean invVariance x = scale * (x - mean) * invVariance + bias"

text \<open>
  The input gradient of the contract, for one element of a group of size \<open>M\<close>:
  \<open>dx_i = (invVar/M) * (M*scale*dy_i - scale*dbias - xhat_i*scale*dscale)\<close>.
\<close>

definition spec_dx :: "real \<Rightarrow> real \<Rightarrow> real \<Rightarrow> real \<Rightarrow> real \<Rightarrow> real \<Rightarrow> real \<Rightarrow> real" where
  "spec_dx M scale invVar dy_i xhat_i dbias dscale =
     (invVar / M) * (M * scale * dy_i - scale * dbias - xhat_i * scale * dscale)"

text \<open>The normalised value \<open>xhat_i = (x_i - mean) * invVar\<close>.\<close>

definition spec_xhat :: "real \<Rightarrow> real \<Rightarrow> real \<Rightarrow> real" where
  "spec_xhat mean invVar x = (x - mean) * invVar"

text \<open>Backward buffers that hold the same finite value everywhere.\<close>

definition const_bufs :: "real \<Rightarrow> bwd_bufs" where
  "const_bufs v = \<lparr>dx_ptr = (\<lambda>i. Fin v), dscale_ptr = (\<lambda>i. Fin v), dbias_ptr = (\<lambda>i. Fin v),
                    xhat = (\<lambda>i. Fin v)\<rparr>"

definition const_train_bufs :: "real \<Rightarrow> train_bufs" where
  "const_train_bufs v = \<lparr>out_ptr = (\<lambda>i. Fin v), saveMean = (\<lambda>i. Fin v),
                          saveInvVariance = (\<lambda>i. Fin v), runningMean = (\<lambda>i. Fin v),
                          runningVariance = (\<lambda>i. Fin v)\<rparr>"

text \<open>
  A floating-point value agrees with a real number when it is that number, or is not a
  finite value that the model determines.
\<close>

definition agrees :: "fp \<Rightarrow> real \<Rightarrow> bool" where
  "agrees a r = (case a of Fin v \<Rightarrow> v = r | NaN \<Rightarrow> True | NonFin \<Rightarrow> True | Undet \<Rightarrow> True)"

text \<open>The values that are known to be an infinity or a NaN.\<close>

definition nonfinite :: "fp \<Rightarrow> bool" where
  "nonfinite a = (a = NaN \<or> a = NonFin)"


section \<open>Numbers of the formats\<close>

lemma is_binary_minus [simp]: "is_binary p d E (- r) = is_binary p d E r"
  by (simp add: is_binary_def)

lemma is_binary_dyadic:
  assumes "\<bar>m\<bar> < 2 ^ p" "k \<le> d" "p \<le> E"
  shows "is_binary p d E (real_of_int m / 2 ^ k)"
proof -
  let ?n = "\<bar>m\<bar> * 2 ^ (d - k)"
  have "(2::real) ^ d = 2 ^ (d - k) * 2 ^ k"
    using assms(2) by (simp add: power_add [symmetric])
  then have e: "\<bar>real_of_int m / 2 ^ k\<bar> * 2 ^ d = of_int ?n"
    by (simp add: abs_mult)
  have fl: "\<lfloor>\<bar>real_of_int m / 2 ^ k\<bar> * 2 ^ d\<rfloor> = ?n"
    unfolding e by (rule floor_of_int)
  have "\<bar>real_of_int m / 2 ^ k\<bar> \<le> \<bar>real_of_int m\<bar>"
    by (simp add: abs_mult divide_le_eq_1 field_simps mult_le_cancel_left1)
  also have "\<dots> < 2 ^ p" using assms(1) by (metis of_int_abs of_int_less_numeral_power_cancel_iff)
  also have "\<dots> \<le> 2 ^ E" using assms(3) by (simp add: power_increasing)
  finally have lt: "\<bar>real_of_int m / 2 ^ k\<bar> < 2 ^ E" .
  have dv: "?n mod 2 ^ (nat (bitlen ?n) - p) = 0"
  proof (cases "m = 0")
    case True
    then show ?thesis by simp
  next
    case False
    then have pos: "0 < \<bar>m\<bar>" by simp
    have "bitlen \<bar>m\<bar> \<le> int p"
      using assms(1) by (simp add: bitlen_le_iff_power)
    then have "nat (bitlen ?n) - p \<le> d - k"
      using pos by (simp add: bitlen_pow2 nat_add_distrib bitlen_nonneg)
    then have "(2::int) ^ (nat (bitlen ?n) - p) dvd 2 ^ (d - k)"
      by (simp add: le_imp_power_dvd)
    then have "(2::int) ^ (nat (bitlen ?n) - p) dvd ?n"
      by (rule dvd_mult)
    then show ?thesis by (simp add: mod_eq_0_iff_dvd)
  qed
  show ?thesis
    unfolding is_binary_def Let_def fl using e lt dv by simp
qed

lemma is_double_minus [simp]: "is_double (- r) = is_double r"
  by (simp add: is_double_def)

lemma is_float_minus [simp]: "is_float (- r) = is_float r"
  by (simp add: is_float_def)

lemma is_double_dyadic: "\<bar>m\<bar> < 2 ^ 53 \<Longrightarrow> k \<le> 1074 \<Longrightarrow> is_double (real_of_int m / 2 ^ k)"
  unfolding is_double_def by (rule is_binary_dyadic) simp_all

lemma is_float_dyadic: "\<bar>m\<bar> < 2 ^ 24 \<Longrightarrow> k \<le> 149 \<Longrightarrow> is_float (real_of_int m / 2 ^ k)"
  unfolding is_float_def by (rule is_binary_dyadic) simp_all

text \<open>Integers below \<open>2^53\<close> and their quotients by small powers of two, as literals.\<close>

lemma is_double_0 [simp]: "is_double 0"
  using is_double_dyadic [of 0 0] by simp

lemma is_double_1 [simp]: "is_double 1"
  using is_double_dyadic [of 1 0] by simp

lemma is_double_numeral [simp]:
  "(numeral n :: int) < 9007199254740992 \<Longrightarrow> is_double (numeral n)"
  using is_double_dyadic [of "numeral n" 0] by simp

lemma is_double_fraction [simp]:
  assumes "(numeral n :: int) < 9007199254740992"
  shows "is_double (numeral n / 2)" "is_double (numeral n / 4)" "is_double (numeral n / 8)"
    "is_double (numeral n / 16)" "is_double (numeral n / 32)" "is_double (numeral n / 64)"
    "is_double (numeral n / 128)" "is_double (numeral n / 256)" "is_double (numeral n / 512)"
    "is_double (numeral n / 1024)" "is_double (numeral n / 2048)" "is_double (numeral n / 4096)"
  using assms is_double_dyadic [of "numeral n" 1] is_double_dyadic [of "numeral n" 2]
    is_double_dyadic [of "numeral n" 3] is_double_dyadic [of "numeral n" 4]
    is_double_dyadic [of "numeral n" 5] is_double_dyadic [of "numeral n" 6]
    is_double_dyadic [of "numeral n" 7] is_double_dyadic [of "numeral n" 8]
    is_double_dyadic [of "numeral n" 9] is_double_dyadic [of "numeral n" 10]
    is_double_dyadic [of "numeral n" 11] is_double_dyadic [of "numeral n" 12]
  by simp_all

lemma is_double_unit_fraction [simp]:
  "is_double (1 / 2)" "is_double (1 / 4)" "is_double (1 / 8)"
    "is_double (1 / 16)" "is_double (1 / 32)" "is_double (1 / 64)"
    "is_double (1 / 128)" "is_double (1 / 256)" "is_double (1 / 512)"
    "is_double (1 / 1024)" "is_double (1 / 2048)" "is_double (1 / 4096)"
  using is_double_dyadic [of 1 1] is_double_dyadic [of 1 2]
    is_double_dyadic [of 1 3] is_double_dyadic [of 1 4]
    is_double_dyadic [of 1 5] is_double_dyadic [of 1 6]
    is_double_dyadic [of 1 7] is_double_dyadic [of 1 8]
    is_double_dyadic [of 1 9] is_double_dyadic [of 1 10]
    is_double_dyadic [of 1 11] is_double_dyadic [of 1 12]
  by simp_all


lemma is_float_0 [simp]: "is_float 0"
  using is_float_dyadic [of 0 0] by simp

lemma is_float_1 [simp]: "is_float 1"
  using is_float_dyadic [of 1 0] by simp

lemma is_float_numeral [simp]:
  "(numeral n :: int) < 16777216 \<Longrightarrow> is_float (numeral n)"
  using is_float_dyadic [of "numeral n" 0] by simp

lemma is_float_fraction [simp]:
  assumes "(numeral n :: int) < 16777216"
  shows "is_float (numeral n / 2)" "is_float (numeral n / 4)" "is_float (numeral n / 8)"
    "is_float (numeral n / 16)" "is_float (numeral n / 32)" "is_float (numeral n / 64)"
  using assms is_float_dyadic [of "numeral n" 1] is_float_dyadic [of "numeral n" 2]
    is_float_dyadic [of "numeral n" 3] is_float_dyadic [of "numeral n" 4]
    is_float_dyadic [of "numeral n" 5] is_float_dyadic [of "numeral n" 6]
  by simp_all

lemma is_float_unit_fraction [simp]:
  "is_float (1 / 2)" "is_float (1 / 4)" "is_float (1 / 8)"
    "is_float (1 / 16)" "is_float (1 / 32)" "is_float (1 / 64)"
  using is_float_dyadic [of 1 1] is_float_dyadic [of 1 2]
    is_float_dyadic [of 1 3] is_float_dyadic [of 1 4]
    is_float_dyadic [of 1 5] is_float_dyadic [of 1 6]
  by simp_all

section \<open>Agreement with real arithmetic\<close>

lemma agrees_Fin [simp]: "agrees (Fin v) r \<longleftrightarrow> v = r"
  by (simp add: agrees_def)

lemma agrees_other [simp]: "agrees NaN r" "agrees NonFin r" "agrees Undet r"
  by (simp_all add: agrees_def)

lemma agreesD: "agrees a r \<Longrightarrow> a = Fin v \<Longrightarrow> v = r"
  by simp

lemma agrees_add: "agrees a r \<Longrightarrow> agrees b s \<Longrightarrow> agrees (fp_add F a b) (r + s)"
  by (cases a; cases b) simp_all

lemma agrees_sub: "agrees a r \<Longrightarrow> agrees b s \<Longrightarrow> agrees (fp_sub F a b) (r - s)"
  by (cases a; cases b) simp_all

lemma agrees_mul: "agrees a r \<Longrightarrow> agrees b s \<Longrightarrow> agrees (fp_mul F a b) (r * s)"
  by (cases a; cases b) simp_all

lemma agrees_div: "agrees a r \<Longrightarrow> agrees b s \<Longrightarrow> agrees (fp_div F a b) (r / s)"
  by (cases a; cases b) simp_all

lemma agrees_sqrt: "agrees a r \<Longrightarrow> agrees (fp_sqrt F a) (sqrt r)"
  by (cases a) simp_all

lemma agrees_neg: "agrees a r \<Longrightarrow> agrees (dneg a) (- r)"
  by (cases a) simp_all

lemma agrees_fabs: "agrees a r \<Longrightarrow> agrees (dfabs a) \<bar>r\<bar>"
  by (cases a) simp_all

lemma agrees_fma:
  "agrees a r \<Longrightarrow> agrees b s \<Longrightarrow> agrees c t \<Longrightarrow> agrees (fp_fma F a b c) (r * s + t)"
  by (cases a; cases b; cases c) simp_all

lemma agrees_cast: "agrees a r \<Longrightarrow> agrees (fp_cast F a) r"
  by (cases a) simp_all

lemmas agrees_intros = agrees_add agrees_sub agrees_mul agrees_div agrees_sqrt agrees_neg
  agrees_fabs agrees_fma agrees_cast





lemma fp_sub_FinE:
  assumes "fp_sub F a b = Fin v"
  obtains r s where "a = Fin r" "b = Fin s" "v = r - s"
  using assms by (cases a; cases b) (auto split: if_splits)

section \<open>Loops as folds\<close>

lemma fold_dadd_Some:
  "(\<And>k a. k \<in> set ks \<Longrightarrow> F k (Fin a) = Fin (a + g k))
   \<Longrightarrow> fold F ks (Fin a) = Fin (a + sum_list (map g ks))"
  by (induction ks arbitrary: a) (simp_all add: add.assoc)

lemma fold_obs:
  "(\<And>k s. k \<in> set ks \<Longrightarrow> obs (F k s) = G k (obs s))
   \<Longrightarrow> obs (fold F ks s) = fold G ks (obs s)"
  by (induction ks arbitrary: s) simp_all

lemma fold_never:
  "k0 \<notin> set ks \<Longrightarrow> fold (\<lambda>k. if k = k0 then W else id) ks x = x"
  by (induction ks arbitrary: x) auto

lemma fold_once:
  "distinct ks \<Longrightarrow> k0 \<in> set ks \<Longrightarrow> fold (\<lambda>k. if k = k0 then W else id) ks x = W x"
proof (induction ks arbitrary: x)
  case Nil
  then show ?case by simp
next
  case (Cons k ks)
  show ?case
  proof (cases "k = k0")
    case True
    with Cons.prems have "k0 \<notin> set ks" by simp
    then have "fold (\<lambda>k. if k = k0 then W else id) ks (W x) = W x"
      by (rule fold_never)
    with True show ?thesis by simp
  next
    case False
    with Cons show ?thesis by simp
  qed
qed

lemma fold_concat_list: "fold f (concat xss) = fold (fold f) xss"
  by (induction xss) simp_all

lemma fold_nest3:
  "fold (\<lambda>i. fold (\<lambda>j. fold (\<lambda>k. F i j k) zs) ys) xs
   = fold (\<lambda>(i, j, k). F i j k) (List.product xs (List.product ys zs))"
  by (simp add: product_concat_map fold_concat_list fold_map o_def)

text \<open>Offsets: the decomposition of a linear offset into its coordinates is unique.\<close>

lemma nat_divmod_unique:
  fixes a :: nat
  assumes "a * q + r = a * q' + r'" "r < a" "r' < a"
  shows "q = q' \<and> r = r'"
proof -
  have "(a * q + r) div a = q" using assms(2) by simp
  moreover have "(a * q' + r') div a = q'" using assms(3) by simp
  ultimately have "q = q'" using assms(1) by metis
  with assms(1) show ?thesis by simp
qed

lemma img_lt: "row < height \<Longrightarrow> column < width \<Longrightarrow> width * row + column < height * (width::nat)"
proof -
  assume a: "row < height" "column < width"
  then have "width * row + column < width * row + width" by simp
  also have "\<dots> = width * Suc row" by simp
  also have "\<dots> \<le> width * height" using a(1) by (intro mult_le_mono2) simp
  finally show ?thesis by (simp add: mult.commute)
qed

lemma adj_lt:
  "cidx < channels \<Longrightarrow> row < height \<Longrightarrow> column < width
   \<Longrightarrow> height * width * cidx + width * row + column < channels * height * (width::nat)"
proof -
  assume a: "cidx < channels" "row < height" "column < width"
  have "height * width * cidx + width * row + column < height * width * cidx + height * width"
    using img_lt[OF a(2,3)] by simp
  also have "\<dots> = height * width * Suc cidx" by simp
  also have "\<dots> \<le> height * width * channels" using a(1) by (intro mult_le_mono2) simp
  finally show ?thesis by (simp add: mult.commute mult.left_commute)
qed

lemma adj_inj:
  assumes "height * width * cidx + width * row + column = height * width * cidx' + width * row' + column'"
    "row < height" "column < width" "row' < height" "column' < (width::nat)"
  shows "cidx = cidx' \<and> row = row' \<and> column = column'"
proof -
  have "height * width * cidx + (width * row + column) = height * width * cidx' + (width * row' + column')"
    using assms(1) by simp
  then have a: "cidx = cidx' \<and> width * row + column = width * row' + column'"
    using img_lt[OF assms(2,3)] img_lt[OF assms(4,5)] by (rule nat_divmod_unique)
  then have "row = row' \<and> column = column'"
    using assms(3,5) by (intro nat_divmod_unique) auto
  with a show ?thesis by simp
qed

lemma lin_inj:
  assumes "channels * height * width * bidx + (height * width * cidx + width * row + column)
         = channels * height * width * bidx' + (height * width * cidx' + width * row' + column')"
    "cidx < channels" "row < height" "column < width"
    "cidx' < channels" "row' < height" "column' < (width::nat)"
  shows "bidx = bidx' \<and> cidx = cidx' \<and> row = row' \<and> column = column'"
proof -
  have a: "bidx = bidx' \<and> height * width * cidx + width * row + column = height * width * cidx' + width * row' + column'"
    using assms(1) adj_lt[OF assms(2,3,4)] adj_lt[OF assms(5,6,7)] by (rule nat_divmod_unique)
  with adj_inj[of height width cidx row column cidx' row' column'] assms show ?thesis by simp
qed

lemma fold_upd_other:
  "i \<notin> g ` set ks \<Longrightarrow> fold (\<lambda>k f. f(g k := U k (f (g k)))) ks f i = f i"
  by (induction ks arbitrary: f) auto

lemma fold_upd_at:
  assumes "distinct ks" "inj_on g (set ks)" "k0 \<in> set ks"
  shows "fold (\<lambda>k f. f(g k := U k (f (g k)))) ks f (g k0) = U k0 (f (g k0))"
proof -
  have "\<And>k f. k \<in> set ks \<Longrightarrow>
          (f(g k := U k (f (g k)))) (g k0) = (if k = k0 then U k0 else id) (f (g k0))"
    using assms(2,3) by (auto dest: inj_onD)
  then have "fold (\<lambda>k f. f(g k := U k (f (g k)))) ks f (g k0)
        = fold (\<lambda>k. if k = k0 then U k0 else id) ks (f (g k0))"
    by (rule fold_obs[where obs = "\<lambda>f. f (g k0)"])
  then show ?thesis using fold_once[OF assms(1,3)] by simp
qed

lemma fold_agrees:
  assumes "\<And>k a r. k \<in> set ks \<Longrightarrow> agrees a r \<Longrightarrow> agrees (F k a) (r + f k)"
    and "agrees a r"
  shows "agrees (fold F ks a) (r + sum_list (map f ks))"
  using assms
proof (induction ks arbitrary: a r)
  case Nil
  then show ?case by simp
next
  case (Cons k ks)
  have "agrees (fold F ks (F k a)) (r + f k + sum_list (map f ks))"
    by (rule Cons.IH) (use Cons.prems in auto)
  then show ?case by (simp add: add.assoc)
qed

lemma pa_mean_agrees:
  "agrees (pa_mean n_batchs (channels * height * width) x adjIndex)
     (spec_mean x (pa_group n_batchs channels height width adjIndex))"
proof -
  have "agrees (fold (\<lambda>bidx mean_accum. dadd mean_accum (Fin (x (channels * height * width * bidx + adjIndex))))
          [0..<n_batchs] (Fin 0))
        (0 + sum_list (map (\<lambda>bidx. x (channels * height * width * bidx + adjIndex)) [0..<n_batchs]))"
    by (rule fold_agrees) (simp_all add: agrees_add)
  then have "agrees (ddiv (fold (\<lambda>bidx mean_accum. dadd mean_accum (Fin (x (channels * height * width * bidx + adjIndex))))
          [0..<n_batchs] (Fin 0)) (Fin (real n_batchs)))
        ((0 + sum_list (map (\<lambda>bidx. x (channels * height * width * bidx + adjIndex)) [0..<n_batchs]))
           / real n_batchs)"
    by (rule agrees_div) simp
  then show ?thesis
    by (simp add: pa_mean_def spec_mean_def pa_group_def o_def Let_def)
qed

text \<open>Pass 2 sums the squared deviations from whatever number it is handed as the mean.\<close>

lemma pa_variance_agrees:
  assumes "agrees m r"
  shows "agrees (pa_variance n_batchs (channels * height * width) x adjIndex m)
     ((\<Sum>i\<leftarrow>pa_group n_batchs channels height width adjIndex. (x i - r)\<^sup>2) / real n_batchs)"
proof -
  have "agrees (fold (\<lambda>bidx variance_accum. dadd variance_accum
                 (dmul (dsub (Fin (x (channels * height * width * bidx + adjIndex))) m)
                       (dsub (Fin (x (channels * height * width * bidx + adjIndex))) m)))
          [0..<n_batchs] (Fin 0))
        (0 + sum_list (map (\<lambda>bidx. (x (channels * height * width * bidx + adjIndex) - r)
                                    * (x (channels * height * width * bidx + adjIndex) - r)) [0..<n_batchs]))"
    by (rule fold_agrees) (simp_all add: agrees_add agrees_mul agrees_sub assms)
  then have "agrees (ddiv (fold (\<lambda>bidx variance_accum. dadd variance_accum
                 (dmul (dsub (Fin (x (channels * height * width * bidx + adjIndex))) m)
                       (dsub (Fin (x (channels * height * width * bidx + adjIndex))) m)))
          [0..<n_batchs] (Fin 0)) (Fin (real n_batchs)))
        ((0 + sum_list (map (\<lambda>bidx. (x (channels * height * width * bidx + adjIndex) - r)
                                    * (x (channels * height * width * bidx + adjIndex) - r)) [0..<n_batchs]))
           / real n_batchs)"
    by (rule agrees_div) simp
  then show ?thesis
    by (simp add: pa_variance_def pa_group_def o_def power2_eq_square Let_def)
qed

lemma loop3_obs:
  assumes "\<And>i j k s. i < a \<Longrightarrow> j < b \<Longrightarrow> k < c \<Longrightarrow> obs (F i j k s) = G i j k (obs s)"
  shows "obs (fold (\<lambda>i. fold (\<lambda>j. fold (\<lambda>k. F i j k) [0..<c]) [0..<b]) [0..<a] s)
         = fold (\<lambda>i. fold (\<lambda>j. fold (\<lambda>k. G i j k) [0..<c]) [0..<b]) [0..<a] (obs s)"
  unfolding fold_nest3
  by (rule fold_obs) (use assms in auto)

lemma loop3_frame:
  assumes k0: "i0 < a" "j0 < b" "k0 < c"
    and other: "\<And>i j k s. i < a \<Longrightarrow> j < b \<Longrightarrow> k < c \<Longrightarrow> (i, j, k) \<noteq> (i0, j0, k0)
                  \<Longrightarrow> obs (F i j k s) = obs s"
    and hit: "\<And>s. obs (F i0 j0 k0 s) = W (obs s)"
  shows "obs (fold (\<lambda>i. fold (\<lambda>j. fold (\<lambda>k. F i j k) [0..<c]) [0..<b]) [0..<a] s) = W (obs s)"
proof -
  let ?ks = "List.product [0..<a] (List.product [0..<b] [0..<c])"
  have "obs (fold (\<lambda>(i, j, k). F i j k) ?ks s)
        = fold (\<lambda>k. if k = (i0, j0, k0) then W else id) ?ks (obs s)"
  proof (rule fold_obs)
    fix k s assume a: "k \<in> set ?ks"
    obtain i j l where k: "k = (i, j, l)" by (cases k)
    with a have "i < a" "j < b" "l < c" by auto
    then show "obs ((case k of (i, j, k) \<Rightarrow> F i j k) s) = (if k = (i0, j0, k0) then W else id) (obs s)"
      using other[of i j l s] hit[of s] k by (cases "(i, j, l) = (i0, j0, k0)") auto
  qed
  also have "\<dots> = W (obs s)"
    using k0 by (intro fold_once) (auto intro!: distinct_product)
  finally show ?thesis unfolding fold_nest3 .
qed

lemma loop3_untouched:
  assumes "\<And>i j k s. i < a \<Longrightarrow> j < b \<Longrightarrow> k < c \<Longrightarrow> obs (F i j k s) = obs s"
  shows "obs (fold (\<lambda>i. fold (\<lambda>j. fold (\<lambda>k. F i j k) [0..<c]) [0..<b]) [0..<a] s) = obs s"
proof -
  have "obs (fold (\<lambda>i. fold (\<lambda>j. fold (\<lambda>k. F i j k) [0..<c]) [0..<b]) [0..<a] s)
        = fold (\<lambda>i. fold (\<lambda>j. fold (\<lambda>k. id) [0..<c]) [0..<b]) [0..<a] (obs s)"
    by (rule loop3_obs) (use assms in simp)
  then show ?thesis by (simp add: fold_id)
qed

lemma loop1_frame:
  assumes k0: "i0 < a"
    and other: "\<And>i s. i < a \<Longrightarrow> i \<noteq> i0 \<Longrightarrow> obs (F i s) = obs s"
    and hit: "\<And>s. obs (F i0 s) = W (obs s)"
  shows "obs (fold F [0..<a] s) = W (obs s)"
proof -
  have "obs (fold F [0..<a] s) = fold (\<lambda>k. if k = i0 then W else id) [0..<a] (obs s)"
    by (rule fold_obs) (use other hit in auto)
  also have "\<dots> = W (obs s)"
    using k0 by (intro fold_once) auto
  finally show ?thesis .
qed

lemma pa_normalize_other:
  "i \<notin> set (pa_group n_batchs channels height width adjIndex)
   \<Longrightarrow> pa_normalize n_batchs (channels * height * width) x scale bias adjIndex mean iv out i = out i"
  unfolding pa_normalize_def Let_def pa_group_def
  by (rule fold_upd_other[where U = "\<lambda>k _. dadd (dmul (Fin (scale adjIndex))
        (dmul (dsub (Fin (x (channels * height * width * k + adjIndex))) mean) iv)) (Fin (bias adjIndex))"
        and g = "\<lambda>bidx. channels * height * width * bidx + adjIndex"]) simp

lemma pa_normalize_at:
  assumes "0 < channels * height * width" "bidx < n_batchs"
  shows "pa_normalize n_batchs (channels * height * width) x scale bias adjIndex mean iv out
           (channels * height * width * bidx + adjIndex)
         = dadd (dmul (Fin (scale adjIndex))
                   (dmul (dsub (Fin (x (channels * height * width * bidx + adjIndex))) mean) iv))
                (Fin (bias adjIndex))"
proof -
  have "inj_on (\<lambda>bidx. channels * height * width * bidx + adjIndex) (set [0..<n_batchs])"
    using assms(1) by (auto simp: inj_on_def)
  then have "fold (\<lambda>k f. f(channels * height * width * k + adjIndex :=
                 (\<lambda>k _. dadd (dmul (Fin (scale adjIndex))
        (dmul (dsub (Fin (x (channels * height * width * k + adjIndex))) mean) iv)) (Fin (bias adjIndex)))
                  k (f (channels * height * width * k + adjIndex)))) [0..<n_batchs] out
          (channels * height * width * bidx + adjIndex) =
        (\<lambda>k _. dadd (dmul (Fin (scale adjIndex))
        (dmul (dsub (Fin (x (channels * height * width * k + adjIndex))) mean) iv)) (Fin (bias adjIndex)))
         bidx (out (channels * height * width * bidx + adjIndex))"
    using assms(2) by (intro fold_upd_at) auto
  then show ?thesis
    by (simp add: pa_normalize_def Let_def)
qed

lemma spec_variance_nonneg: "0 \<le> spec_variance x g"
  unfolding spec_variance_def
  by (intro divide_nonneg_nonneg sum_list_nonneg) auto

lemma invstd_agrees:
  "agrees v r \<Longrightarrow> agrees (ddiv (Fin 1) (dsqrt (dadd v (Fin epsilon)))) (spec_invstd r epsilon)"
  unfolding spec_invstd_def
  by (intro agrees_div agrees_sqrt agrees_add) simp_all

lemma normalize_agrees:
  assumes "agrees m r" "agrees iv j"
  shows "agrees (dadd (dmul (Fin scale) (dmul (dsub (Fin x) m) iv)) (Fin bias))
           (spec_normalize scale bias r j x)"
proof -
  have "agrees (dadd (dmul (Fin scale) (dmul (dsub (Fin x) m) iv)) (Fin bias))
          (scale * ((x - r) * j) + bias)"
    by (intro agrees_add agrees_mul agrees_sub assms) simp_all
  then show ?thesis by (simp add: spec_normalize_def mult.assoc)
qed

lemma pa_group_length [simp]: "length (pa_group n_batchs channels height width adjIndex) = n_batchs"
  by (simp add: pa_group_def)

lemma pa_variance_spec:
  "agrees (pa_variance n_batchs (channels * height * width) x adjIndex
             (pa_mean n_batchs (channels * height * width) x adjIndex))
     (spec_variance x (pa_group n_batchs channels height width adjIndex))"
  using pa_variance_agrees[OF pa_mean_agrees] by (simp add: spec_variance_def)

lemma pa_group_disjoint:
  assumes "cidx < channels" "row < height" "column < width"
    "cidx' < channels" "row' < height" "column' < width"
    "(cidx', row', column') \<noteq> (cidx, row, column)"
  shows "channels * height * width * bidx + (height * width * cidx + width * row + column)
         \<notin> set (pa_group n_batchs channels height width (height * width * cidx' + width * row' + column'))"
proof
  assume "channels * height * width * bidx + (height * width * cidx + width * row + column)
         \<in> set (pa_group n_batchs channels height width (height * width * cidx' + width * row' + column'))"
  then obtain b where "channels * height * width * bidx + (height * width * cidx + width * row + column)
     = channels * height * width * b + (height * width * cidx' + width * row' + column')"
    by (auto simp: pa_group_def)
  from lin_inj[OF this assms(1-6)] assms(7) show False by simp
qed

lemma fwd_train_pa_group_out:
  "out_ptr (fwd_train_pa_group n_batchs channels height width x scale bias epsilon sv rn f cidx row column s) =
     pa_normalize n_batchs (channels * height * width) x scale bias (height * width * cidx + width * row + column)
       (pa_mean n_batchs (channels * height * width) x (height * width * cidx + width * row + column))
       (ddiv (Fin 1) (dsqrt (dadd
          (pa_variance n_batchs (channels * height * width) x (height * width * cidx + width * row + column)
             (pa_mean n_batchs (channels * height * width) x (height * width * cidx + width * row + column)))
          (Fin epsilon))))
       (out_ptr s)"
  by (simp add: fwd_train_pa_group_def Let_def)

lemma fwd_train_pa_out_cell:
  assumes "cidx < channels" "row < height" "column < width" "bidx < n_batchs"
  shows "out_ptr (miopenBNFwdTrainPerActivationRunHost n_batchs channels height width x scale bias
                    epsilon sv rn f s) (channels * height * width * bidx + (height * width * cidx + width * row + column))
         = dadd (dmul (Fin (scale (height * width * cidx + width * row + column)))
                   (dmul (dsub (Fin (x (channels * height * width * bidx + (height * width * cidx + width * row + column))))
                            (pa_mean n_batchs (channels * height * width) x (height * width * cidx + width * row + column)))
                      (ddiv (Fin 1) (dsqrt (dadd
          (pa_variance n_batchs (channels * height * width) x (height * width * cidx + width * row + column)
             (pa_mean n_batchs (channels * height * width) x (height * width * cidx + width * row + column)))
          (Fin epsilon))))))
                (Fin (bias (height * width * cidx + width * row + column)))"
  unfolding miopenBNFwdTrainPerActivationRunHost_def
proof (rule loop3_frame[where obs = "\<lambda>s. out_ptr s (channels * height * width * bidx + (height * width * cidx + width * row + column))"
         and W = "\<lambda>_. dadd (dmul (Fin (scale (height * width * cidx + width * row + column)))
                   (dmul (dsub (Fin (x (channels * height * width * bidx + (height * width * cidx + width * row + column))))
                            (pa_mean n_batchs (channels * height * width) x (height * width * cidx + width * row + column)))
                      (ddiv (Fin 1) (dsqrt (dadd
          (pa_variance n_batchs (channels * height * width) x (height * width * cidx + width * row + column)
             (pa_mean n_batchs (channels * height * width) x (height * width * cidx + width * row + column)))
          (Fin epsilon))))))
                (Fin (bias (height * width * cidx + width * row + column)))"
         and ?i0.0 = cidx and ?j0.0 = row and ?k0.0 = column])
  show "cidx < channels" "row < height" "column < width" by fact+
next
  fix i j k s
  assume "i < channels" "j < height" "k < width" "(i, j, k) \<noteq> (cidx, row, column)"
  then show "out_ptr (fwd_train_pa_group n_batchs channels height width x scale bias epsilon sv rn f i j k s)
               (channels * height * width * bidx + (height * width * cidx + width * row + column))
             = out_ptr s (channels * height * width * bidx + (height * width * cidx + width * row + column))"
    unfolding fwd_train_pa_group_out
    using assms(1-3) by (intro pa_normalize_other pa_group_disjoint) auto
next
  fix s
  have pos: "0 < channels * height * width" using assms by auto
  show "out_ptr (fwd_train_pa_group n_batchs channels height width x scale bias epsilon sv rn f cidx row column s)
               (channels * height * width * bidx + (height * width * cidx + width * row + column))
        = dadd (dmul (Fin (scale (height * width * cidx + width * row + column)))
                   (dmul (dsub (Fin (x (channels * height * width * bidx + (height * width * cidx + width * row + column))))
                            (pa_mean n_batchs (channels * height * width) x (height * width * cidx + width * row + column)))
                      (ddiv (Fin 1) (dsqrt (dadd
          (pa_variance n_batchs (channels * height * width) x (height * width * cidx + width * row + column)
             (pa_mean n_batchs (channels * height * width) x (height * width * cidx + width * row + column)))
          (Fin epsilon))))))
                (Fin (bias (height * width * cidx + width * row + column)))"
    unfolding fwd_train_pa_group_out pa_normalize_at[OF pos assms(4)] ..
qed

lemma fwd_train_pa_out:
  assumes "cidx < channels" "row < height" "column < width" "bidx < n_batchs"
  shows "agrees (out_ptr (miopenBNFwdTrainPerActivationRunHost n_batchs channels height width x scale bias
                    epsilon sv rn f s) (lin_index channels height width bidx cidx row column))
           (spec_normalize (scale (adj_index height width cidx row column))
                   (bias (adj_index height width cidx row column))
                   (spec_mean x (pa_group n_batchs channels height width (adj_index height width cidx row column)))
                   (spec_invstd (spec_variance x (pa_group n_batchs channels height width
                                   (adj_index height width cidx row column))) epsilon)
                   (x (lin_index channels height width bidx cidx row column)))"
  unfolding lin_index_def adj_index_def fwd_train_pa_out_cell[OF assms]
  by (intro normalize_agrees invstd_agrees pa_mean_agrees pa_variance_spec)

section \<open>Evaluation on small tensors\<close>

lemma upt_small: "[0..<2] = [0, 1]" "[0..<1] = [0]"
  by (simp_all add: upt_rec)

lemmas bwd_eval = miopenBNBwdPerActivationRunHost_def bwd_pa_group_def bwd_pa_accumulate_def
  bwd_pa_dx_def pa_mean_def pa_variance_def miopenBNBwdSpatialRunHost_def bwd_sp_channel_def
  bwd_sp_accumulate_saved_def bwd_sp_dx_saved_def bwd_sp_accumulate_def bwd_sp_dx_def sp_sum_def
  sp_sqsum_def const_bufs_def upt_small Let_def

section \<open>C1: the input gradient\<close>

text \<open>
  C1. Claim: in either mode, every element of every group of size \<open>M\<close> receives
  \<open>dx_i = (invVar/M) * (M*scale*dy_i - scale*dbias - xhat_i*scale*dscale)\<close>, with the
  group's accumulators \<open>dbias\<close> and \<open>dscale\<close>.

  The per-activation loop computes \<open>n_batchs * dxhat\<close>, with \<open>dxhat\<close> the sum of
  \<open>scale * dy\<close> over the whole group, where the formula has \<open>M * scale * dy_i\<close>. On one
  group of two elements, \<open>x = [1, 3]\<close>, \<open>dy = [1, 0]\<close>, \<open>scale = 1\<close>,
  \<open>epsilon = 3\<close> (so \<open>mean = 2\<close>, \<open>invVar = 1/2\<close>) and zeroed gradient buffers, the
  per-activation call writes \<open>dx[1] = 5/16\<close> on both of its branches, while the formula gives
  \<open>-7/32\<close> from the accumulators the call emits (\<open>dbias = 1\<close>, \<open>dscale = -1/4\<close>),
  and \<open>-3/16\<close> from the undivided sum \<open>-1/2\<close> in the place of \<open>dscale\<close>; the spatial
  call, on the same group, writes \<open>-7/32\<close>.
\<close>

theorem C1_per_activation_dx_differs:
  "dx_ptr (miopenBNBwdPerActivationRunHost 2 1 1 1 (\<lambda>i. if i = 0 then 1 else 3)
             (\<lambda>i. if i = 0 then 1 else 0) (\<lambda>i. 1) 3 False (\<lambda>i. NonFin) (\<lambda>i. NonFin) (const_bufs 0)) 1
     = Fin (5 / 16)
   \<and> dx_ptr (miopenBNBwdPerActivationRunHost 2 1 1 1 (\<lambda>i. if i = 0 then 1 else 3)
             (\<lambda>i. if i = 0 then 1 else 0) (\<lambda>i. 1) 3 True (\<lambda>i. Fin 2) (\<lambda>i. Fin (1 / 2))
             (const_bufs 0)) 1
     = Fin (5 / 16)
   \<and> dbias_ptr (miopenBNBwdPerActivationRunHost 2 1 1 1 (\<lambda>i. if i = 0 then 1 else 3)
             (\<lambda>i. if i = 0 then 1 else 0) (\<lambda>i. 1) 3 False (\<lambda>i. NonFin) (\<lambda>i. NonFin) (const_bufs 0)) 0
     = Fin 1
   \<and> dscale_ptr (miopenBNBwdPerActivationRunHost 2 1 1 1 (\<lambda>i. if i = 0 then 1 else 3)
             (\<lambda>i. if i = 0 then 1 else 0) (\<lambda>i. 1) 3 False (\<lambda>i. NonFin) (\<lambda>i. NonFin) (const_bufs 0)) 0
     = Fin (- 1 / 4)
   \<and> spec_dx 2 1 (1 / 2) 0 (spec_xhat 2 (1 / 2) 3) 1 (- 1 / 4) = - 7 / 32
   \<and> spec_dx 2 1 (1 / 2) 0 (spec_xhat 2 (1 / 2) 3) 1 (- 1 / 2) = - 3 / 16
   \<and> dx_ptr (miopenBNBwdSpatialRunHost 2 1 1 1 (\<lambda>i. if i = 0 then 1 else 3)
             (\<lambda>i. if i = 0 then 1 else 0) (\<lambda>i. 1) 3 False (\<lambda>i. NonFin) (\<lambda>i. NonFin) (const_bufs 0)) 1
     = Fin (- 7 / 32)"
  by (simp add: bwd_eval spec_dx_def spec_xhat_def)

section \<open>The spatial loops\<close>

lemma dmul_commute: "fp_mul F a b = fp_mul F b a"
  by (cases a; cases b) (simp_all add: mult.commute)

lemma sp_sum_guarded_eq:
  "sp_sum_guarded n_batchs height width in_nstride (height * width) x cidx
   = sp_sum n_batchs height width in_nstride (height * width) x cidx"
  unfolding sp_sum_guarded_def sp_sum_def Let_def
  by (intro fold_cong refl ext) (simp add: img_lt add.assoc)

lemma sp_center_guarded_eq:
  "sp_center_guarded n_batchs height width in_nstride (height * width) x cidx mean out
   = sp_center n_batchs height width in_nstride (height * width) x cidx mean out"
  unfolding sp_center_guarded_def sp_center_def Let_def
  by (intro fold_cong refl ext) (simp add: img_lt add.assoc)

lemma sp_scale_guarded_eq:
  "sp_scale_guarded n_batchs height width in_nstride (height * width) scale bias cidx iv out
   = sp_scale n_batchs height width in_nstride (height * width) scale bias cidx iv out"
  unfolding sp_scale_guarded_def sp_scale_def Let_def
  by (intro fold_cong refl ext) (simp add: img_lt add.assoc dmul_commute)

lemma sp_group_length [simp]:
  "length (sp_group n_batchs channels height width cidx) = height * width * n_batchs"
  by (simp add: sp_group_def)

lemma sp_group_map:
  "map f (sp_group n_batchs channels height width cidx)
   = map (\<lambda>(row, column, bidx). f (channels * height * width * bidx + (height * width * cidx + width * row + column)))
       (List.product [0..<height] (List.product [0..<width] [0..<n_batchs]))"
  by (simp add: sp_group_def lin_index_def adj_index_def o_def case_prod_unfold)

lemma sp_sum_agrees:
  "agrees (sp_sum n_batchs height width (channels * height * width) (height * width) x cidx)
     (\<Sum>i\<leftarrow>sp_group n_batchs channels height width cidx. x i)"
proof -
  have "agrees (fold (\<lambda>(row, column, bidx) mean_accum.
               dadd mean_accum (Fin (x (channels * height * width * bidx + (height * width * cidx + width * row + column)))))
          (List.product [0..<height] (List.product [0..<width] [0..<n_batchs])) (Fin 0))
        (0 + sum_list (map (\<lambda>(row, column, bidx).
                 x (channels * height * width * bidx + (height * width * cidx + width * row + column)))
               (List.product [0..<height] (List.product [0..<width] [0..<n_batchs]))))"
    by (rule fold_agrees) (auto simp: agrees_add)
  then show ?thesis
    unfolding sp_sum_def Let_def fold_nest3 sp_group_map by (simp add: add.assoc)
qed

lemma sp_sqsum_agrees:
  assumes "agrees m r"
  shows "agrees (sp_sqsum n_batchs height width (channels * height * width) (height * width) x cidx m)
     (\<Sum>i\<leftarrow>sp_group n_batchs channels height width cidx. (x i - r)\<^sup>2)"
proof -
  have "agrees (fold (\<lambda>(row, column, bidx) variance.
               dadd variance
                 (dmul (dsub (Fin (x (channels * height * width * bidx + (height * width * cidx + width * row + column)))) m)
                       (dsub (Fin (x (channels * height * width * bidx + (height * width * cidx + width * row + column)))) m)))
          (List.product [0..<height] (List.product [0..<width] [0..<n_batchs])) (Fin 0))
        (0 + sum_list (map (\<lambda>(row, column, bidx).
                 (x (channels * height * width * bidx + (height * width * cidx + width * row + column)) - r)
                 * (x (channels * height * width * bidx + (height * width * cidx + width * row + column)) - r))
               (List.product [0..<height] (List.product [0..<width] [0..<n_batchs]))))"
    by (rule fold_agrees) (auto simp: agrees_add agrees_mul agrees_sub assms)
  then show ?thesis
    unfolding sp_sqsum_def Let_def fold_nest3 sp_group_map by (simp add: add.assoc power2_eq_square)
qed

lemma sp_keys_inj:
  assumes "cidx < channels"
  shows "inj_on (\<lambda>(row, column, bidx). channels * height * width * bidx + (height * width * cidx + width * row + column))
           (set (List.product [0..<height] (List.product [0..<width] [0..<n_batchs])))"
proof (rule inj_onI)
  fix p q
  assume p: "p \<in> set (List.product [0..<height] (List.product [0..<width] [0..<n_batchs]))"
    and q: "q \<in> set (List.product [0..<height] (List.product [0..<width] [0..<n_batchs]))"
    and e: "(case p of (row, column, bidx) \<Rightarrow> channels * height * width * bidx + (height * width * cidx + width * row + column))
          = (case q of (row, column, bidx) \<Rightarrow> channels * height * width * bidx + (height * width * cidx + width * row + column))"
  obtain r c b where pp: "p = (r, c, b)" by (cases p)
  obtain r' c' b' where qq: "q = (r', c', b')" by (cases q)
  from p q pp qq have bounds: "r < height" "c < width" "r' < height" "c' < width" by auto
  from e pp qq have "channels * height * width * b + (height * width * cidx + width * r + c)
      = channels * height * width * b' + (height * width * cidx + width * r' + c')" by simp
  from lin_inj[OF this assms bounds(1,2) assms bounds(3,4)] show "p = q" using pp qq by simp
qed

lemma sp_keys_distinct:
  "distinct (List.product [0..<height] (List.product [0..<width] [0..<n_batchs]))"
  by (intro distinct_product) simp_all

lemma set_sp_group:
  "set (sp_group n_batchs channels height width cidx)
   = (\<lambda>(r, c, b). channels * height * width * b + (height * width * cidx + width * r + c))
       ` ({0..<height} \<times> {0..<width} \<times> {0..<n_batchs})"
  by (simp add: sp_group_def lin_index_def adj_index_def)

lemma sp_group_memberE:
  assumes "i \<in> set (sp_group n_batchs channels height width cidx)"
  obtains r c b where "r < height" "c < width" "b < n_batchs"
    "i = channels * height * width * b + (height * width * cidx + width * r + c)"
proof -
  from assms obtain k where k: "k \<in> {0..<height} \<times> {0..<width} \<times> {0..<n_batchs}"
    "i = (case k of (r, c, b) \<Rightarrow> channels * height * width * b + (height * width * cidx + width * r + c))"
    unfolding set_sp_group by (rule imageE)
  obtain r c b where "k = (r, c, b)" by (cases k)
  with k that show thesis by auto
qed

lemma sp_group_other_channel:
  assumes "cidx < channels" "row < height" "column < width" "cidx' \<noteq> cidx" "cidx' < channels"
  shows "channels * height * width * bidx + (height * width * cidx + width * row + column)
           \<notin> set (sp_group n_batchs channels height width cidx')"
proof
  assume "channels * height * width * bidx + (height * width * cidx + width * row + column)
           \<in> set (sp_group n_batchs channels height width cidx')"
  then obtain r c b where "r < height" "c < width"
    "channels * height * width * bidx + (height * width * cidx + width * row + column)
     = channels * height * width * b + (height * width * cidx' + width * r + c)"
    by (rule sp_group_memberE)
  from lin_inj[OF this(3) assms(1,2,3) assms(5) this(1,2)] assms(4) show False by simp
qed

text \<open>A triple loop that updates one buffer element per iteration.\<close>

lemma sp_upd_other:
  assumes "i \<notin> set (sp_group n_batchs channels height width cidx)"
  shows "fold (\<lambda>row. fold (\<lambda>column. fold (\<lambda>bidx f.
            f(channels * height * width * bidx + (height * width * cidx + width * row + column)
              := U row column bidx (f (channels * height * width * bidx + (height * width * cidx + width * row + column)))))
          [0..<n_batchs]) [0..<width]) [0..<height] f i = f i"
proof -
  have "fold (\<lambda>k f. f((case k of (row, column, bidx) \<Rightarrow>
                 channels * height * width * bidx + (height * width * cidx + width * row + column))
             := (case k of (row, column, bidx) \<Rightarrow> U row column bidx)
                 (f (case k of (row, column, bidx) \<Rightarrow>
                 channels * height * width * bidx + (height * width * cidx + width * row + column)))))
          (List.product [0..<height] (List.product [0..<width] [0..<n_batchs])) f i = f i"
    using assms unfolding sp_group_def lin_index_def adj_index_def
    by (intro fold_upd_other) (simp add: case_prod_unfold)
  then show ?thesis
    unfolding fold_nest3 by (simp add: case_prod_unfold)
qed

lemma sp_upd_at:
  assumes "cidx < channels" "row < height" "column < width" "bidx < n_batchs"
  shows "fold (\<lambda>row. fold (\<lambda>column. fold (\<lambda>bidx f.
            f(channels * height * width * bidx + (height * width * cidx + width * row + column)
              := U row column bidx (f (channels * height * width * bidx + (height * width * cidx + width * row + column)))))
          [0..<n_batchs]) [0..<width]) [0..<height] f
            (channels * height * width * bidx + (height * width * cidx + width * row + column))
         = U row column bidx (f (channels * height * width * bidx + (height * width * cidx + width * row + column)))"
proof -
  let ?g = "\<lambda>(row, column, bidx). channels * height * width * bidx + (height * width * cidx + width * row + column)"
  let ?ks = "List.product [0..<height] (List.product [0..<width] [0..<n_batchs])"
  have "fold (\<lambda>k f. f(?g k := (case k of (row, column, bidx) \<Rightarrow> U row column bidx) (f (?g k))))
          ?ks f (?g (row, column, bidx))
        = (case (row, column, bidx) of (row, column, bidx) \<Rightarrow> U row column bidx) (f (?g (row, column, bidx)))"
    using assms by (intro fold_upd_at sp_keys_distinct sp_keys_inj) auto
  then show ?thesis
    unfolding fold_nest3 by (simp add: case_prod_unfold)
qed

lemma fold_obs_init:
  "(\<And>k s. k \<in> set ks \<Longrightarrow> obs (F k s) = G k (obs s)) \<Longrightarrow> obs s = a
   \<Longrightarrow> obs (fold F ks s) = fold G ks a"
  using fold_obs[of ks obs F G s] by simp

lemma sp_center_fst:
  "fst (sp_center n_batchs height width (channels * height * width) (height * width) x cidx mean out)
   = fold (\<lambda>row. fold (\<lambda>column. fold (\<lambda>bidx f.
            f(channels * height * width * bidx + (height * width * cidx + width * row + column)
              := (\<lambda>row column bidx _. dsub (Fin (x (channels * height * width * bidx
                     + (height * width * cidx + width * row + column)))) mean) row column bidx
                 (f (channels * height * width * bidx + (height * width * cidx + width * row + column)))))
          [0..<n_batchs]) [0..<width]) [0..<height] out"
  unfolding sp_center_def Let_def fold_nest3
  by (rule fold_obs_init[where obs = fst]) (auto simp: add.assoc)

text \<open>The sum that pass 2 returns does not depend on the scratchpad.\<close>

lemma sp_center_snd:
  "snd (sp_center n_batchs height width in_nstride in_cstride x cidx mean out)
   = sp_sqsum n_batchs height width in_nstride in_cstride x cidx mean"
  unfolding sp_center_def sp_sqsum_def Let_def fold_nest3
  by (rule fold_obs_init[where obs = snd]) auto

section \<open>The spatial forward passes\<close>

lemma fwd_train_sp_channel_out:
  "out_ptr (fwd_train_sp_channel n_batchs channels height width x scale bias epsilon sv rn f cidx s)
   = fwd_infer_sp_channel n_batchs channels height width x scale bias epsilon False em ev cidx (out_ptr s)"
  by (simp add: fwd_train_sp_channel_def fwd_infer_sp_channel_def Let_def sp_sum_guarded_eq
      sp_center_guarded_eq sp_scale_guarded_eq case_prod_unfold)

lemma sp_mean_agrees:
  "agrees (ddiv (sp_sum n_batchs height width (channels * height * width) (height * width) x cidx)
                (Fin (real (height * width * n_batchs))))
     (spec_mean x (sp_group n_batchs channels height width cidx))"
  unfolding spec_mean_def sp_group_length
  by (intro agrees_div sp_sum_agrees) simp

lemma sp_variance_agrees:
  assumes "agrees m r"
  shows "agrees (ddiv (sp_sqsum n_batchs height width (channels * height * width) (height * width) x cidx m)
                (Fin (real (height * width * n_batchs))))
     ((\<Sum>i\<leftarrow>sp_group n_batchs channels height width cidx. (x i - r)\<^sup>2) / real (height * width * n_batchs))"
  by (intro agrees_div sp_sqsum_agrees assms) simp

lemma sp_variance_spec:
  "agrees (ddiv (sp_sqsum n_batchs height width (channels * height * width) (height * width) x cidx
                   (ddiv (sp_sum n_batchs height width (channels * height * width) (height * width) x cidx)
                         (Fin (real (height * width * n_batchs)))))
                (Fin (real (height * width * n_batchs))))
     (spec_variance x (sp_group n_batchs channels height width cidx))"
  using sp_variance_agrees[OF sp_mean_agrees] by (simp add: spec_variance_def)

lemma sp_scale_other:
  "i \<notin> set (sp_group n_batchs channels height width cidx) \<Longrightarrow>
   sp_scale n_batchs height width (channels * height * width) (height * width) scale bias cidx iv out i = out i"
  unfolding sp_scale_def Let_def
  by (rule sp_upd_other[where U = "\<lambda>row column bidx v. dadd (dmul (Fin (scale cidx)) (dmul v iv)) (Fin (bias cidx))"])

lemma sp_scale_at:
  assumes "cidx < channels" "row < height" "column < width" "bidx < n_batchs"
  shows "sp_scale n_batchs height width (channels * height * width) (height * width) scale bias cidx iv out
           (channels * height * width * bidx + (height * width * cidx + width * row + column))
         = dadd (dmul (Fin (scale cidx))
                   (dmul (out (channels * height * width * bidx + (height * width * cidx + width * row + column))) iv))
                (Fin (bias cidx))"
  unfolding sp_scale_def Let_def
  by (rule sp_upd_at[OF assms, where U = "\<lambda>row column bidx v. dadd (dmul (Fin (scale cidx)) (dmul v iv)) (Fin (bias cidx))"])

lemma sp_center_other:
  "i \<notin> set (sp_group n_batchs channels height width cidx) \<Longrightarrow>
   fst (sp_center n_batchs height width (channels * height * width) (height * width) x cidx mean out) i = out i"
  unfolding sp_center_fst by (rule sp_upd_other)

lemma sp_center_at:
  assumes "cidx < channels" "row < height" "column < width" "bidx < n_batchs"
  shows "fst (sp_center n_batchs height width (channels * height * width) (height * width) x cidx mean out)
           (channels * height * width * bidx + (height * width * cidx + width * row + column))
         = dsub (Fin (x (channels * height * width * bidx + (height * width * cidx + width * row + column)))) mean"
  unfolding sp_center_fst by (rule sp_upd_at[OF assms])

lemma sp_normalize_est_other:
  "i \<notin> set (sp_group n_batchs channels height width cidx) \<Longrightarrow>
   sp_normalize_est n_batchs height width (channels * height * width) (height * width) x scale bias cidx
     mean iv out i = out i"
  unfolding sp_normalize_est_def Let_def
  by (rule sp_upd_other[where U = "\<lambda>row column bidx _. dadd (dmul (Fin (scale cidx))
          (dmul (dsub (Fin (x (channels * height * width * bidx + (height * width * cidx + width * row + column)))) mean) iv))
          (Fin (bias cidx))"])

lemma sp_normalize_est_at:
  assumes "cidx < channels" "row < height" "column < width" "bidx < n_batchs"
  shows "sp_normalize_est n_batchs height width (channels * height * width) (height * width) x scale bias cidx
           mean iv out (channels * height * width * bidx + (height * width * cidx + width * row + column))
         = dadd (dmul (Fin (scale cidx))
                   (dmul (dsub (Fin (x (channels * height * width * bidx
                            + (height * width * cidx + width * row + column)))) mean) iv))
                (Fin (bias cidx))"
  unfolding sp_normalize_est_def Let_def
  by (rule sp_upd_at[OF assms, where U = "\<lambda>row column bidx _. dadd (dmul (Fin (scale cidx))
          (dmul (dsub (Fin (x (channels * height * width * bidx + (height * width * cidx + width * row + column)))) mean) iv))
          (Fin (bias cidx))"])

section \<open>Inference and training compute the same output\<close>

lemma fwd_train_pa_group_infer:
  "out_ptr (fwd_train_pa_group n_batchs channels height width x scale bias epsilon sv rn f cidx row column s)
   = fwd_infer_pa_group n_batchs channels height width x scale bias epsilon False em ev cidx row column (out_ptr s)"
  by (simp add: fwd_train_pa_group_def fwd_infer_pa_group_def Let_def)

lemma fwd_train_pa_infer:
  "out_ptr (miopenBNFwdTrainPerActivationRunHost n_batchs channels height width x scale bias epsilon sv rn f s)
   = miopenBNFwdInferPerActivationRunHost n_batchs channels height width x scale bias epsilon False em ev
       (out_ptr s)"
  unfolding miopenBNFwdTrainPerActivationRunHost_def miopenBNFwdInferPerActivationRunHost_def
  by (rule loop3_obs) (rule fwd_train_pa_group_infer)

lemma fwd_train_sp_infer:
  "out_ptr (miopenBNFwdTrainSpatialRunHost n_batchs channels height width x scale bias epsilon sv rn f s)
   = miopenBNFwdInferSpatialRunHost n_batchs channels height width x scale bias epsilon False em ev
       (out_ptr s)"
  unfolding miopenBNFwdTrainSpatialRunHost_def miopenBNFwdInferSpatialRunHost_def
  by (rule fold_obs) (rule fwd_train_sp_channel_out)

section \<open>The output of the inference passes\<close>

lemma fwd_infer_pa_est_cell:
  assumes "cidx < channels" "row < height" "column < width" "bidx < n_batchs"
  shows "miopenBNFwdInferPerActivationRunHost n_batchs channels height width x scale bias epsilon True em ev out
           (channels * height * width * bidx + (height * width * cidx + width * row + column))
        = dadd (dmul (Fin (scale (height * width * cidx + width * row + column)))
                        (dmul (dsub (Fin (x (channels * height * width * bidx + (height * width * cidx + width * row + column))))
                                    (em (height * width * cidx + width * row + column)))
                              (ddiv (Fin 1) (dsqrt (dadd (ev (height * width * cidx + width * row + column))
                                                          (Fin epsilon))))))
                      (Fin (bias (height * width * cidx + width * row + column)))"
  unfolding miopenBNFwdInferPerActivationRunHost_def
proof (rule loop3_frame[where obs = "\<lambda>out. out (channels * height * width * bidx + (height * width * cidx + width * row + column))"
         and W = "\<lambda>_. dadd (dmul (Fin (scale (height * width * cidx + width * row + column)))
                        (dmul (dsub (Fin (x (channels * height * width * bidx + (height * width * cidx + width * row + column))))
                                    (em (height * width * cidx + width * row + column)))
                              (ddiv (Fin 1) (dsqrt (dadd (ev (height * width * cidx + width * row + column))
                                                          (Fin epsilon))))))
                      (Fin (bias (height * width * cidx + width * row + column)))"
         and ?i0.0 = cidx and ?j0.0 = row and ?k0.0 = column])
  show "cidx < channels" "row < height" "column < width" by fact+
next
  fix i j k s
  assume "i < channels" "j < height" "k < width" "(i, j, k) \<noteq> (cidx, row, column)"
  then show "fwd_infer_pa_group n_batchs channels height width x scale bias epsilon True em ev i j k s
               (channels * height * width * bidx + (height * width * cidx + width * row + column))
             = s (channels * height * width * bidx + (height * width * cidx + width * row + column))"
    unfolding fwd_infer_pa_group_def Let_def if_True
    using assms(1-3) by (intro pa_normalize_other pa_group_disjoint) auto
next
  fix s
  have pos: "0 < channels * height * width" using assms by auto
  show "fwd_infer_pa_group n_batchs channels height width x scale bias epsilon True em ev cidx row column s
               (channels * height * width * bidx + (height * width * cidx + width * row + column))
          = dadd (dmul (Fin (scale (height * width * cidx + width * row + column)))
                        (dmul (dsub (Fin (x (channels * height * width * bidx + (height * width * cidx + width * row + column))))
                                    (em (height * width * cidx + width * row + column)))
                              (ddiv (Fin 1) (dsqrt (dadd (ev (height * width * cidx + width * row + column))
                                                          (Fin epsilon))))))
                      (Fin (bias (height * width * cidx + width * row + column)))"
    unfolding fwd_infer_pa_group_def Let_def if_True pa_normalize_at[OF pos assms(4)] ..
qed

lemma fwd_infer_pa_out:
  assumes "cidx < channels" "row < height" "column < width" "bidx < n_batchs"
  shows "agrees (miopenBNFwdInferPerActivationRunHost n_batchs channels height width x scale bias epsilon
                   False em ev out (lin_index channels height width bidx cidx row column))
           (spec_normalize (scale (adj_index height width cidx row column))
                         (bias (adj_index height width cidx row column))
                         (spec_mean x (pa_group n_batchs channels height width (adj_index height width cidx row column)))
                         (spec_invstd (spec_variance x (pa_group n_batchs channels height width
                                         (adj_index height width cidx row column))) epsilon)
                         (x (lin_index channels height width bidx cidx row column)))"
proof -
  have "out_ptr (miopenBNFwdTrainPerActivationRunHost n_batchs channels height width x scale bias epsilon
          False False 0 \<lparr>out_ptr = out, saveMean = em, saveInvVariance = em, runningMean = em,
             runningVariance = em\<rparr>)
        = miopenBNFwdInferPerActivationRunHost n_batchs channels height width x scale bias epsilon False em ev out"
    using fwd_train_pa_infer[of n_batchs channels height width x scale bias epsilon False False 0
       "\<lparr>out_ptr = out, saveMean = em, saveInvVariance = em, runningMean = em, runningVariance = em\<rparr>" em ev]
    by simp
  with fwd_train_pa_out[OF assms, of x scale bias epsilon False False 0
       "\<lparr>out_ptr = out, saveMean = em, saveInvVariance = em, runningMean = em, runningVariance = em\<rparr>"]
  show ?thesis by simp
qed

lemma fwd_infer_sp_channel_computed:
  "fwd_infer_sp_channel n_batchs channels height width x scale bias epsilon False em ev cidx out
   = sp_scale n_batchs height width (channels * height * width) (height * width) scale bias cidx
       (ddiv (Fin 1) (dsqrt (dadd
          (ddiv (sp_sqsum n_batchs height width (channels * height * width) (height * width) x cidx
                        (ddiv (sp_sum n_batchs height width (channels * height * width) (height * width) x cidx)
                              (Fin (real (height * width * n_batchs)))))
                (Fin (real (height * width * n_batchs))))
          (Fin epsilon))))
       (fst (sp_center n_batchs height width (channels * height * width) (height * width) x cidx
               (ddiv (sp_sum n_batchs height width (channels * height * width) (height * width) x cidx)
                     (Fin (real (height * width * n_batchs)))) out))"
  by (simp add: fwd_infer_sp_channel_def Let_def case_prod_unfold sp_center_snd)

lemma fwd_infer_sp_channel_other:
  assumes "i \<notin> set (sp_group n_batchs channels height width cidx)"
  shows "fwd_infer_sp_channel n_batchs channels height width x scale bias epsilon est em ev cidx out i = out i"
proof (cases est)
  case True
  then show ?thesis
    by (simp add: fwd_infer_sp_channel_def Let_def sp_normalize_est_other[OF assms])
next
  case False
  then show ?thesis
    by (simp add: fwd_infer_sp_channel_computed sp_scale_other[OF assms] sp_center_other[OF assms])
qed

lemma fwd_infer_sp_cell:
  assumes "cidx < channels" "row < height" "column < width" "bidx < n_batchs"
  shows "miopenBNFwdInferSpatialRunHost n_batchs channels height width x scale bias epsilon est em ev out
           (channels * height * width * bidx + (height * width * cidx + width * row + column))
         = dadd (dmul (Fin (scale cidx))
              (dmul (dsub (Fin (x (channels * height * width * bidx + (height * width * cidx + width * row + column))))
                      (if est then em cidx
                       else ddiv (sp_sum n_batchs height width (channels * height * width) (height * width) x cidx)
                              (Fin (real (height * width * n_batchs)))))
                 (ddiv (Fin 1) (dsqrt (dadd
                    (if est then ev cidx
                     else ddiv (sp_sqsum n_batchs height width (channels * height * width) (height * width) x cidx
                        (ddiv (sp_sum n_batchs height width (channels * height * width) (height * width) x cidx)
                              (Fin (real (height * width * n_batchs)))))
                       (Fin (real (height * width * n_batchs))))
                    (Fin epsilon))))))
              (Fin (bias cidx))"
  unfolding miopenBNFwdInferSpatialRunHost_def
proof (rule loop1_frame[where obs = "\<lambda>out. out (channels * height * width * bidx + (height * width * cidx + width * row + column))"
         and W = "\<lambda>_. dadd (dmul (Fin (scale cidx))
              (dmul (dsub (Fin (x (channels * height * width * bidx + (height * width * cidx + width * row + column))))
                      (if est then em cidx
                       else ddiv (sp_sum n_batchs height width (channels * height * width) (height * width) x cidx)
                              (Fin (real (height * width * n_batchs)))))
                 (ddiv (Fin 1) (dsqrt (dadd
                    (if est then ev cidx
                     else ddiv (sp_sqsum n_batchs height width (channels * height * width) (height * width) x cidx
                        (ddiv (sp_sum n_batchs height width (channels * height * width) (height * width) x cidx)
                              (Fin (real (height * width * n_batchs)))))
                       (Fin (real (height * width * n_batchs))))
                    (Fin epsilon))))))
              (Fin (bias cidx))"
         and ?i0.0 = cidx])
  show "cidx < channels" by fact
next
  fix i s
  assume "i < channels" "i \<noteq> cidx"
  then show "fwd_infer_sp_channel n_batchs channels height width x scale bias epsilon est em ev i s
               (channels * height * width * bidx + (height * width * cidx + width * row + column))
             = s (channels * height * width * bidx + (height * width * cidx + width * row + column))"
    using assms(1-3) by (intro fwd_infer_sp_channel_other sp_group_other_channel) auto
next
  fix s
  show "fwd_infer_sp_channel n_batchs channels height width x scale bias epsilon est em ev cidx s
               (channels * height * width * bidx + (height * width * cidx + width * row + column))
        = dadd (dmul (Fin (scale cidx))
              (dmul (dsub (Fin (x (channels * height * width * bidx + (height * width * cidx + width * row + column))))
                      (if est then em cidx
                       else ddiv (sp_sum n_batchs height width (channels * height * width) (height * width) x cidx)
                              (Fin (real (height * width * n_batchs)))))
                 (ddiv (Fin 1) (dsqrt (dadd
                    (if est then ev cidx
                     else ddiv (sp_sqsum n_batchs height width (channels * height * width) (height * width) x cidx
                        (ddiv (sp_sum n_batchs height width (channels * height * width) (height * width) x cidx)
                              (Fin (real (height * width * n_batchs)))))
                       (Fin (real (height * width * n_batchs))))
                    (Fin epsilon))))))
              (Fin (bias cidx))"
  proof (cases est)
    case True
    then show ?thesis
      by (simp add: fwd_infer_sp_channel_def Let_def sp_normalize_est_at[OF assms])
  next
    case False
    then have e: "est = False" by simp
    show ?thesis
      unfolding e if_False fwd_infer_sp_channel_computed sp_scale_at[OF assms] sp_center_at[OF assms] ..
  qed
qed

lemma fwd_infer_sp_out:
  assumes "cidx < channels" "row < height" "column < width" "bidx < n_batchs"
  shows "agrees (miopenBNFwdInferSpatialRunHost n_batchs channels height width x scale bias epsilon
                   False em ev out (lin_index channels height width bidx cidx row column))
           (spec_normalize (scale cidx) (bias cidx)
                         (spec_mean x (sp_group n_batchs channels height width cidx))
                         (spec_invstd (spec_variance x (sp_group n_batchs channels height width cidx)) epsilon)
                         (x (lin_index channels height width bidx cidx row column)))"
  unfolding lin_index_def adj_index_def fwd_infer_sp_cell[OF assms] if_False
  by (intro normalize_agrees invstd_agrees sp_mean_agrees sp_variance_spec)

lemma fwd_train_sp_out:
  assumes "cidx < channels" "row < height" "column < width" "bidx < n_batchs"
  shows "agrees (out_ptr (miopenBNFwdTrainSpatialRunHost n_batchs channels height width x scale bias
                    epsilon sv rn f s) (lin_index channels height width bidx cidx row column))
           (spec_normalize (scale cidx) (bias cidx)
                   (spec_mean x (sp_group n_batchs channels height width cidx))
                   (spec_invstd (spec_variance x (sp_group n_batchs channels height width cidx)) epsilon)
                   (x (lin_index channels height width bidx cidx row column)))"
  unfolding fwd_train_sp_infer[where em = "\<lambda>i. NonFin" and ev = "\<lambda>i. NonFin"]
  by (rule fwd_infer_sp_out[OF assms])

section \<open>Statistics that a training call leaves as they are\<close>

lemma loop1_untouched:
  assumes "\<And>i s. i < a \<Longrightarrow> obs (F i s) = obs s"
  shows "obs (fold F [0..<a] s) = obs s"
proof -
  have "obs (fold F [0..<a] s) = fold (\<lambda>k. id) [0..<a] (obs s)"
    by (rule fold_obs) (use assms in simp)
  then show ?thesis by (simp add: fold_id)
qed

lemma fwd_train_pa_stats_off:
  "saveMean (miopenBNFwdTrainPerActivationRunHost n_batchs channels height width x scale bias epsilon
               False rn f s) = saveMean s"
  "saveInvVariance (miopenBNFwdTrainPerActivationRunHost n_batchs channels height width x scale bias epsilon
               False rn f s) = saveInvVariance s"
  "runningMean (miopenBNFwdTrainPerActivationRunHost n_batchs channels height width x scale bias epsilon
               sv False f s) = runningMean s"
  "runningVariance (miopenBNFwdTrainPerActivationRunHost n_batchs channels height width x scale bias epsilon
               sv False f s) = runningVariance s"
  unfolding miopenBNFwdTrainPerActivationRunHost_def
  by (rule loop3_untouched, simp add: fwd_train_pa_group_def Let_def)+

lemma fwd_train_sp_stats_off:
  "saveMean (miopenBNFwdTrainSpatialRunHost n_batchs channels height width x scale bias epsilon
               False rn f s) = saveMean s"
  "saveInvVariance (miopenBNFwdTrainSpatialRunHost n_batchs channels height width x scale bias epsilon
               False rn f s) = saveInvVariance s"
  "runningMean (miopenBNFwdTrainSpatialRunHost n_batchs channels height width x scale bias epsilon
               sv False f s) = runningMean s"
  "runningVariance (miopenBNFwdTrainSpatialRunHost n_batchs channels height width x scale bias epsilon
               sv False f s) = runningVariance s"
  unfolding miopenBNFwdTrainSpatialRunHost_def
  by (rule loop1_untouched, simp add: fwd_train_sp_channel_def Let_def case_prod_unfold)+

section \<open>C7: inference without estimates\<close>

text \<open>
  C7. Forward inference called without estimates (\<open>estmeanvar = false\<close>) produces the same
  output buffer as forward training on the same input with \<open>savemeanvar = false\<close> and
  \<open>runningmeanvar = false\<close>, in both modes, for every input, every extent and every initial
  content of the output buffer. The inference functions assign to the output buffer only
  (their result here); the training call with both flags off leaves the four statistics
  arrays as they were.
\<close>

theorem C7_infer_without_estimates_is_training:
  "miopenBNFwdInferPerActivationRunHost n_batchs channels height width x scale bias epsilon
       False estimatedMean estimatedVariance (out_ptr s)
     = out_ptr (miopenBNFwdTrainPerActivationRunHost n_batchs channels height width x scale bias epsilon
                  False False expAvgFactor s)
   \<and> miopenBNFwdInferSpatialRunHost n_batchs channels height width x scale bias epsilon
       False estimatedMean estimatedVariance (out_ptr s)
     = out_ptr (miopenBNFwdTrainSpatialRunHost n_batchs channels height width x scale bias epsilon
                  False False expAvgFactor s)
   \<and> saveMean (miopenBNFwdTrainPerActivationRunHost n_batchs channels height width x scale bias epsilon
                  False False expAvgFactor s) = saveMean s
   \<and> saveInvVariance (miopenBNFwdTrainPerActivationRunHost n_batchs channels height width x scale bias
                  epsilon False False expAvgFactor s) = saveInvVariance s
   \<and> runningMean (miopenBNFwdTrainPerActivationRunHost n_batchs channels height width x scale bias epsilon
                  False False expAvgFactor s) = runningMean s
   \<and> runningVariance (miopenBNFwdTrainPerActivationRunHost n_batchs channels height width x scale bias
                  epsilon False False expAvgFactor s) = runningVariance s
   \<and> saveMean (miopenBNFwdTrainSpatialRunHost n_batchs channels height width x scale bias epsilon
                  False False expAvgFactor s) = saveMean s
   \<and> saveInvVariance (miopenBNFwdTrainSpatialRunHost n_batchs channels height width x scale bias
                  epsilon False False expAvgFactor s) = saveInvVariance s
   \<and> runningMean (miopenBNFwdTrainSpatialRunHost n_batchs channels height width x scale bias epsilon
                  False False expAvgFactor s) = runningMean s
   \<and> runningVariance (miopenBNFwdTrainSpatialRunHost n_batchs channels height width x scale bias
                  epsilon False False expAvgFactor s) = runningVariance s"
  unfolding fwd_train_pa_stats_off fwd_train_sp_stats_off
  using fwd_train_pa_infer[of n_batchs channels height width x scale bias epsilon False False
          expAvgFactor s estimatedMean estimatedVariance]
        fwd_train_sp_infer[of n_batchs channels height width x scale bias epsilon False False
          expAvgFactor s estimatedMean estimatedVariance]
  by simp

lemma fwd_infer_pa_est:
  assumes "cidx < channels" "row < height" "column < width" "bidx < n_batchs"
    "agrees (em (adj_index height width cidx row column)) m"
    "agrees (ev (adj_index height width cidx row column)) v"
  shows "agrees (miopenBNFwdInferPerActivationRunHost n_batchs channels height width x scale bias epsilon
            True em ev out (lin_index channels height width bidx cidx row column))
           (spec_normalize (scale (adj_index height width cidx row column))
                    (bias (adj_index height width cidx row column)) m (spec_invstd v epsilon)
                    (x (lin_index channels height width bidx cidx row column)))"
  using assms(5,6) unfolding lin_index_def adj_index_def fwd_infer_pa_est_cell[OF assms(1-4)]
  by (intro normalize_agrees invstd_agrees)

lemma fwd_infer_sp_est:
  assumes "cidx < channels" "row < height" "column < width" "bidx < n_batchs"
    "agrees (em cidx) m" "agrees (ev cidx) v"
  shows "agrees (miopenBNFwdInferSpatialRunHost n_batchs channels height width x scale bias epsilon
            True em ev out (lin_index channels height width bidx cidx row column))
           (spec_normalize (scale cidx) (bias cidx) m (spec_invstd v epsilon)
                    (x (lin_index channels height width bidx cidx row column)))"
  using assms(5,6) unfolding lin_index_def adj_index_def fwd_infer_sp_cell[OF assms(1-4)] if_True
  by (intro normalize_agrees invstd_agrees)

section \<open>The HIP inference kernels\<close>






section \<open>The output of a forward call\<close>




lemmas spec_eval = spec_mean_def spec_variance_def spec_invstd_def spec_normalize_def pa_group_def
  sp_group_def lin_index_def adj_index_def


section \<open>C4: the forward output\<close>




section \<open>C10: the radicand of the inverse standard deviation\<close>

lemma nonfinite_simps [simp]: "nonfinite NaN" "nonfinite NonFin" "\<not> nonfinite (Fin r)" "\<not> nonfinite Undet"
  by (simp_all add: nonfinite_def)









section \<open>The statistics a training call stores\<close>

lemma fwd_train_pa_group_stats:
  "saveMean (fwd_train_pa_group n_batchs channels height width x scale bias epsilon sv rn f cidx row column s)
   = (if sv then (saveMean s)(height * width * cidx + width * row + column :=
          pa_mean n_batchs (channels * height * width) x (height * width * cidx + width * row + column))
      else saveMean s)"
  "saveInvVariance (fwd_train_pa_group n_batchs channels height width x scale bias epsilon sv rn f cidx row column s)
   = (if sv then (saveInvVariance s)(height * width * cidx + width * row + column :=
          ddiv (Fin 1) (dsqrt (dadd
            (pa_variance n_batchs (channels * height * width) x (height * width * cidx + width * row + column)
               (pa_mean n_batchs (channels * height * width) x (height * width * cidx + width * row + column)))
            (Fin epsilon))))
      else saveInvVariance s)"
  "runningMean (fwd_train_pa_group n_batchs channels height width x scale bias epsilon sv rn f cidx row column s)
   = (if rn then (runningMean s)(height * width * cidx + width * row + column :=
          dadd (dmul (pa_mean n_batchs (channels * height * width) x (height * width * cidx + width * row + column))
                     (Fin f))
               (dmul (runningMean s (height * width * cidx + width * row + column)) (dsub (Fin 1) (Fin f))))
      else runningMean s)"
  "runningVariance (fwd_train_pa_group n_batchs channels height width x scale bias epsilon sv rn f cidx row column s)
   = (if rn then (runningVariance s)(height * width * cidx + width * row + column :=
          dadd (dmul (Fin f) (runningVariance s (height * width * cidx + width * row + column)))
               (dmul (dsub (Fin 1) (Fin f))
                  (if n_batchs = 1
                   then pa_variance n_batchs (channels * height * width) x (height * width * cidx + width * row + column)
                          (pa_mean n_batchs (channels * height * width) x (height * width * cidx + width * row + column))
                   else dmul (ddiv (Fin (real n_batchs)) (Fin (real_of_int (int n_batchs - 1))))
                          (pa_variance n_batchs (channels * height * width) x (height * width * cidx + width * row + column)
                             (pa_mean n_batchs (channels * height * width) x (height * width * cidx + width * row + column))))))
      else runningVariance s)"
  by (simp_all add: fwd_train_pa_group_def Let_def)

text \<open>A per-activation loop nest that rewrites one cell of a statistics array per group.\<close>

lemma pa_cell_frame:
  assumes "cidx < channels" "row < height" "column < width"
    and "\<And>i j k s. obs (F i j k s) = (obs s)(height * width * i + width * j + k := W i j k (obs s (height * width * i + width * j + k)))"
  shows "obs (fold (\<lambda>i. fold (\<lambda>j. fold (\<lambda>k. F i j k) [0..<width]) [0..<height]) [0..<channels] s)
           (height * width * cidx + width * row + column)
         = W cidx row column (obs s (height * width * cidx + width * row + column))"
proof (rule loop3_frame[where obs = "\<lambda>s. obs s (height * width * cidx + width * row + column)"
        and W = "W cidx row column" and ?i0.0 = cidx and ?j0.0 = row and ?k0.0 = column])
  show "cidx < channels" "row < height" "column < width" by fact+
next
  fix i j k s
  assume a: "i < channels" "j < height" "k < width" "(i, j, k) \<noteq> (cidx, row, column)"
  have "height * width * i + width * j + k \<noteq> height * width * cidx + width * row + column"
    using adj_inj[of height width i j k cidx row column] a assms(2,3) by auto
  then show "obs (F i j k s) (height * width * cidx + width * row + column)
             = obs s (height * width * cidx + width * row + column)"
    unfolding assms(4) by simp
next
  fix s
  show "obs (F cidx row column s) (height * width * cidx + width * row + column)
        = W cidx row column (obs s (height * width * cidx + width * row + column))"
    unfolding assms(4) by simp
qed

lemma fwd_train_pa_saveMean_cell:
  assumes "cidx < channels" "row < height" "column < width"
  shows "saveMean (miopenBNFwdTrainPerActivationRunHost n_batchs channels height width x scale bias
                    epsilon True rn f s) (height * width * cidx + width * row + column)
         = pa_mean n_batchs (channels * height * width) x (height * width * cidx + width * row + column)"
proof -
  have "saveMean (miopenBNFwdTrainPerActivationRunHost n_batchs channels height width x scale bias
                    epsilon True rn f s) (height * width * cidx + width * row + column)
        = (\<lambda>i j k _. pa_mean n_batchs (channels * height * width) x (height * width * i + width * j + k))
            cidx row column (saveMean s (height * width * cidx + width * row + column))"
    unfolding miopenBNFwdTrainPerActivationRunHost_def
    by (rule pa_cell_frame[OF assms(1-3), where obs = saveMean]) (simp add: fwd_train_pa_group_stats)
  then show ?thesis .
qed

lemma fwd_train_pa_saveMean:
  assumes "cidx < channels" "row < height" "column < width"
  shows "agrees (saveMean (miopenBNFwdTrainPerActivationRunHost n_batchs channels height width x scale bias
                    epsilon True rn f s) (adj_index height width cidx row column))
           (spec_mean x (pa_group n_batchs channels height width (adj_index height width cidx row column)))"
  unfolding adj_index_def fwd_train_pa_saveMean_cell[OF assms] by (rule pa_mean_agrees)

lemma fwd_train_pa_saveInvVariance_cell:
  assumes "cidx < channels" "row < height" "column < width"
  shows "saveInvVariance (miopenBNFwdTrainPerActivationRunHost n_batchs channels height width x scale bias
                    epsilon True rn f s) (height * width * cidx + width * row + column)
         = ddiv (Fin 1) (dsqrt (dadd
            (pa_variance n_batchs (channels * height * width) x (height * width * cidx + width * row + column)
               (pa_mean n_batchs (channels * height * width) x (height * width * cidx + width * row + column)))
            (Fin epsilon)))"
proof -
  have "saveInvVariance (miopenBNFwdTrainPerActivationRunHost n_batchs channels height width x scale bias
                    epsilon True rn f s) (height * width * cidx + width * row + column)
        = (\<lambda>i j k _. ddiv (Fin 1) (dsqrt (dadd
            (pa_variance n_batchs (channels * height * width) x (height * width * i + width * j + k)
               (pa_mean n_batchs (channels * height * width) x (height * width * i + width * j + k)))
            (Fin epsilon))))
            cidx row column (saveInvVariance s (height * width * cidx + width * row + column))"
    unfolding miopenBNFwdTrainPerActivationRunHost_def
    by (rule pa_cell_frame[OF assms(1-3), where obs = saveInvVariance]) (simp add: fwd_train_pa_group_stats)
  then show ?thesis .
qed

lemma fwd_train_pa_saveInvVariance:
  assumes "cidx < channels" "row < height" "column < width"
  shows "agrees (saveInvVariance (miopenBNFwdTrainPerActivationRunHost n_batchs channels height width x scale bias
                    epsilon True rn f s) (adj_index height width cidx row column))
           (spec_invstd (spec_variance x (pa_group n_batchs channels height width
                                      (adj_index height width cidx row column))) epsilon)"
  unfolding adj_index_def fwd_train_pa_saveInvVariance_cell[OF assms]
  by (intro invstd_agrees pa_variance_spec)






lemma fwd_train_sp_channel_stats:
  "saveMean (fwd_train_sp_channel n_batchs channels height width x scale bias epsilon sv rn f cidx s)
   = (if sv then (saveMean s)(cidx :=
          ddiv (sp_sum n_batchs height width (channels * height * width) (height * width) x cidx)
               (Fin (real (height * width * n_batchs))))
      else saveMean s)"
  "saveInvVariance (fwd_train_sp_channel n_batchs channels height width x scale bias epsilon sv rn f cidx s)
   = (if sv then (saveInvVariance s)(cidx :=
          ddiv (Fin 1) (dsqrt (dadd
            (ddiv (sp_sqsum n_batchs height width (channels * height * width) (height * width) x cidx
                     (ddiv (sp_sum n_batchs height width (channels * height * width) (height * width) x cidx)
                           (Fin (real (height * width * n_batchs)))))
                  (Fin (real (height * width * n_batchs))))
            (Fin epsilon))))
      else saveInvVariance s)"
  "runningMean (fwd_train_sp_channel n_batchs channels height width x scale bias epsilon sv rn f cidx s)
   = (if rn then (runningMean s)(cidx :=
          dadd (dmul (ddiv (sp_sum n_batchs height width (channels * height * width) (height * width) x cidx)
                           (Fin (real (height * width * n_batchs)))) (Fin f))
               (dmul (runningMean s cidx) (dsub (Fin 1) (Fin f))))
      else runningMean s)"
  "runningVariance (fwd_train_sp_channel n_batchs channels height width x scale bias epsilon sv rn f cidx s)
   = (if rn then (runningVariance s)(cidx :=
          dadd (dmul (Fin f) (runningVariance s cidx))
               (dmul (dsub (Fin 1) (Fin f))
                  (if n_batchs * (height * width) = 1
                   then ddiv (sp_sqsum n_batchs height width (channels * height * width) (height * width) x cidx
                               (ddiv (sp_sum n_batchs height width (channels * height * width) (height * width) x cidx)
                                     (Fin (real (height * width * n_batchs)))))
                             (Fin (real (height * width * n_batchs)))
                   else dmul (ddiv (Fin (real (height * width * n_batchs)))
                                   (dsub (Fin (real (height * width * n_batchs))) (Fin 1)))
                             (ddiv (sp_sqsum n_batchs height width (channels * height * width) (height * width) x cidx
                               (ddiv (sp_sum n_batchs height width (channels * height * width) (height * width) x cidx)
                                     (Fin (real (height * width * n_batchs)))))
                             (Fin (real (height * width * n_batchs)))))))
      else runningVariance s)"
  unfolding fwd_train_sp_channel_def Let_def case_prod_unfold sp_sum_guarded_eq sp_center_guarded_eq
    sp_center_snd
  by simp_all

text \<open>A channel loop that rewrites one cell of a statistics array per channel.\<close>

lemma sp_cell_frame:
  assumes "cidx < channels"
    and "\<And>i s. obs (F i s) = (obs s)(i := W i (obs s i))"
  shows "obs (fold F [0..<channels] s) cidx = W cidx (obs s cidx)"
  by (rule loop1_frame[where obs = "\<lambda>s. obs s cidx" and W = "W cidx" and ?i0.0 = cidx])
     (simp_all add: assms)

lemma fwd_train_sp_saveMean_cell:
  assumes "cidx < channels"
  shows "saveMean (miopenBNFwdTrainSpatialRunHost n_batchs channels height width x scale bias
                    epsilon True rn f s) cidx
         = ddiv (sp_sum n_batchs height width (channels * height * width) (height * width) x cidx)
               (Fin (real (height * width * n_batchs)))"
  unfolding miopenBNFwdTrainSpatialRunHost_def
  by (rule sp_cell_frame[OF assms(1), where obs = saveMean
        and W = "\<lambda>i _. ddiv (sp_sum n_batchs height width (channels * height * width) (height * width) x i)
               (Fin (real (height * width * n_batchs)))"])
     (simp only: fwd_train_sp_channel_stats if_True)

lemma fwd_train_sp_saveMean:
  assumes "cidx < channels"
  shows "agrees (saveMean (miopenBNFwdTrainSpatialRunHost n_batchs channels height width x scale bias
                    epsilon True rn f s) cidx)
           (spec_mean x (sp_group n_batchs channels height width cidx))"
  unfolding fwd_train_sp_saveMean_cell[OF assms] by (rule sp_mean_agrees)

lemma fwd_train_sp_saveInvVariance_cell:
  assumes "cidx < channels"
  shows "saveInvVariance (miopenBNFwdTrainSpatialRunHost n_batchs channels height width x scale bias
                    epsilon True rn f s) cidx
         = ddiv (Fin 1) (dsqrt (dadd
            (ddiv (sp_sqsum n_batchs height width (channels * height * width) (height * width) x cidx
                     (ddiv (sp_sum n_batchs height width (channels * height * width) (height * width) x cidx)
                           (Fin (real (height * width * n_batchs)))))
                  (Fin (real (height * width * n_batchs))))
            (Fin epsilon)))"
  unfolding miopenBNFwdTrainSpatialRunHost_def
  by (rule sp_cell_frame[OF assms(1), where obs = saveInvVariance
        and W = "\<lambda>i _. ddiv (Fin 1) (dsqrt (dadd
            (ddiv (sp_sqsum n_batchs height width (channels * height * width) (height * width) x i
                     (ddiv (sp_sum n_batchs height width (channels * height * width) (height * width) x i)
                           (Fin (real (height * width * n_batchs)))))
                  (Fin (real (height * width * n_batchs))))
            (Fin epsilon)))"])
     (simp only: fwd_train_sp_channel_stats if_True)

lemma fwd_train_sp_saveInvVariance:
  assumes "cidx < channels"
  shows "agrees (saveInvVariance (miopenBNFwdTrainSpatialRunHost n_batchs channels height width x scale bias
                    epsilon True rn f s) cidx)
           (spec_invstd (spec_variance x (sp_group n_batchs channels height width cidx)) epsilon)"
  unfolding fwd_train_sp_saveInvVariance_cell[OF assms]
  by (intro invstd_agrees sp_variance_spec)





section \<open>C3: the running statistics\<close>



section \<open>The accumulators of the backward passes\<close>

lemma cell_fold:
  "fold (\<lambda>k fn. fn(a := H k (fn a))) ks fn = fn(a := fold H ks (fn a))"
  by (induction ks arbitrary: fn) simp_all

lemma bwd_pa_accumulate_dbias:
  "dbias_ptr (fst (bwd_pa_accumulate n_batchs width in_nstride in_cstride x dy scale adjIndex row column
                     mean iv s))
   = (dbias_ptr s)(adjIndex :=
        fold (\<lambda>bidx acc. dadd acc (Fin (dy (in_nstride * bidx + adjIndex)))) [0..<n_batchs]
          (dbias_ptr s adjIndex))"
proof -
  have "dbias_ptr (fst (bwd_pa_accumulate n_batchs width in_nstride in_cstride x dy scale adjIndex row column
                     mean iv s))
        = fold (\<lambda>bidx fn. fn(adjIndex := (\<lambda>bidx acc. dadd acc (Fin (dy (in_nstride * bidx + adjIndex)))) bidx (fn adjIndex)))
            [0..<n_batchs] (dbias_ptr s)"
    unfolding bwd_pa_accumulate_def
    by (rule fold_obs_init[where obs = "\<lambda>st. dbias_ptr (fst st)"]) (auto simp: Let_def)
  also have "\<dots> = (dbias_ptr s)(adjIndex :=
        fold (\<lambda>bidx acc. dadd acc (Fin (dy (in_nstride * bidx + adjIndex)))) [0..<n_batchs]
          (dbias_ptr s adjIndex))"
    by (rule cell_fold)
  finally show ?thesis .
qed

lemma bwd_pa_accumulate_dscale:
  "dscale_ptr (fst (bwd_pa_accumulate n_batchs width in_nstride in_cstride x dy scale adjIndex row column
                     mean iv s))
   = (dscale_ptr s)(adjIndex :=
        fold (\<lambda>bidx acc. dadd acc (dmul (dmul (dsub (Fin (x (in_nstride * bidx + adjIndex))) mean) iv)
                                         (Fin (dy (in_nstride * bidx + adjIndex)))))
          [0..<n_batchs] (dscale_ptr s adjIndex))"
proof -
  have "dscale_ptr (fst (bwd_pa_accumulate n_batchs width in_nstride in_cstride x dy scale adjIndex row column
                     mean iv s))
        = fold (\<lambda>bidx fn. fn(adjIndex := (\<lambda>bidx acc. dadd acc
                   (dmul (dmul (dsub (Fin (x (in_nstride * bidx + adjIndex))) mean) iv)
                         (Fin (dy (in_nstride * bidx + adjIndex))))) bidx (fn adjIndex)))
            [0..<n_batchs] (dscale_ptr s)"
    unfolding bwd_pa_accumulate_def
    by (rule fold_obs_init[where obs = "\<lambda>st. dscale_ptr (fst st)"]) (auto simp: Let_def)
  also have "\<dots> = (dscale_ptr s)(adjIndex :=
        fold (\<lambda>bidx acc. dadd acc (dmul (dmul (dsub (Fin (x (in_nstride * bidx + adjIndex))) mean) iv)
                                         (Fin (dy (in_nstride * bidx + adjIndex)))))
          [0..<n_batchs] (dscale_ptr s adjIndex))"
    by (rule cell_fold)
  finally show ?thesis .
qed

lemma bwd_pa_dx_keeps:
  "dbias_ptr (bwd_pa_dx n_batchs width in_nstride in_cstride adjIndex row column iv dxhat dxhathat s)
   = dbias_ptr s"
  "dscale_ptr (bwd_pa_dx n_batchs width in_nstride in_cstride adjIndex row column iv dxhat dxhathat s)
   = dscale_ptr s"
  unfolding bwd_pa_dx_def
  by (rule loop1_untouched, simp add: Let_def)+

lemma bwd_pa_group_dbias:
  "dbias_ptr (bwd_pa_group n_batchs channels height width x dy scale epsilon saved sm siv cidx row column s)
   = (dbias_ptr s)(height * width * cidx + width * row + column :=
        fold (\<lambda>bidx acc. dadd acc (Fin (dy (channels * height * width * bidx
                                                + (height * width * cidx + width * row + column)))))
          [0..<n_batchs] (dbias_ptr s (height * width * cidx + width * row + column)))"
  by (simp add: bwd_pa_group_def Let_def case_prod_unfold bwd_pa_dx_keeps bwd_pa_accumulate_dbias)

lemma bwd_pa_group_dscale:
  "dscale_ptr (bwd_pa_group n_batchs channels height width x dy scale epsilon saved sm siv cidx row column s)
   = (dscale_ptr s)(height * width * cidx + width * row + column :=
        ddiv (fold (\<lambda>bidx acc. dadd acc
                 (dmul (dmul (dsub (Fin (x (channels * height * width * bidx
                                              + (height * width * cidx + width * row + column))))
                         (if saved then sm (height * width * cidx + width * row + column)
                          else pa_mean n_batchs (channels * height * width) x
                                 (height * width * cidx + width * row + column)))
                       (if saved then siv (height * width * cidx + width * row + column)
                        else ddiv (Fin 1) (dsqrt (dadd
                               (pa_variance n_batchs (channels * height * width) x
                                  (height * width * cidx + width * row + column)
                                  (pa_mean n_batchs (channels * height * width) x
                                     (height * width * cidx + width * row + column)))
                               (Fin epsilon)))))
                       (Fin (dy (channels * height * width * bidx
                                  + (height * width * cidx + width * row + column))))))
                [0..<n_batchs] (dscale_ptr s (height * width * cidx + width * row + column)))
             (Fin (real n_batchs)))"
  by (simp add: bwd_pa_group_def Let_def case_prod_unfold bwd_pa_dx_keeps bwd_pa_accumulate_dscale)

lemma pa_group_sum:
  "sum_list (map (\<lambda>bidx. g (channels * height * width * bidx + adjIndex)) [0..<n_batchs])
   = (\<Sum>i\<leftarrow>pa_group n_batchs channels height width adjIndex. g i)"
  by (simp add: pa_group_def o_def)

lemma bwd_pa_dbias:
  assumes "cidx < channels" "row < height" "column < width"
    "agrees (dbias_ptr s (adj_index height width cidx row column)) b0"
  shows "agrees (dbias_ptr (miopenBNBwdPerActivationRunHost n_batchs channels height width x dy scale epsilon
                      saved sm siv s) (adj_index height width cidx row column))
           (b0 + (\<Sum>i\<leftarrow>pa_group n_batchs channels height width
                                (adj_index height width cidx row column). dy i))"
proof -
  have "dbias_ptr (miopenBNBwdPerActivationRunHost n_batchs channels height width x dy scale epsilon
                      saved sm siv s) (height * width * cidx + width * row + column)
        = (\<lambda>i j k old. fold (\<lambda>bidx acc. dadd acc (Fin (dy (channels * height * width * bidx
                                                + (height * width * i + width * j + k)))))
              [0..<n_batchs] old) cidx row column
            (dbias_ptr (s\<lparr>xhat := \<lambda>i. Fin 0\<rparr>) (height * width * cidx + width * row + column))"
    unfolding miopenBNBwdPerActivationRunHost_def
    by (rule pa_cell_frame[OF assms(1-3), where obs = dbias_ptr]) (simp add: bwd_pa_group_dbias)
  moreover have "agrees (fold (\<lambda>bidx acc. dadd acc (Fin (dy (channels * height * width * bidx
                                                + (height * width * cidx + width * row + column)))))
              [0..<n_batchs] (dbias_ptr s (height * width * cidx + width * row + column)))
          (b0 + sum_list (map (\<lambda>bidx. dy (channels * height * width * bidx
                                 + (height * width * cidx + width * row + column))) [0..<n_batchs]))"
    using assms(4) unfolding adj_index_def by (intro fold_agrees) (simp_all add: agrees_add)
  ultimately show ?thesis unfolding pa_group_sum adj_index_def by simp
qed

lemma bwd_pa_dscale_raw:
  assumes "cidx < channels" "row < height" "column < width"
  shows "dscale_ptr (miopenBNBwdPerActivationRunHost n_batchs channels height width x dy scale epsilon
                      saved sm siv s) (height * width * cidx + width * row + column)
         = ddiv (fold (\<lambda>bidx acc. dadd acc
                 (dmul (dmul (dsub (Fin (x (channels * height * width * bidx
                                              + (height * width * cidx + width * row + column))))
                         (if saved then sm (height * width * cidx + width * row + column)
                          else pa_mean n_batchs (channels * height * width) x
                                 (height * width * cidx + width * row + column)))
                       (if saved then siv (height * width * cidx + width * row + column)
                        else ddiv (Fin 1) (dsqrt (dadd
                               (pa_variance n_batchs (channels * height * width) x
                                  (height * width * cidx + width * row + column)
                                  (pa_mean n_batchs (channels * height * width) x
                                     (height * width * cidx + width * row + column)))
                               (Fin epsilon)))))
                       (Fin (dy (channels * height * width * bidx
                                  + (height * width * cidx + width * row + column))))))
                [0..<n_batchs] (dscale_ptr s (height * width * cidx + width * row + column)))
             (Fin (real n_batchs))"
proof -
  have "dscale_ptr (miopenBNBwdPerActivationRunHost n_batchs channels height width x dy scale epsilon
                      saved sm siv s) (height * width * cidx + width * row + column)
        = (\<lambda>i j k old. ddiv (fold (\<lambda>bidx acc. dadd acc
                 (dmul (dmul (dsub (Fin (x (channels * height * width * bidx
                                              + (height * width * i + width * j + k))))
                         (if saved then sm (height * width * i + width * j + k)
                          else pa_mean n_batchs (channels * height * width) x
                                 (height * width * i + width * j + k)))
                       (if saved then siv (height * width * i + width * j + k)
                        else ddiv (Fin 1) (dsqrt (dadd
                               (pa_variance n_batchs (channels * height * width) x
                                  (height * width * i + width * j + k)
                                  (pa_mean n_batchs (channels * height * width) x
                                     (height * width * i + width * j + k)))
                               (Fin epsilon)))))
                       (Fin (dy (channels * height * width * bidx
                                  + (height * width * i + width * j + k))))))
                [0..<n_batchs] old)
             (Fin (real n_batchs))) cidx row column
            (dscale_ptr (s\<lparr>xhat := \<lambda>i. Fin 0\<rparr>) (height * width * cidx + width * row + column))"
    unfolding miopenBNBwdPerActivationRunHost_def
    by (rule pa_cell_frame[OF assms(1-3), where obs = dscale_ptr]) (simp add: bwd_pa_group_dscale)
  then show ?thesis by simp
qed

lemma xhat_sum_agrees:
  assumes "agrees m r" "agrees iv j" "agrees a d0"
  shows "agrees (fold (\<lambda>k acc. dadd acc (dmul (dmul (dsub (Fin (x (g k))) m) iv) (Fin (dy (g k))))) ks a)
           (d0 + (\<Sum>i\<leftarrow>map g ks. spec_xhat r j (x i) * dy i))"
proof -
  have "agrees (fold (\<lambda>k acc. dadd acc (dmul (dmul (dsub (Fin (x (g k))) m) iv) (Fin (dy (g k))))) ks a)
          (d0 + sum_list (map (\<lambda>k. spec_xhat r j (x (g k)) * dy (g k)) ks))"
    by (rule fold_agrees) (simp_all add: spec_xhat_def agrees_add agrees_mul agrees_sub assms)
  then show ?thesis by (simp add: o_def)
qed

lemma bwd_pa_dscale_saved:
  assumes "cidx < channels" "row < height" "column < width"
    "agrees (sm (adj_index height width cidx row column)) m"
    "agrees (siv (adj_index height width cidx row column)) iv"
    "agrees (dscale_ptr s (adj_index height width cidx row column)) d0"
  shows "agrees (dscale_ptr (miopenBNBwdPerActivationRunHost n_batchs channels height width x dy scale epsilon
                      True sm siv s) (adj_index height width cidx row column))
           ((d0 + (\<Sum>i\<leftarrow>pa_group n_batchs channels height width
                                (adj_index height width cidx row column). spec_xhat m iv (x i) * dy i))
                 / real n_batchs)"
  using assms(4-6) unfolding adj_index_def bwd_pa_dscale_raw[OF assms(1-3)] if_True pa_group_def
  by (intro agrees_div xhat_sum_agrees) simp_all

lemma bwd_pa_dscale_recomputed:
  assumes "cidx < channels" "row < height" "column < width"
    "agrees (dscale_ptr s (adj_index height width cidx row column)) d0"
  shows "agrees (dscale_ptr (miopenBNBwdPerActivationRunHost n_batchs channels height width x dy scale epsilon
                      False sm siv s) (adj_index height width cidx row column))
           ((d0 + (\<Sum>i\<leftarrow>pa_group n_batchs channels height width
                                (adj_index height width cidx row column).
                          spec_xhat (spec_mean x (pa_group n_batchs channels height width
                                                    (adj_index height width cidx row column)))
                            (spec_invstd (spec_variance x (pa_group n_batchs channels height width
                                                    (adj_index height width cidx row column))) epsilon)
                            (x i) * dy i))
                 / real n_batchs)"
proof -
  have "agrees (ddiv (fold (\<lambda>bidx acc. dadd acc
                 (dmul (dmul (dsub (Fin (x (channels * height * width * bidx
                                              + (height * width * cidx + width * row + column))))
                         (pa_mean n_batchs (channels * height * width) x
                                 (height * width * cidx + width * row + column)))
                       (ddiv (Fin 1) (dsqrt (dadd
                               (pa_variance n_batchs (channels * height * width) x
                                  (height * width * cidx + width * row + column)
                                  (pa_mean n_batchs (channels * height * width) x
                                     (height * width * cidx + width * row + column)))
                               (Fin epsilon)))))
                       (Fin (dy (channels * height * width * bidx
                                  + (height * width * cidx + width * row + column))))))
                [0..<n_batchs] (dscale_ptr s (height * width * cidx + width * row + column)))
             (Fin (real n_batchs)))
          ((d0 + (\<Sum>i\<leftarrow>map (\<lambda>bidx. channels * height * width * bidx
                                  + (height * width * cidx + width * row + column)) [0..<n_batchs].
                          spec_xhat (spec_mean x (pa_group n_batchs channels height width
                                                    (height * width * cidx + width * row + column)))
                            (spec_invstd (spec_variance x (pa_group n_batchs channels height width
                                                    (height * width * cidx + width * row + column))) epsilon)
                            (x i) * dy i))
                 / real n_batchs)"
    using assms(4) unfolding adj_index_def
    by (intro agrees_div xhat_sum_agrees[where g = "\<lambda>bidx. channels * height * width * bidx
                                  + (height * width * cidx + width * row + column)"]
          invstd_agrees pa_mean_agrees pa_variance_spec) simp_all
  then show ?thesis
    unfolding adj_index_def bwd_pa_dscale_raw[OF assms(1-3)] if_False pa_group_def .
qed

lemma bwd_sp_accumulate_saved_dbias:
  "dbias_ptr (bwd_sp_accumulate_saved n_batchs height width (channels * height * width) (height * width)
                x dy cidx mean iv s)
   = (dbias_ptr s)(cidx :=
        fold (\<lambda>(row, column, bidx) acc. dadd acc (Fin (dy (channels * height * width * bidx
                  + (height * width * cidx + width * row + column)))))
          (List.product [0..<height] (List.product [0..<width] [0..<n_batchs])) (dbias_ptr s cidx))"
proof -
  have "dbias_ptr (bwd_sp_accumulate_saved n_batchs height width (channels * height * width) (height * width)
                x dy cidx mean iv s)
        = fold (\<lambda>k fn. fn(cidx := (\<lambda>(row, column, bidx) acc. dadd acc (Fin (dy (channels * height * width * bidx
                  + (height * width * cidx + width * row + column))))) k (fn cidx)))
            (List.product [0..<height] (List.product [0..<width] [0..<n_batchs])) (dbias_ptr s)"
    unfolding bwd_sp_accumulate_saved_def Let_def fold_nest3
    by (rule fold_obs_init[where obs = dbias_ptr]) auto
  also have "\<dots> = (dbias_ptr s)(cidx :=
        fold (\<lambda>(row, column, bidx) acc. dadd acc (Fin (dy (channels * height * width * bidx
                  + (height * width * cidx + width * row + column)))))
          (List.product [0..<height] (List.product [0..<width] [0..<n_batchs])) (dbias_ptr s cidx))"
    by (rule cell_fold)
  finally show ?thesis .
qed

lemma bwd_sp_accumulate_saved_dscale:
  "dscale_ptr (bwd_sp_accumulate_saved n_batchs height width (channels * height * width) (height * width)
                x dy cidx mean iv s)
   = (dscale_ptr s)(cidx :=
        fold (\<lambda>(row, column, bidx) acc. dadd acc
                (dmul (dmul (dsub (Fin (x (channels * height * width * bidx
                  + (height * width * cidx + width * row + column)))) mean) iv)
                  (Fin (dy (channels * height * width * bidx
                  + (height * width * cidx + width * row + column))))))
          (List.product [0..<height] (List.product [0..<width] [0..<n_batchs])) (dscale_ptr s cidx))"
proof -
  have "dscale_ptr (bwd_sp_accumulate_saved n_batchs height width (channels * height * width) (height * width)
                x dy cidx mean iv s)
        = fold (\<lambda>k fn. fn(cidx := (\<lambda>(row, column, bidx) acc. dadd acc
                (dmul (dmul (dsub (Fin (x (channels * height * width * bidx
                  + (height * width * cidx + width * row + column)))) mean) iv)
                  (Fin (dy (channels * height * width * bidx
                  + (height * width * cidx + width * row + column)))))) k (fn cidx)))
            (List.product [0..<height] (List.product [0..<width] [0..<n_batchs])) (dscale_ptr s)"
    unfolding bwd_sp_accumulate_saved_def Let_def fold_nest3
    by (rule fold_obs_init[where obs = dscale_ptr]) auto
  also have "\<dots> = (dscale_ptr s)(cidx :=
        fold (\<lambda>(row, column, bidx) acc. dadd acc
                (dmul (dmul (dsub (Fin (x (channels * height * width * bidx
                  + (height * width * cidx + width * row + column)))) mean) iv)
                  (Fin (dy (channels * height * width * bidx
                  + (height * width * cidx + width * row + column))))))
          (List.product [0..<height] (List.product [0..<width] [0..<n_batchs])) (dscale_ptr s cidx))"
    by (rule cell_fold)
  finally show ?thesis .
qed

lemma bwd_sp_accumulate_dbias:
  "dbias_ptr (bwd_sp_accumulate n_batchs height width (channels * height * width) (height * width)
                x dy cidx mean iv s)
   = (dbias_ptr s)(cidx :=
        fold (\<lambda>(row, column, bidx) acc. dadd acc (Fin (dy (channels * height * width * bidx
                  + (height * width * cidx + width * row + column)))))
          (List.product [0..<height] (List.product [0..<width] [0..<n_batchs])) (dbias_ptr s cidx))"
proof -
  have "dbias_ptr (bwd_sp_accumulate n_batchs height width (channels * height * width) (height * width)
                x dy cidx mean iv s)
        = fold (\<lambda>k fn. fn(cidx := (\<lambda>(row, column, bidx) acc. dadd acc (Fin (dy (channels * height * width * bidx
                  + (height * width * cidx + width * row + column))))) k (fn cidx)))
            (List.product [0..<height] (List.product [0..<width] [0..<n_batchs])) (dbias_ptr s)"
    unfolding bwd_sp_accumulate_def Let_def fold_nest3
    by (rule fold_obs_init[where obs = dbias_ptr]) auto
  also have "\<dots> = (dbias_ptr s)(cidx :=
        fold (\<lambda>(row, column, bidx) acc. dadd acc (Fin (dy (channels * height * width * bidx
                  + (height * width * cidx + width * row + column)))))
          (List.product [0..<height] (List.product [0..<width] [0..<n_batchs])) (dbias_ptr s cidx))"
    by (rule cell_fold)
  finally show ?thesis .
qed

lemma bwd_sp_accumulate_dscale:
  "dscale_ptr (bwd_sp_accumulate n_batchs height width (channels * height * width) (height * width)
                x dy cidx mean iv s)
   = (dscale_ptr s)(cidx :=
        fold (\<lambda>(row, column, bidx) acc. dadd acc
                (dmul (dmul (dsub (Fin (x (channels * height * width * bidx
                  + (height * width * cidx + width * row + column)))) mean) iv)
                  (Fin (dy (channels * height * width * bidx
                  + (height * width * cidx + width * row + column))))))
          (List.product [0..<height] (List.product [0..<width] [0..<n_batchs])) (dscale_ptr s cidx))"
proof -
  have "dscale_ptr (bwd_sp_accumulate n_batchs height width (channels * height * width) (height * width)
                x dy cidx mean iv s)
        = fold (\<lambda>k fn. fn(cidx := (\<lambda>(row, column, bidx) acc. dadd acc
                (dmul (dmul (dsub (Fin (x (channels * height * width * bidx
                  + (height * width * cidx + width * row + column)))) mean) iv)
                  (Fin (dy (channels * height * width * bidx
                  + (height * width * cidx + width * row + column)))))) k (fn cidx)))
            (List.product [0..<height] (List.product [0..<width] [0..<n_batchs])) (dscale_ptr s)"
    unfolding bwd_sp_accumulate_def Let_def fold_nest3
    by (rule fold_obs_init[where obs = dscale_ptr]) auto
  also have "\<dots> = (dscale_ptr s)(cidx :=
        fold (\<lambda>(row, column, bidx) acc. dadd acc
                (dmul (dmul (dsub (Fin (x (channels * height * width * bidx
                  + (height * width * cidx + width * row + column)))) mean) iv)
                  (Fin (dy (channels * height * width * bidx
                  + (height * width * cidx + width * row + column))))))
          (List.product [0..<height] (List.product [0..<width] [0..<n_batchs])) (dscale_ptr s cidx))"
    by (rule cell_fold)
  finally show ?thesis .
qed

lemma bwd_sp_dx_keeps:
  "dbias_ptr (bwd_sp_dx_saved n_batchs height width in_nstride in_cstride x dy scale cidx mean iv s)
   = dbias_ptr s"
  "dscale_ptr (bwd_sp_dx_saved n_batchs height width in_nstride in_cstride x dy scale cidx mean iv s)
   = dscale_ptr s"
  "dbias_ptr (bwd_sp_dx n_batchs height width in_nstride in_cstride dy scale cidx iv s) = dbias_ptr s"
  "dscale_ptr (bwd_sp_dx n_batchs height width in_nstride in_cstride dy scale cidx iv s) = dscale_ptr s"
  unfolding bwd_sp_dx_saved_def bwd_sp_dx_def Let_def
  by (rule loop3_untouched, simp)+

lemma sp_dy_sum_agrees:
  assumes "agrees a b0"
  shows "agrees (fold (\<lambda>(row, column, bidx) acc. dadd acc (Fin (dy (channels * height * width * bidx
                  + (height * width * cidx + width * row + column)))))
          (List.product [0..<height] (List.product [0..<width] [0..<n_batchs])) a)
     (b0 + (\<Sum>i\<leftarrow>sp_group n_batchs channels height width cidx. dy i))"
proof -
  have "agrees (fold (\<lambda>(row, column, bidx) acc. dadd acc (Fin (dy (channels * height * width * bidx
                  + (height * width * cidx + width * row + column)))))
          (List.product [0..<height] (List.product [0..<width] [0..<n_batchs])) a)
        (b0 + sum_list (map (\<lambda>(row, column, bidx). dy (channels * height * width * bidx
                  + (height * width * cidx + width * row + column)))
             (List.product [0..<height] (List.product [0..<width] [0..<n_batchs]))))"
    by (rule fold_agrees) (auto simp: agrees_add assms)
  then show ?thesis unfolding sp_group_map .
qed

lemma sp_xhat_sum_agrees:
  assumes "agrees m r" "agrees iv j" "agrees a d0"
  shows "agrees (fold (\<lambda>(row, column, bidx) acc. dadd acc
                (dmul (dmul (dsub (Fin (x (channels * height * width * bidx
                  + (height * width * cidx + width * row + column)))) m) iv)
                  (Fin (dy (channels * height * width * bidx
                  + (height * width * cidx + width * row + column))))))
          (List.product [0..<height] (List.product [0..<width] [0..<n_batchs])) a)
     (d0 + (\<Sum>i\<leftarrow>sp_group n_batchs channels height width cidx. spec_xhat r j (x i) * dy i))"
proof -
  have "agrees (fold (\<lambda>(row, column, bidx) acc. dadd acc
                (dmul (dmul (dsub (Fin (x (channels * height * width * bidx
                  + (height * width * cidx + width * row + column)))) m) iv)
                  (Fin (dy (channels * height * width * bidx
                  + (height * width * cidx + width * row + column))))))
          (List.product [0..<height] (List.product [0..<width] [0..<n_batchs])) a)
        (d0 + sum_list (map (\<lambda>(row, column, bidx).
                   spec_xhat r j (x (channels * height * width * bidx
                  + (height * width * cidx + width * row + column))) * dy (channels * height * width * bidx
                  + (height * width * cidx + width * row + column)))
             (List.product [0..<height] (List.product [0..<width] [0..<n_batchs]))))"
    by (rule fold_agrees) (auto simp: spec_xhat_def agrees_add agrees_mul agrees_sub assms)
  then show ?thesis unfolding sp_group_map .
qed

lemma bwd_sp_channel_dbias:
  "dbias_ptr (bwd_sp_channel n_batchs channels height width x dy scale epsilon saved sm siv cidx s)
   = (dbias_ptr s)(cidx :=
        fold (\<lambda>(row, column, bidx) acc. dadd acc (Fin (dy (channels * height * width * bidx
                  + (height * width * cidx + width * row + column)))))
          (List.product [0..<height] (List.product [0..<width] [0..<n_batchs]))
          (if saved then dbias_ptr s cidx else Fin 0))"
  by (simp add: bwd_sp_channel_def Let_def bwd_sp_dx_keeps bwd_sp_accumulate_saved_dbias
        bwd_sp_accumulate_dbias)

lemma bwd_sp_channel_dscale_saved:
  "dscale_ptr (bwd_sp_channel n_batchs channels height width x dy scale epsilon True sm siv cidx s)
   = (dscale_ptr s)(cidx :=
        ddiv (fold (\<lambda>(row, column, bidx) acc. dadd acc
                (dmul (dmul (dsub (Fin (x (channels * height * width * bidx
                  + (height * width * cidx + width * row + column)))) (sm cidx)) (siv cidx))
                  (Fin (dy (channels * height * width * bidx
                  + (height * width * cidx + width * row + column))))))
          (List.product [0..<height] (List.product [0..<width] [0..<n_batchs])) (dscale_ptr s cidx))
          (Fin (real (n_batchs * (height * width)))))"
  by (simp add: bwd_sp_channel_def Let_def bwd_sp_dx_keeps bwd_sp_accumulate_saved_dscale)

lemma bwd_sp_channel_dscale_recomputed:
  "dscale_ptr (bwd_sp_channel n_batchs channels height width x dy scale epsilon False sm siv cidx s)
   = (dscale_ptr s)(cidx :=
        ddiv (fold (\<lambda>(row, column, bidx) acc. dadd acc
                (dmul (dmul (dsub (Fin (x (channels * height * width * bidx
                  + (height * width * cidx + width * row + column))))
                     (ddiv (sp_sum n_batchs height width (channels * height * width) (height * width) x cidx)
                           (Fin (real (height * width * n_batchs)))))
                     (ddiv (Fin 1) (dsqrt (dadd
                        (ddiv (sp_sqsum n_batchs height width (channels * height * width) (height * width) x cidx
                           (ddiv (sp_sum n_batchs height width (channels * height * width) (height * width) x cidx)
                                 (Fin (real (height * width * n_batchs)))))
                         (Fin (real (height * width * n_batchs))))
                        (Fin epsilon)))))
                  (Fin (dy (channels * height * width * bidx
                  + (height * width * cidx + width * row + column))))))
          (List.product [0..<height] (List.product [0..<width] [0..<n_batchs])) (Fin 0))
          (Fin (real (height * width * n_batchs))))"
proof -
  have c: "n_batchs * (height * width) = height * width * n_batchs" by (simp add: mult.commute)
  show ?thesis
    unfolding bwd_sp_channel_def Let_def if_False c
    by (simp add: bwd_sp_dx_keeps bwd_sp_accumulate_dscale)
qed

lemma bwd_sp_dbias:
  assumes "cidx < channels" "agrees (dbias_ptr s cidx) b0"
  shows "agrees (dbias_ptr (miopenBNBwdSpatialRunHost n_batchs channels height width x dy scale epsilon
                      saved sm siv s) cidx)
           ((if saved then b0 else 0) + (\<Sum>i\<leftarrow>sp_group n_batchs channels height width cidx. dy i))"
proof -
  have "dbias_ptr (miopenBNBwdSpatialRunHost n_batchs channels height width x dy scale epsilon
                      saved sm siv s) cidx
        = (\<lambda>i old. fold (\<lambda>(row, column, bidx) acc. dadd acc (Fin (dy (channels * height * width * bidx
                  + (height * width * i + width * row + column)))))
          (List.product [0..<height] (List.product [0..<width] [0..<n_batchs]))
          (if saved then old else Fin 0)) cidx (dbias_ptr (s\<lparr>xhat := \<lambda>i. Fin 0\<rparr>) cidx)"
    unfolding miopenBNBwdSpatialRunHost_def
    by (rule sp_cell_frame[OF assms(1), where obs = dbias_ptr]) (simp add: bwd_sp_channel_dbias)
  then show ?thesis
    using sp_dy_sum_agrees[OF assms(2), of dy channels height width cidx n_batchs]
      sp_dy_sum_agrees[of "Fin 0" 0 dy channels height width cidx n_batchs]
    by (cases saved) simp_all
qed

lemma bwd_sp_dscale_cell:
  assumes "cidx < channels"
  shows "dscale_ptr (miopenBNBwdSpatialRunHost n_batchs channels height width x dy scale epsilon
                      True sm siv s) cidx
        = ddiv (fold (\<lambda>(row, column, bidx) acc. dadd acc
                (dmul (dmul (dsub (Fin (x (channels * height * width * bidx
                  + (height * width * cidx + width * row + column)))) (sm cidx)) (siv cidx))
                  (Fin (dy (channels * height * width * bidx
                  + (height * width * cidx + width * row + column))))))
          (List.product [0..<height] (List.product [0..<width] [0..<n_batchs])) (dscale_ptr s cidx))
          (Fin (real (n_batchs * (height * width))))"
    and "dscale_ptr (miopenBNBwdSpatialRunHost n_batchs channels height width x dy scale epsilon
                      False sm siv s) cidx
        = ddiv (fold (\<lambda>(row, column, bidx) acc. dadd acc
                (dmul (dmul (dsub (Fin (x (channels * height * width * bidx
                  + (height * width * cidx + width * row + column))))
                     (ddiv (sp_sum n_batchs height width (channels * height * width) (height * width) x cidx)
                           (Fin (real (height * width * n_batchs)))))
                     (ddiv (Fin 1) (dsqrt (dadd
                        (ddiv (sp_sqsum n_batchs height width (channels * height * width) (height * width) x cidx
                           (ddiv (sp_sum n_batchs height width (channels * height * width) (height * width) x cidx)
                                 (Fin (real (height * width * n_batchs)))))
                         (Fin (real (height * width * n_batchs))))
                        (Fin epsilon)))))
                  (Fin (dy (channels * height * width * bidx
                  + (height * width * cidx + width * row + column))))))
          (List.product [0..<height] (List.product [0..<width] [0..<n_batchs])) (Fin 0))
          (Fin (real (height * width * n_batchs)))"
proof -
  have "dscale_ptr (miopenBNBwdSpatialRunHost n_batchs channels height width x dy scale epsilon
                      True sm siv s) cidx
        = (\<lambda>i old. ddiv (fold (\<lambda>(row, column, bidx) acc. dadd acc
                (dmul (dmul (dsub (Fin (x (channels * height * width * bidx
                  + (height * width * i + width * row + column)))) (sm i)) (siv i))
                  (Fin (dy (channels * height * width * bidx
                  + (height * width * i + width * row + column))))))
          (List.product [0..<height] (List.product [0..<width] [0..<n_batchs])) old)
          (Fin (real (n_batchs * (height * width))))) cidx (dscale_ptr (s\<lparr>xhat := \<lambda>i. Fin 0\<rparr>) cidx)"
    unfolding miopenBNBwdSpatialRunHost_def
    by (rule sp_cell_frame[OF assms(1), where obs = dscale_ptr]) (simp add: bwd_sp_channel_dscale_saved)
  then show "dscale_ptr (miopenBNBwdSpatialRunHost n_batchs channels height width x dy scale epsilon
                      True sm siv s) cidx
        = ddiv (fold (\<lambda>(row, column, bidx) acc. dadd acc
                (dmul (dmul (dsub (Fin (x (channels * height * width * bidx
                  + (height * width * cidx + width * row + column)))) (sm cidx)) (siv cidx))
                  (Fin (dy (channels * height * width * bidx
                  + (height * width * cidx + width * row + column))))))
          (List.product [0..<height] (List.product [0..<width] [0..<n_batchs])) (dscale_ptr s cidx))
          (Fin (real (n_batchs * (height * width))))"
    by simp
  show "dscale_ptr (miopenBNBwdSpatialRunHost n_batchs channels height width x dy scale epsilon
                      False sm siv s) cidx
        = ddiv (fold (\<lambda>(row, column, bidx) acc. dadd acc
                (dmul (dmul (dsub (Fin (x (channels * height * width * bidx
                  + (height * width * cidx + width * row + column))))
                     (ddiv (sp_sum n_batchs height width (channels * height * width) (height * width) x cidx)
                           (Fin (real (height * width * n_batchs)))))
                     (ddiv (Fin 1) (dsqrt (dadd
                        (ddiv (sp_sqsum n_batchs height width (channels * height * width) (height * width) x cidx
                           (ddiv (sp_sum n_batchs height width (channels * height * width) (height * width) x cidx)
                                 (Fin (real (height * width * n_batchs)))))
                         (Fin (real (height * width * n_batchs))))
                        (Fin epsilon)))))
                  (Fin (dy (channels * height * width * bidx
                  + (height * width * cidx + width * row + column))))))
          (List.product [0..<height] (List.product [0..<width] [0..<n_batchs])) (Fin 0))
          (Fin (real (height * width * n_batchs)))"
    unfolding miopenBNBwdSpatialRunHost_def
    by (rule sp_cell_frame[OF assms(1), where obs = dscale_ptr and W = "\<lambda>i _.
          ddiv (fold (\<lambda>(row, column, bidx) acc. dadd acc
                (dmul (dmul (dsub (Fin (x (channels * height * width * bidx
                  + (height * width * i + width * row + column))))
                     (ddiv (sp_sum n_batchs height width (channels * height * width) (height * width) x i)
                           (Fin (real (height * width * n_batchs)))))
                     (ddiv (Fin 1) (dsqrt (dadd
                        (ddiv (sp_sqsum n_batchs height width (channels * height * width) (height * width) x i
                           (ddiv (sp_sum n_batchs height width (channels * height * width) (height * width) x i)
                                 (Fin (real (height * width * n_batchs)))))
                         (Fin (real (height * width * n_batchs))))
                        (Fin epsilon)))))
                  (Fin (dy (channels * height * width * bidx
                  + (height * width * i + width * row + column))))))
          (List.product [0..<height] (List.product [0..<width] [0..<n_batchs])) (Fin 0))
          (Fin (real (height * width * n_batchs)))"])
       (simp only: bwd_sp_channel_dscale_recomputed)
qed

lemma bwd_sp_dscale_saved:
  assumes "cidx < channels"
    "agrees (sm cidx) m" "agrees (siv cidx) iv" "agrees (dscale_ptr s cidx) d0"
  shows "agrees (dscale_ptr (miopenBNBwdSpatialRunHost n_batchs channels height width x dy scale epsilon
                      True sm siv s) cidx)
           ((d0 + (\<Sum>i\<leftarrow>sp_group n_batchs channels height width cidx. spec_xhat m iv (x i) * dy i))
                 / real (n_batchs * height * width))"
proof -
  have "agrees (ddiv (fold (\<lambda>(row, column, bidx) acc. dadd acc
                (dmul (dmul (dsub (Fin (x (channels * height * width * bidx
                  + (height * width * cidx + width * row + column)))) (sm cidx)) (siv cidx))
                  (Fin (dy (channels * height * width * bidx
                  + (height * width * cidx + width * row + column))))))
          (List.product [0..<height] (List.product [0..<width] [0..<n_batchs])) (dscale_ptr s cidx))
          (Fin (real (n_batchs * (height * width)))))
        ((d0 + (\<Sum>i\<leftarrow>sp_group n_batchs channels height width cidx. spec_xhat m iv (x i) * dy i))
                 / real (n_batchs * (height * width)))"
    by (intro agrees_div sp_xhat_sum_agrees assms) simp
  then show ?thesis
    unfolding bwd_sp_dscale_cell(1)[OF assms(1)] by (simp add: mult.assoc)
qed

lemma bwd_sp_dscale_recomputed:
  assumes "cidx < channels"
  shows "agrees (dscale_ptr (miopenBNBwdSpatialRunHost n_batchs channels height width x dy scale epsilon
                      False sm siv s) cidx)
           ((\<Sum>i\<leftarrow>sp_group n_batchs channels height width cidx.
                    spec_xhat (spec_mean x (sp_group n_batchs channels height width cidx))
                      (spec_invstd (spec_variance x (sp_group n_batchs channels height width cidx)) epsilon)
                      (x i) * dy i)
                 / real (n_batchs * height * width))"
proof -
  have "agrees (ddiv (fold (\<lambda>(row, column, bidx) acc. dadd acc
                (dmul (dmul (dsub (Fin (x (channels * height * width * bidx
                  + (height * width * cidx + width * row + column))))
                     (ddiv (sp_sum n_batchs height width (channels * height * width) (height * width) x cidx)
                           (Fin (real (height * width * n_batchs)))))
                     (ddiv (Fin 1) (dsqrt (dadd
                        (ddiv (sp_sqsum n_batchs height width (channels * height * width) (height * width) x cidx
                           (ddiv (sp_sum n_batchs height width (channels * height * width) (height * width) x cidx)
                                 (Fin (real (height * width * n_batchs)))))
                         (Fin (real (height * width * n_batchs))))
                        (Fin epsilon)))))
                  (Fin (dy (channels * height * width * bidx
                  + (height * width * cidx + width * row + column))))))
          (List.product [0..<height] (List.product [0..<width] [0..<n_batchs])) (Fin 0))
          (Fin (real (height * width * n_batchs))))
        ((0 + (\<Sum>i\<leftarrow>sp_group n_batchs channels height width cidx.
                    spec_xhat (spec_mean x (sp_group n_batchs channels height width cidx))
                      (spec_invstd (spec_variance x (sp_group n_batchs channels height width cidx)) epsilon)
                      (x i) * dy i))
                 / real (height * width * n_batchs))"
    by (intro agrees_div sp_xhat_sum_agrees invstd_agrees sp_mean_agrees sp_variance_spec) simp_all
  then show ?thesis
    unfolding bwd_sp_dscale_cell(2)[OF assms(1)] by (simp add: mult.commute mult.left_commute)
qed

lemma bwd_sp_dbias_recomputed:
  assumes "cidx < channels"
  shows "agrees (dbias_ptr (miopenBNBwdSpatialRunHost n_batchs channels height width x dy scale epsilon
                      False sm siv s) cidx)
           (\<Sum>i\<leftarrow>sp_group n_batchs channels height width cidx. dy i)"
proof -
  have "dbias_ptr (miopenBNBwdSpatialRunHost n_batchs channels height width x dy scale epsilon
                      False sm siv s) cidx
        = (\<lambda>i old. fold (\<lambda>(row, column, bidx) acc. dadd acc (Fin (dy (channels * height * width * bidx
                  + (height * width * i + width * row + column)))))
          (List.product [0..<height] (List.product [0..<width] [0..<n_batchs]))
          (Fin 0)) cidx (dbias_ptr (s\<lparr>xhat := \<lambda>i. Fin 0\<rparr>) cidx)"
    unfolding miopenBNBwdSpatialRunHost_def
    by (rule sp_cell_frame[OF assms(1), where obs = dbias_ptr]) (simp add: bwd_sp_channel_dbias)
  then show ?thesis
    using sp_dy_sum_agrees[of "Fin 0" 0 dy channels height width cidx n_batchs] by simp
qed

section \<open>C5: the emitted accumulators\<close>

lemma upt_4: "[0..<4] = [0, 1, 2, 3]"
  by (simp add: upt_rec)

text \<open>
  What the spatial input-gradient loops make of the divided accumulator. One channel of four
  elements, \<open>x = [1, 2, 3, 4]\<close>, \<open>dy = [1, 0, 0, 0]\<close>, \<open>scale = 1\<close>, \<open>epsilon = 11/4\<close>
  (mean \<open>5/2\<close>, variance \<open>5/4\<close>, \<open>invVar = 1/2\<close>): the sum of \<open>xhat_i * dy_i\<close> is
  \<open>-3/4\<close> and the call emits \<open>dscale = -3/16\<close>. The loops of lines 962-975 read that
  value back into the expression of the input gradient, which is written for the sum, and
  store \<open>dx[0] = 183/512\<close>; with the sum the expression gives \<open>39/128\<close>.
\<close>

lemma spatial_dx_reads_divided_dscale:
  "dscale_ptr (miopenBNBwdSpatialRunHost 4 1 1 1 (\<lambda>i. real i + 1) (\<lambda>i. if i = 0 then 1 else 0)
       (\<lambda>i. 1) (11 / 4) False (\<lambda>i. NaN) (\<lambda>i. NaN) (const_bufs 0)) 0 = Fin (- 3 / 16)
   \<and> dbias_ptr (miopenBNBwdSpatialRunHost 4 1 1 1 (\<lambda>i. real i + 1) (\<lambda>i. if i = 0 then 1 else 0)
       (\<lambda>i. 1) (11 / 4) False (\<lambda>i. NaN) (\<lambda>i. NaN) (const_bufs 0)) 0 = Fin 1
   \<and> dx_ptr (miopenBNBwdSpatialRunHost 4 1 1 1 (\<lambda>i. real i + 1) (\<lambda>i. if i = 0 then 1 else 0)
       (\<lambda>i. 1) (11 / 4) False (\<lambda>i. NaN) (\<lambda>i. NaN) (const_bufs 0)) 0 = Fin (183 / 512)
   \<and> (\<Sum>i\<leftarrow>sp_group 4 1 1 1 0. spec_xhat (5 / 2) (1 / 2) (real i + 1) * (if i = 0 then 1 else 0))
     = - 3 / 4
   \<and> spec_dx 4 1 (1 / 2) 1 (spec_xhat (5 / 2) (1 / 2) 1) 1 (- 3 / 4) = 39 / 128
   \<and> spec_dx 4 1 (1 / 2) 1 (spec_xhat (5 / 2) (1 / 2) 1) 1 (- 3 / 16) = 183 / 512"
  by (simp add: bwd_eval upt_4 spec_dx_def spec_xhat_def sp_group_def lin_index_def adj_index_def)

text \<open>
  C5. Claim: after a backward call the emitted \<open>dbias[g]\<close> is the sum of the \<open>dy_i\<close> of
  the group and the emitted \<open>dscale[g]\<close> is the sum of the \<open>xhat_i * dy_i\<close>, not divided
  by the group size.

  \<open>dbias\<close> is that sum. \<open>dscale\<close> is not: every path divides the sum,
  \<open>dscale_ptr[adjIndex] /= double(n_batchs)\<close> (lines 654, 716) and
  \<open>dscale_ptr[cidx] /= NHW\<close> (lines 794, 960), and the spatial loops then use the quotient
  where their own expression of the input gradient has the sum. On the group \<open>x = [1, 3]\<close>,
  \<open>dy = [1, 0]\<close> with \<open>mean = 2\<close>, \<open>invVar = 1/2\<close> and zeroed buffers, the sum is
  \<open>-1/2\<close> and all four paths emit \<open>-1/4\<close>.
\<close>

theorem C5_dscale_is_divided:
  "dscale_ptr (miopenBNBwdPerActivationRunHost 2 1 1 1 (\<lambda>i. if i = 0 then 1 else 3)
       (\<lambda>i. if i = 0 then 1 else 0) (\<lambda>i. 1) 3 True (\<lambda>i. Fin 2) (\<lambda>i. Fin (1 / 2)) (const_bufs 0)) 0
     \<noteq> Fin (\<Sum>i\<leftarrow>pa_group 2 1 1 1 0.
                spec_xhat 2 (1 / 2) ((\<lambda>i. if i = 0 then 1 else 3) i) * (\<lambda>i. if i = 0 then 1 else 0) i)
   \<and> (\<Sum>i\<leftarrow>pa_group 2 1 1 1 0.
          spec_xhat 2 (1 / 2) ((\<lambda>i. if i = 0 then 1 else 3) i) * (\<lambda>i. if i = 0 then 1 else 0) i)
     = - 1 / 2
   \<and> dscale_ptr (miopenBNBwdPerActivationRunHost 2 1 1 1 (\<lambda>i. if i = 0 then 1 else 3)
       (\<lambda>i. if i = 0 then 1 else 0) (\<lambda>i. 1) 3 True (\<lambda>i. Fin 2) (\<lambda>i. Fin (1 / 2)) (const_bufs 0)) 0
     = Fin (- 1 / 4)
   \<and> dscale_ptr (miopenBNBwdPerActivationRunHost 2 1 1 1 (\<lambda>i. if i = 0 then 1 else 3)
       (\<lambda>i. if i = 0 then 1 else 0) (\<lambda>i. 1) 3 False (\<lambda>i. NonFin) (\<lambda>i. NonFin) (const_bufs 0)) 0
     = Fin (- 1 / 4)
   \<and> dscale_ptr (miopenBNBwdSpatialRunHost 2 1 1 1 (\<lambda>i. if i = 0 then 1 else 3)
       (\<lambda>i. if i = 0 then 1 else 0) (\<lambda>i. 1) 3 True (\<lambda>i. Fin 2) (\<lambda>i. Fin (1 / 2)) (const_bufs 0)) 0
     = Fin (- 1 / 4)
   \<and> dscale_ptr (miopenBNBwdSpatialRunHost 2 1 1 1 (\<lambda>i. if i = 0 then 1 else 3)
       (\<lambda>i. if i = 0 then 1 else 0) (\<lambda>i. 1) 3 False (\<lambda>i. NonFin) (\<lambda>i. NonFin) (const_bufs 0)) 0
     = Fin (- 1 / 4)"
  by (simp add: bwd_eval spec_xhat_def pa_group_def)

section \<open>C6: the initial contents of the gradient buffers\<close>

text \<open>
  C6. Claim: two backward runs on the same inputs that differ only in the initial contents
  of the \<open>dscale\<close>, \<open>dbias\<close> and \<open>dx\<close> buffers end with the same contents in them, in
  either mode and on either statistics path.

  Only the spatial path that recomputes the statistics assigns \<open>dscale_ptr[cidx] = 0\<close> and
  \<open>dbias_ptr[cidx] = 0\<close> (lines 918-919) before it accumulates with \<open>+=\<close>; the two
  per-activation paths and the spatial path with saved statistics accumulate onto what the
  buffers hold. On the group \<open>x = [1, 3]\<close>, \<open>dy = [1, 0]\<close>, \<open>scale = 1\<close>,
  \<open>mean = 2\<close>, \<open>invVar = 1/2\<close>, buffers filled with 0 and buffers filled with 5 give
  different \<open>dbias\<close> and \<open>dscale\<close> on those three paths, and a different \<open>dx\<close> on the
  spatial path with saved statistics (which reads the accumulators back); the recomputing
  spatial path gives the same results from both.
\<close>

theorem C6_initial_contents_leak:
  "dbias_ptr (miopenBNBwdPerActivationRunHost 2 1 1 1 (\<lambda>i. if i = 0 then 1 else 3)
       (\<lambda>i. if i = 0 then 1 else 0) (\<lambda>i. 1) 3 True (\<lambda>i. Fin 2) (\<lambda>i. Fin (1 / 2)) (const_bufs 0)) 0
     = Fin 1
   \<and> dbias_ptr (miopenBNBwdPerActivationRunHost 2 1 1 1 (\<lambda>i. if i = 0 then 1 else 3)
       (\<lambda>i. if i = 0 then 1 else 0) (\<lambda>i. 1) 3 True (\<lambda>i. Fin 2) (\<lambda>i. Fin (1 / 2)) (const_bufs 5)) 0
     = Fin 6
   \<and> dscale_ptr (miopenBNBwdPerActivationRunHost 2 1 1 1 (\<lambda>i. if i = 0 then 1 else 3)
       (\<lambda>i. if i = 0 then 1 else 0) (\<lambda>i. 1) 3 True (\<lambda>i. Fin 2) (\<lambda>i. Fin (1 / 2)) (const_bufs 0)) 0
     = Fin (- 1 / 4)
   \<and> dscale_ptr (miopenBNBwdPerActivationRunHost 2 1 1 1 (\<lambda>i. if i = 0 then 1 else 3)
       (\<lambda>i. if i = 0 then 1 else 0) (\<lambda>i. 1) 3 True (\<lambda>i. Fin 2) (\<lambda>i. Fin (1 / 2)) (const_bufs 5)) 0
     = Fin (9 / 4)
   \<and> dbias_ptr (miopenBNBwdPerActivationRunHost 2 1 1 1 (\<lambda>i. if i = 0 then 1 else 3)
       (\<lambda>i. if i = 0 then 1 else 0) (\<lambda>i. 1) 3 False (\<lambda>i. NonFin) (\<lambda>i. NonFin) (const_bufs 0)) 0
     = Fin 1
   \<and> dbias_ptr (miopenBNBwdPerActivationRunHost 2 1 1 1 (\<lambda>i. if i = 0 then 1 else 3)
       (\<lambda>i. if i = 0 then 1 else 0) (\<lambda>i. 1) 3 False (\<lambda>i. NonFin) (\<lambda>i. NonFin) (const_bufs 5)) 0
     = Fin 6
   \<and> dbias_ptr (miopenBNBwdSpatialRunHost 2 1 1 1 (\<lambda>i. if i = 0 then 1 else 3)
       (\<lambda>i. if i = 0 then 1 else 0) (\<lambda>i. 1) 3 True (\<lambda>i. Fin 2) (\<lambda>i. Fin (1 / 2)) (const_bufs 0)) 0
     = Fin 1
   \<and> dbias_ptr (miopenBNBwdSpatialRunHost 2 1 1 1 (\<lambda>i. if i = 0 then 1 else 3)
       (\<lambda>i. if i = 0 then 1 else 0) (\<lambda>i. 1) 3 True (\<lambda>i. Fin 2) (\<lambda>i. Fin (1 / 2)) (const_bufs 5)) 0
     = Fin 6
   \<and> dx_ptr (miopenBNBwdSpatialRunHost 2 1 1 1 (\<lambda>i. if i = 0 then 1 else 3)
       (\<lambda>i. if i = 0 then 1 else 0) (\<lambda>i. 1) 3 True (\<lambda>i. Fin 2) (\<lambda>i. Fin (1 / 2)) (const_bufs 0)) 1
     = Fin (- 7 / 32)
   \<and> dx_ptr (miopenBNBwdSpatialRunHost 2 1 1 1 (\<lambda>i. if i = 0 then 1 else 3)
       (\<lambda>i. if i = 0 then 1 else 0) (\<lambda>i. 1) 3 True (\<lambda>i. Fin 2) (\<lambda>i. Fin (1 / 2)) (const_bufs 5)) 1
     = Fin (- 57 / 32)
   \<and> dbias_ptr (miopenBNBwdSpatialRunHost 2 1 1 1 (\<lambda>i. if i = 0 then 1 else 3)
       (\<lambda>i. if i = 0 then 1 else 0) (\<lambda>i. 1) 3 False (\<lambda>i. NonFin) (\<lambda>i. NonFin) (const_bufs 0)) 0
     = Fin 1
   \<and> dbias_ptr (miopenBNBwdSpatialRunHost 2 1 1 1 (\<lambda>i. if i = 0 then 1 else 3)
       (\<lambda>i. if i = 0 then 1 else 0) (\<lambda>i. 1) 3 False (\<lambda>i. NonFin) (\<lambda>i. NonFin) (const_bufs 5)) 0
     = Fin 1
   \<and> dx_ptr (miopenBNBwdSpatialRunHost 2 1 1 1 (\<lambda>i. if i = 0 then 1 else 3)
       (\<lambda>i. if i = 0 then 1 else 0) (\<lambda>i. 1) 3 False (\<lambda>i. NonFin) (\<lambda>i. NonFin) (const_bufs 0)) 1
     = Fin (- 7 / 32)
   \<and> dx_ptr (miopenBNBwdSpatialRunHost 2 1 1 1 (\<lambda>i. if i = 0 then 1 else 3)
       (\<lambda>i. if i = 0 then 1 else 0) (\<lambda>i. 1) 3 False (\<lambda>i. NonFin) (\<lambda>i. NonFin) (const_bufs 5)) 1
     = Fin (- 7 / 32)"
  by (simp add: bwd_eval)

section \<open>C8: the modes on a collapsed spatial extent\<close>

text \<open>
  C8. Claim: with \<open>channels = height = width = 1\<close> the per-activation and the spatial
  variant of each operation produce identical outputs from identical inputs, the backward
  ones identical \<open>dx\<close>, \<open>dscale\<close> and \<open>dbias\<close>.

  On the single group \<open>x = [1, 3]\<close>, \<open>dy = [1, 0]\<close>, \<open>scale = 1\<close>, \<open>epsilon = 3\<close>
  with zeroed gradient buffers both backward variants emit \<open>dbias = 1\<close> and
  \<open>dscale = -1/4\<close>, but the per-activation one writes \<open>dx = [3/16, 5/16]\<close> and the
  spatial one \<open>dx = [7/32, -7/32]\<close>, on the recomputing branch and on the branch with saved
  statistics alike.
\<close>

theorem C8_modes_differ_on_dx:
  "dx_ptr (miopenBNBwdPerActivationRunHost 2 1 1 1 (\<lambda>i. if i = 0 then 1 else 3)
       (\<lambda>i. if i = 0 then 1 else 0) (\<lambda>i. 1) 3 False (\<lambda>i. NonFin) (\<lambda>i. NonFin) (const_bufs 0)) 0
     = Fin (3 / 16)
   \<and> dx_ptr (miopenBNBwdSpatialRunHost 2 1 1 1 (\<lambda>i. if i = 0 then 1 else 3)
       (\<lambda>i. if i = 0 then 1 else 0) (\<lambda>i. 1) 3 False (\<lambda>i. NonFin) (\<lambda>i. NonFin) (const_bufs 0)) 0
     = Fin (7 / 32)
   \<and> dx_ptr (miopenBNBwdPerActivationRunHost 2 1 1 1 (\<lambda>i. if i = 0 then 1 else 3)
       (\<lambda>i. if i = 0 then 1 else 0) (\<lambda>i. 1) 3 False (\<lambda>i. NonFin) (\<lambda>i. NonFin) (const_bufs 0)) 1
     = Fin (5 / 16)
   \<and> dx_ptr (miopenBNBwdSpatialRunHost 2 1 1 1 (\<lambda>i. if i = 0 then 1 else 3)
       (\<lambda>i. if i = 0 then 1 else 0) (\<lambda>i. 1) 3 False (\<lambda>i. NonFin) (\<lambda>i. NonFin) (const_bufs 0)) 1
     = Fin (- 7 / 32)
   \<and> dx_ptr (miopenBNBwdPerActivationRunHost 2 1 1 1 (\<lambda>i. if i = 0 then 1 else 3)
       (\<lambda>i. if i = 0 then 1 else 0) (\<lambda>i. 1) 3 True (\<lambda>i. Fin 2) (\<lambda>i. Fin (1 / 2)) (const_bufs 0)) 1
     = Fin (5 / 16)
   \<and> dx_ptr (miopenBNBwdSpatialRunHost 2 1 1 1 (\<lambda>i. if i = 0 then 1 else 3)
       (\<lambda>i. if i = 0 then 1 else 0) (\<lambda>i. 1) 3 True (\<lambda>i. Fin 2) (\<lambda>i. Fin (1 / 2)) (const_bufs 0)) 1
     = Fin (- 7 / 32)
   \<and> dbias_ptr (miopenBNBwdPerActivationRunHost 2 1 1 1 (\<lambda>i. if i = 0 then 1 else 3)
       (\<lambda>i. if i = 0 then 1 else 0) (\<lambda>i. 1) 3 False (\<lambda>i. NonFin) (\<lambda>i. NonFin) (const_bufs 0)) 0
     = dbias_ptr (miopenBNBwdSpatialRunHost 2 1 1 1 (\<lambda>i. if i = 0 then 1 else 3)
       (\<lambda>i. if i = 0 then 1 else 0) (\<lambda>i. 1) 3 False (\<lambda>i. NonFin) (\<lambda>i. NonFin) (const_bufs 0)) 0
   \<and> dscale_ptr (miopenBNBwdPerActivationRunHost 2 1 1 1 (\<lambda>i. if i = 0 then 1 else 3)
       (\<lambda>i. if i = 0 then 1 else 0) (\<lambda>i. 1) 3 False (\<lambda>i. NonFin) (\<lambda>i. NonFin) (const_bufs 0)) 0
     = dscale_ptr (miopenBNBwdSpatialRunHost 2 1 1 1 (\<lambda>i. if i = 0 then 1 else 3)
       (\<lambda>i. if i = 0 then 1 else 0) (\<lambda>i. 1) 3 False (\<lambda>i. NonFin) (\<lambda>i. NonFin) (const_bufs 0)) 0"
  by (simp add: bwd_eval)

section \<open>C9: a zero-sized batch\<close>

lemma ddiv_zero [simp]: "ddiv a (Fin 0) = NonFin"
  by (cases a) simp_all

lemma fold_skip [simp]: "fold (\<lambda>k s. s) ks s = s"
  by (induction ks) simp_all

lemma fold_skip2 [simp]: "fold (\<lambda>i. fold (\<lambda>j s. s) ys) xs s = s"
  by (induction xs) simp_all

lemma nest_empty:
  "fold (\<lambda>i. fold (\<lambda>j. fold (\<lambda>k. F i j k) [0..<0]) [0..<b]) [0..<a] s = s"
  by (rule loop3_untouched[where obs = "\<lambda>s. s"]) simp

lemma empty_batch_out:
  "out_ptr (miopenBNFwdTrainPerActivationRunHost 0 channels height width x scale bias epsilon sv rn f s)
   = out_ptr s"
  "out_ptr (miopenBNFwdTrainSpatialRunHost 0 channels height width x scale bias epsilon sv rn f s)
   = out_ptr s"
  "miopenBNFwdInferPerActivationRunHost 0 channels height width x scale bias epsilon est em ev out = out"
  "miopenBNFwdInferSpatialRunHost 0 channels height width x scale bias epsilon est em ev out = out"
proof -
  show pa: "miopenBNFwdInferPerActivationRunHost 0 channels height width x scale bias epsilon est em ev out = out"
    for est em ev out
    unfolding miopenBNFwdInferPerActivationRunHost_def
    by (rule loop3_untouched[where obs = "\<lambda>s. s"])
       (simp add: fwd_infer_pa_group_def pa_normalize_def Let_def)
  show sp: "miopenBNFwdInferSpatialRunHost 0 channels height width x scale bias epsilon est em ev out = out"
    for est em ev out
    unfolding miopenBNFwdInferSpatialRunHost_def
    by (rule loop1_untouched[where obs = "\<lambda>s. s"])
       (simp add: fwd_infer_sp_channel_def sp_normalize_est_def sp_scale_def sp_center_def sp_sum_def
          Let_def nest_empty)
  show "out_ptr (miopenBNFwdTrainPerActivationRunHost 0 channels height width x scale bias epsilon sv rn f s)
        = out_ptr s"
    unfolding fwd_train_pa_infer[where em = "\<lambda>i. NonFin" and ev = "\<lambda>i. NonFin"] by (rule pa)
  show "out_ptr (miopenBNFwdTrainSpatialRunHost 0 channels height width x scale bias epsilon sv rn f s)
        = out_ptr s"
    unfolding fwd_train_sp_infer[where em = "\<lambda>i. NonFin" and ev = "\<lambda>i. NonFin"] by (rule sp)
qed

lemma empty_batch_dx:
  "dx_ptr (miopenBNBwdPerActivationRunHost 0 channels height width x dy scale epsilon saved sm siv s)
   = dx_ptr s"
  "dx_ptr (miopenBNBwdSpatialRunHost 0 channels height width x dy scale epsilon saved sm siv s)
   = dx_ptr s"
proof -
  have "dx_ptr (miopenBNBwdPerActivationRunHost 0 channels height width x dy scale epsilon saved sm siv s)
        = dx_ptr (s\<lparr>xhat := \<lambda>i. Fin 0\<rparr>)"
    unfolding miopenBNBwdPerActivationRunHost_def
    by (rule loop3_untouched)
       (simp add: bwd_pa_group_def bwd_pa_accumulate_def bwd_pa_dx_def Let_def)
  then show "dx_ptr (miopenBNBwdPerActivationRunHost 0 channels height width x dy scale epsilon saved sm siv s)
        = dx_ptr s" by simp
  have "dx_ptr (miopenBNBwdSpatialRunHost 0 channels height width x dy scale epsilon saved sm siv s)
        = dx_ptr (s\<lparr>xhat := \<lambda>i. Fin 0\<rparr>)"
    unfolding miopenBNBwdSpatialRunHost_def
    by (rule loop1_untouched)
       (simp add: bwd_sp_channel_def bwd_sp_accumulate_saved_def bwd_sp_accumulate_def
          bwd_sp_dx_saved_def bwd_sp_dx_def Let_def nest_empty)
  then show "dx_ptr (miopenBNBwdSpatialRunHost 0 channels height width x dy scale epsilon saved sm siv s)
        = dx_ptr s" by simp
qed

lemma empty_batch_saveMean:
  assumes "cidx < channels" "row < height" "column < width"
  shows "saveMean (miopenBNFwdTrainPerActivationRunHost 0 channels height width x scale bias
                    epsilon True rn f s) (adj_index height width cidx row column) = NonFin"
    and "saveMean (miopenBNFwdTrainSpatialRunHost 0 channels height width x scale bias
                    epsilon True rn f s) cidx = NonFin"
proof -
  have "saveMean (miopenBNFwdTrainPerActivationRunHost 0 channels height width x scale bias
                    epsilon True rn f s) (height * width * cidx + width * row + column)
        = (\<lambda>i j k _. pa_mean 0 (channels * height * width) x (height * width * i + width * j + k))
            cidx row column (saveMean s (height * width * cidx + width * row + column))"
    unfolding miopenBNFwdTrainPerActivationRunHost_def
    by (rule pa_cell_frame[OF assms(1-3), where obs = saveMean]) (simp add: fwd_train_pa_group_stats)
  then show "saveMean (miopenBNFwdTrainPerActivationRunHost 0 channels height width x scale bias
                    epsilon True rn f s) (adj_index height width cidx row column) = NonFin"
    by (simp add: pa_mean_def adj_index_def)
  have "saveMean (miopenBNFwdTrainSpatialRunHost 0 channels height width x scale bias
                    epsilon True rn f s) cidx
        = (\<lambda>i _. NonFin) cidx (saveMean s cidx)"
    unfolding miopenBNFwdTrainSpatialRunHost_def
    by (rule sp_cell_frame[OF assms(1), where obs = saveMean])
       (simp add: fwd_train_sp_channel_def Let_def case_prod_unfold)
  then show "saveMean (miopenBNFwdTrainSpatialRunHost 0 channels height width x scale bias
                    epsilon True rn f s) cidx = NonFin"
    by simp
qed

lemma empty_batch_dscale:
  assumes "cidx < channels" "row < height" "column < width"
  shows "dscale_ptr (miopenBNBwdPerActivationRunHost 0 channels height width x dy scale epsilon
                      saved sm siv s) (adj_index height width cidx row column) = NonFin"
    and "dscale_ptr (miopenBNBwdSpatialRunHost 0 channels height width x dy scale epsilon
                      saved sm siv s) cidx = NonFin"
proof -
  show "dscale_ptr (miopenBNBwdPerActivationRunHost 0 channels height width x dy scale epsilon
                      saved sm siv s) (adj_index height width cidx row column) = NonFin"
    unfolding adj_index_def bwd_pa_dscale_raw[OF assms] by simp
  have "dscale_ptr (miopenBNBwdSpatialRunHost 0 channels height width x dy scale epsilon
                      saved sm siv s) cidx
        = (\<lambda>i _. NonFin) cidx (dscale_ptr (s\<lparr>xhat := \<lambda>i. Fin 0\<rparr>) cidx)"
    unfolding miopenBNBwdSpatialRunHost_def
    by (rule sp_cell_frame[OF assms(1), where obs = dscale_ptr])
       (simp add: bwd_sp_channel_def Let_def bwd_sp_dx_keeps bwd_sp_accumulate_saved_def
          bwd_sp_accumulate_def)
  then show "dscale_ptr (miopenBNBwdSpatialRunHost 0 channels height width x dy scale epsilon
                      saved sm siv s) cidx = NonFin"
    by simp
qed


text \<open>
  C9. Claim: every entry point rejects a zero-sized batch before any reduction loop, so that
  no reduction is performed, no output or statistics buffer is written and no division by
  the group size occurs.

  No entry point tests its arguments. With \<open>n_batchs = 0\<close> and one group
  (\<open>channels = height = width = 1\<close>) the group loops run: the training calls divide the
  empty sum by \<open>double(0)\<close> and store the non-finite result over \<open>saveMean[0]\<close> and
  \<open>runningMean[0]\<close>, and the backward calls divide \<open>dscale[0]\<close> by the zero group size.
\<close>

theorem C9_zero_batch_is_processed:
  "saveMean (const_train_bufs 5) 0 = Fin 5
   \<and> saveMean (miopenBNFwdTrainPerActivationRunHost 0 1 1 1 (\<lambda>i. 1) (\<lambda>i. 2) (\<lambda>i. 5) 3 True True
                 (1 / 2) (const_train_bufs 5)) 0 = NonFin
   \<and> runningMean (miopenBNFwdTrainPerActivationRunHost 0 1 1 1 (\<lambda>i. 1) (\<lambda>i. 2) (\<lambda>i. 5) 3 True True
                 (1 / 2) (const_train_bufs 5)) 0 = NonFin
   \<and> saveMean (miopenBNFwdTrainSpatialRunHost 0 1 1 1 (\<lambda>i. 1) (\<lambda>i. 2) (\<lambda>i. 5) 3 True True
                 (1 / 2) (const_train_bufs 5)) 0 = NonFin
   \<and> runningMean (miopenBNFwdTrainSpatialRunHost 0 1 1 1 (\<lambda>i. 1) (\<lambda>i. 2) (\<lambda>i. 5) 3 True True
                 (1 / 2) (const_train_bufs 5)) 0 = NonFin
   \<and> dscale_ptr (const_bufs 5) 0 = Fin 5
   \<and> dscale_ptr (miopenBNBwdPerActivationRunHost 0 1 1 1 (\<lambda>i. 1) (\<lambda>i. 1) (\<lambda>i. 1) 3 True
                 (\<lambda>i. Fin 2) (\<lambda>i. Fin (1 / 2)) (const_bufs 5)) 0 = NonFin
   \<and> dscale_ptr (miopenBNBwdSpatialRunHost 0 1 1 1 (\<lambda>i. 1) (\<lambda>i. 1) (\<lambda>i. 1) 3 True
                 (\<lambda>i. Fin 2) (\<lambda>i. Fin (1 / 2)) (const_bufs 5)) 0 = NonFin"
  by (simp add: miopenBNFwdTrainPerActivationRunHost_def fwd_train_pa_group_def
        pa_normalize_def miopenBNFwdTrainSpatialRunHost_def fwd_train_sp_channel_def
        sp_sum_guarded_def sp_center_guarded_def sp_scale_guarded_def const_train_bufs_def
        bwd_eval)

text \<open>
  C9, amended. No entry point checks its configuration. With \<open>n_batchs = 0\<close> the loops
  over the mini-batch do not run, so all six entry points leave the output buffer (\<open>y\<close> or
  \<open>dx\<close>) as it was; the loops over the groups do run, and for every group a training call
  that saves its statistics stores a non-finite \<open>saveMean\<close> (the empty sum divided by zero)
  and a backward call stores a non-finite \<open>dscale\<close> (divided by the zero group size).
\<close>

theorem C9_zero_batch_behaviour:
  assumes "cidx < channels" "row < height" "column < width"
  shows
  "out_ptr (miopenBNFwdTrainPerActivationRunHost 0 channels height width x scale bias epsilon
              savemeanvar runningmeanvar expAvgFactor s) = out_ptr s
   \<and> out_ptr (miopenBNFwdTrainSpatialRunHost 0 channels height width x scale bias epsilon
              savemeanvar runningmeanvar expAvgFactor s) = out_ptr s
   \<and> miopenBNFwdInferPerActivationRunHost 0 channels height width x scale bias epsilon
         estmeanvar estimatedMean estimatedVariance out = out
   \<and> miopenBNFwdInferSpatialRunHost 0 channels height width x scale bias epsilon
         estmeanvar estimatedMean estimatedVariance out = out
   \<and> dx_ptr (miopenBNBwdPerActivationRunHost 0 channels height width x dy scale epsilon
              savedmeanvar savedMean savedInvVariance t) = dx_ptr t
   \<and> dx_ptr (miopenBNBwdSpatialRunHost 0 channels height width x dy scale epsilon
              savedmeanvar savedMean savedInvVariance t) = dx_ptr t
   \<and> saveMean (miopenBNFwdTrainPerActivationRunHost 0 channels height width x scale bias epsilon
              True runningmeanvar expAvgFactor s) (adj_index height width cidx row column) = NonFin
   \<and> saveMean (miopenBNFwdTrainSpatialRunHost 0 channels height width x scale bias epsilon
              True runningmeanvar expAvgFactor s) cidx = NonFin
   \<and> dscale_ptr (miopenBNBwdPerActivationRunHost 0 channels height width x dy scale epsilon
              savedmeanvar savedMean savedInvVariance t) (adj_index height width cidx row column) = NonFin
   \<and> dscale_ptr (miopenBNBwdSpatialRunHost 0 channels height width x dy scale epsilon
              savedmeanvar savedMean savedInvVariance t) cidx = NonFin"
  by (intro conjI empty_batch_out empty_batch_dx empty_batch_saveMean[OF assms]
        empty_batch_dscale[OF assms])

theorem C9_zero_batch_behaviour_witness:
  "(0::nat) < 1
   \<and> out_ptr (miopenBNFwdTrainPerActivationRunHost 0 1 1 1 (\<lambda>i. 1) (\<lambda>i. 2) (\<lambda>i. 5) 3 True True
                (1 / 2) (const_train_bufs 5)) = (\<lambda>i. Fin 5)
   \<and> out_ptr (miopenBNFwdTrainSpatialRunHost 0 1 1 1 (\<lambda>i. 1) (\<lambda>i. 2) (\<lambda>i. 5) 3 True True
                (1 / 2) (const_train_bufs 5)) = (\<lambda>i. Fin 5)
   \<and> miopenBNFwdInferPerActivationRunHost 0 1 1 1 (\<lambda>i. 1) (\<lambda>i. 2) (\<lambda>i. 5) 3 True
         (\<lambda>i. Fin 2) (\<lambda>i. Fin 1) (\<lambda>i. Fin 5) = (\<lambda>i. Fin 5)
   \<and> miopenBNFwdInferSpatialRunHost 0 1 1 1 (\<lambda>i. 1) (\<lambda>i. 2) (\<lambda>i. 5) 3 True
         (\<lambda>i. Fin 2) (\<lambda>i. Fin 1) (\<lambda>i. Fin 5) = (\<lambda>i. Fin 5)
   \<and> dx_ptr (miopenBNBwdPerActivationRunHost 0 1 1 1 (\<lambda>i. 1) (\<lambda>i. 1) (\<lambda>i. 2) 3 True
                (\<lambda>i. Fin 2) (\<lambda>i. Fin (1 / 2)) (const_bufs 5)) = (\<lambda>i. Fin 5)
   \<and> dx_ptr (miopenBNBwdSpatialRunHost 0 1 1 1 (\<lambda>i. 1) (\<lambda>i. 1) (\<lambda>i. 2) 3 True
                (\<lambda>i. Fin 2) (\<lambda>i. Fin (1 / 2)) (const_bufs 5)) = (\<lambda>i. Fin 5)
   \<and> saveMean (miopenBNFwdTrainPerActivationRunHost 0 1 1 1 (\<lambda>i. 1) (\<lambda>i. 2) (\<lambda>i. 5) 3 True True
                (1 / 2) (const_train_bufs 5)) 0 = NonFin
   \<and> saveMean (miopenBNFwdTrainSpatialRunHost 0 1 1 1 (\<lambda>i. 1) (\<lambda>i. 2) (\<lambda>i. 5) 3 True True
                (1 / 2) (const_train_bufs 5)) 0 = NonFin
   \<and> dscale_ptr (miopenBNBwdPerActivationRunHost 0 1 1 1 (\<lambda>i. 1) (\<lambda>i. 1) (\<lambda>i. 2) 3 True
                (\<lambda>i. Fin 2) (\<lambda>i. Fin (1 / 2)) (const_bufs 5)) 0 = NonFin
   \<and> dscale_ptr (miopenBNBwdSpatialRunHost 0 1 1 1 (\<lambda>i. 1) (\<lambda>i. 1) (\<lambda>i. 2) 3 True
                (\<lambda>i. Fin 2) (\<lambda>i. Fin (1 / 2)) (const_bufs 5)) 0 = NonFin"
  using C9_zero_batch_behaviour[where cidx = 0 and channels = 1 and row = 0 and height = 1
      and column = 0 and width = 1 and x = "\<lambda>i. 1" and scale = "\<lambda>i. 2" and bias = "\<lambda>i. 5"
      and epsilon = 3 and savemeanvar = True and runningmeanvar = True and expAvgFactor = "1 / 2"
      and s = "const_train_bufs 5" and estmeanvar = True and estimatedMean = "\<lambda>i. Fin 2"
      and estimatedVariance = "\<lambda>i. Fin 1" and out = "\<lambda>i. Fin 5" and dy = "\<lambda>i. 1"
      and savedmeanvar = True and savedMean = "\<lambda>i. Fin 2" and savedInvVariance = "\<lambda>i. Fin (1 / 2)"
      and t = "const_bufs 5"]
  by (clarsimp simp add: adj_index_def const_train_bufs_def const_bufs_def)

end
